(* ===== verification/Py_Prelude.thy ===== *)
theory Py_Prelude
  imports Complex_Main "HOL-Library.Sublist" "HOL-Library.State_Monad"
begin

text \<open>
  Shared vocabulary of the development: the Python exceptions the script can raise, the
  scalar built-ins it uses (\<open>int()\<close> on a float, \<open>min\<close>/\<open>max\<close> clamping,
  \<open>str.lower\<close>, the substring test \<open>a in b\<close>), association-list lemmas used by the
  dictionary model of \<open>Json\<close>, and the named lemma collections the component
  theories extend.
\<close>

named_theorems py_simps "evaluation rules for the Python built-ins of the model"
named_theorems dict_simps "rules for Python dictionaries as association lists"

section \<open>Exceptions\<close>

text \<open>
  Every exception the script can raise on a malformed document is a value of
  \<open>py_error\<close>; \<open>SysExit n\<close> is \<open>sys.exit(n)\<close>. A computation that may raise
  has type \<open>py_error + 'a\<close> (\<open>Inl\<close> the exception).
\<close>

datatype py_error =
    TypeError
  | AttributeError
  | KeyError
  | IndexError
  | ValueError
  | SysExit int

type_synonym 'a py_result = "py_error + 'a"

definition py_bind :: "'a py_result \<Rightarrow> ('a \<Rightarrow> 'b py_result) \<Rightarrow> 'b py_result" where
  "py_bind r f = (case r of Inl e \<Rightarrow> Inl e | Inr x \<Rightarrow> f x)"

lemma py_bind_Inl [simp]: "py_bind (Inl e) f = Inl e"
  and py_bind_Inr [simp]: "py_bind (Inr x) f = f x"
  by (simp_all add: py_bind_def)

lemma py_bind_eq_Inr:
  "py_bind r f = Inr y \<longleftrightarrow> (\<exists>x. r = Inr x \<and> f x = Inr y)"
  by (cases r) simp_all

section \<open>Numbers\<close>

text \<open>
  Python's \<open>int(x)\<close> on a float truncates towards zero; HOL's \<open>floor\<close> rounds
  down. Floats are modelled as exact reals (see the root theory's header).
\<close>

definition py_int :: "real \<Rightarrow> int" where
  "py_int x = (if 0 \<le> x then \<lfloor>x\<rfloor> else \<lceil>x\<rceil>)"

text \<open>\<open>min(hi, max(lo, v))\<close>, the clamping idiom of the script.\<close>

definition clamp :: "int \<Rightarrow> int \<Rightarrow> int \<Rightarrow> int" where
  "clamp lo hi v = min hi (max lo v)"

lemma clamp_bounds [simp]: "lo \<le> hi \<Longrightarrow> lo \<le> clamp lo hi v \<and> clamp lo hi v \<le> hi"
  by (simp add: clamp_def)

lemma clamp_id: "lo \<le> v \<Longrightarrow> v \<le> hi \<Longrightarrow> clamp lo hi v = v"
  by (simp add: clamp_def)

lemma py_int_nonneg: "0 \<le> x \<Longrightarrow> py_int x = \<lfloor>x\<rfloor>"
  by (simp add: py_int_def)

lemma py_int_neg_le0: "x < 0 \<Longrightarrow> py_int x \<le> 0"
  by (simp add: py_int_def ceiling_le_iff)

text \<open>
  Truncation and flooring differ only on negative non-integers, which the lower clamp
  at 0 maps to 0 either way: clamping \<open>int(x)\<close> to \<open>[0, hi]\<close> is clamping
  \<open>floor x\<close>.
\<close>

lemma clamp0_py_int_floor: "clamp 0 hi (py_int x) = clamp 0 hi \<lfloor>x\<rfloor>"
proof (cases "0 \<le> x")
  case True
  then show ?thesis by (simp add: py_int_nonneg)
next
  case False
  then have "py_int x \<le> 0" and "\<lfloor>x\<rfloor> \<le> 0" by (simp_all add: py_int_neg_le0)
  then show ?thesis by (simp add: clamp_def)
qed

lemma clamp0_mono: "a \<le> b \<Longrightarrow> clamp 0 hi a \<le> clamp 0 hi b"
  by (simp add: clamp_def)

section \<open>Strings\<close>

text \<open>
  \<open>str.lower\<close> on ASCII letters; characters are bytes, so non-ASCII case mapping of
  Python's Unicode strings is not modelled.
\<close>

definition lower_char :: "char \<Rightarrow> char" where
  "lower_char c = (if 65 \<le> (of_char c :: nat) \<and> (of_char c :: nat) \<le> 90 then char_of (of_char c + (32::nat)) else c)"

definition py_lower :: "string \<Rightarrow> string" where
  "py_lower s = map lower_char s"

text \<open>\<open>a in b\<close> for strings: \<open>a\<close> occurs contiguously in \<open>b\<close>.\<close>

definition py_substr :: "string \<Rightarrow> string \<Rightarrow> bool" where
  "py_substr a b = sublist a b"

lemma py_substr_refl [simp]: "py_substr a a"
  by (simp add: py_substr_def)

lemma length_py_lower [simp]: "length (py_lower s) = length s"
  by (simp add: py_lower_def)

text \<open>\<open>str(n)\<close> for a Python int: decimal digits with a leading minus sign.\<close>

fun nat_digits :: "nat \<Rightarrow> string" where
  "nat_digits n = (if n < 10 then [char_of (48 + n)]
                   else nat_digits (n div 10) @ [char_of (48 + n mod 10)])"

declare nat_digits.simps [simp del]

definition int_str :: "int \<Rightarrow> string" where
  "int_str i = (if i < 0 then CHR ''-'' # nat_digits (nat (- i)) else nat_digits (nat i))"

text \<open>
  \<open>str.isspace\<close> on one character (code points below 256): tab to carriage
  return, the four separators \<open>\\x1c\<close>--\<open>\\x1f\<close>, space, \<open>\\x85\<close>
  and \<open>\\xa0\<close>. \<open>str.strip()\<close> removes them at both ends.
\<close>

definition is_space :: "char \<Rightarrow> bool" where
  "is_space c = (of_char c \<in> ({9..13} \<union> {28..32} \<union> {133, 160} :: nat set))"

definition py_strip :: "string \<Rightarrow> string" where
  "py_strip s = rev (dropWhile is_space (rev (dropWhile is_space s)))"

definition is_digit :: "char \<Rightarrow> bool" where
  "is_digit c = ((48::nat) \<le> of_char c \<and> (of_char c :: nat) \<le> 57)"

text \<open>
  The digit part accepted by \<open>int(s)\<close> in base 10: digits, with single
  underscores allowed between two digits.
\<close>

definition digits_ok :: "string \<Rightarrow> bool" where
  "digits_ok b \<longleftrightarrow> b \<noteq> [] \<and> is_digit (hd b) \<and> is_digit (last b) \<and>
     (\<forall>c \<in> set b. is_digit c \<or> c = CHR ''_'') \<and> \<not> sublist ''__'' b"

definition digits_value :: "string \<Rightarrow> int" where
  "digits_value b =
     foldl (\<lambda>acc c. if c = CHR ''_'' then acc else 10 * acc + (int (of_char c) - 48)) 0 b"

text \<open>\<open>int(s)\<close> for a string: optional surrounding whitespace and sign.\<close>

definition py_int_of_str :: "string \<Rightarrow> int py_result" where
  "py_int_of_str s =
     (let t = py_strip s;
          (neg, b) = (case t of c # r \<Rightarrow>
                        if c = CHR ''-'' then (True, r)
                        else if c = CHR ''+'' then (False, r) else (False, t)
                      | [] \<Rightarrow> (False, []))
      in if digits_ok b then Inr (if neg then - digits_value b else digits_value b)
         else Inl ValueError)"

text \<open>\<open>sep.join(xs)\<close>.\<close>

fun py_join :: "string \<Rightarrow> string list \<Rightarrow> string" where
  "py_join sep [] = []"
| "py_join sep [x] = x"
| "py_join sep (x # xs) = x @ sep @ py_join sep xs"

lemma nat_digits_chars: "c \<in> set (nat_digits n) \<Longrightarrow> c \<in> char_of ` {48..(57::nat)}"
proof (induction n rule: nat_digits.induct)
  case (1 n)
  have dig: "char_of (48 + k) \<in> char_of ` {48..(57::nat)}" if "k < 10" for k :: nat
    using that by (intro image_eqI [of _ _ "48 + k"]) simp_all
  show ?case
  proof (cases "n < 10")
    case True
    with "1.prems" show ?thesis by (simp add: nat_digits.simps [of n] dig)
  next
    case False
    with "1.prems" "1.IH" show ?thesis by (auto simp: nat_digits.simps [of n] dig)
  qed
qed

end
