(* ===== verification/Py_Random.thy ===== *)
theory Py_Random
  imports Py_Prelude "HOL-Library.Word" "HOL-Library.Multiset"
begin

text \<open>
  Python's process-wide \<open>random\<close> source, as the script uses it
  (\<open>random.choice\<close>, \<open>random.uniform\<close>, \<open>random.randint\<close>,
  \<open>random.shuffle\<close>), made an explicit state. The Mersenne Twister itself is not
  modelled: the state is an arbitrary source of 32-bit words (\<open>genrand_uint32\<close>) and a
  read position, and the primitives are CPython's algorithms over it:
  \<^item> \<open>random()\<close> reads two words \<open>a\<close>, \<open>b\<close> and returns
    \<open>((a >> 5) * 2^26 + (b >> 6)) / 2^53\<close>;
  \<^item> \<open>uniform(a, b) = a + (b - a) * random()\<close>;
  \<^item> \<open>_randbelow(n)\<close> draws \<open>k = n.bit_length()\<close> bits
    (\<open>getrandbits(k)\<close>, the top \<open>k\<close> bits of one word for \<open>k \<le> 32\<close>) until
    the value is below \<open>n\<close>: a rejection loop, which need not end for an arbitrary
    word source and is therefore a \<open>partial_function (option)\<close>;
  \<^item> \<open>randint(a, b) = a + _randbelow(b - a + 1)\<close>, \<open>choice(xs) =
    xs[_randbelow(len(xs))]\<close> (\<open>IndexError\<close> on an empty list),
    \<open>shuffle\<close> swaps \<open>x[i]\<close> with \<open>x[_randbelow(i + 1)]\<close> for \<open>i\<close> from
    \<open>len(x) - 1\<close> down to 1.
  A computation of type \<open>'a rand\<close> reads the source and returns \<open>None\<close> when it does
  not end; \<open>'a prog\<close> also carries Python exceptions.
\<close>

record rng =
  rng_words :: "nat \<Rightarrow> 32 word"
  rng_pos :: nat

type_synonym 'a rand = "rng \<Rightarrow> ('a \<times> rng) option"
type_synonym 'a prog = "rng \<Rightarrow> ('a py_result \<times> rng) option"

section \<open>The monads\<close>

definition rreturn :: "'a \<Rightarrow> 'a rand" where
  "rreturn x g = Some (x, g)"

definition rbind :: "'a rand \<Rightarrow> ('a \<Rightarrow> 'b rand) \<Rightarrow> 'b rand" where
  "rbind m f g = (case m g of None \<Rightarrow> None | Some (x, g') \<Rightarrow> f x g')"

definition pbind :: "'a prog \<Rightarrow> ('a \<Rightarrow> 'b prog) \<Rightarrow> 'b prog" where
  "pbind m f g = (case m g of None \<Rightarrow> None
                  | Some (Inl e, g') \<Rightarrow> Some (Inl e, g')
                  | Some (Inr x, g') \<Rightarrow> f x g')"

definition lift :: "'a rand \<Rightarrow> 'a prog" where
  "lift m g = map_option (\<lambda>(x, g'). (Inr x, g')) (m g)"

definition pure :: "'a py_result \<Rightarrow> 'a prog" where
  "pure r g = Some (r, g)"

section \<open>Primitives\<close>

definition next_word :: "rng \<Rightarrow> 32 word \<times> rng" where
  "next_word g = (rng_words g (rng_pos g), g\<lparr>rng_pos := Suc (rng_pos g)\<rparr>)"

text \<open>\<open>int.bit_length()\<close> of a natural number.\<close>

fun bit_len :: "nat \<Rightarrow> nat" where
  "bit_len n = (if n = 0 then 0 else Suc (bit_len (n div 2)))"

declare bit_len.simps [simp del]

text \<open>\<open>getrandbits(k)\<close> for \<open>k \<le> 32\<close>: the top \<open>k\<close> bits of the next word.\<close>

definition top_bits :: "nat \<Rightarrow> 32 word \<Rightarrow> nat" where
  "top_bits k w = unat (drop_bit (32 - k) w)"

partial_function (option) randbelow_loop :: "nat \<Rightarrow> nat \<Rightarrow> rng \<Rightarrow> (nat \<times> rng) option" where
  "randbelow_loop n k g = (case next_word g of (w, g') \<Rightarrow>
      if top_bits k w < n then Some (top_bits k w, g') else randbelow_loop n k g')"

declare randbelow_loop.simps [code]

definition randbelow :: "nat \<Rightarrow> nat rand" where
  "randbelow n g = randbelow_loop n (bit_len n) g"

definition random_float :: "real rand" where
  "random_float g = (case next_word g of (a, g1) \<Rightarrow> case next_word g1 of (b, g2) \<Rightarrow>
      Some ((real (unat (drop_bit 5 a)) * 67108864 + real (unat (drop_bit 6 b))) / 9007199254740992, g2))"

definition uniform :: "real \<Rightarrow> real \<Rightarrow> real rand" where
  "uniform a b = rbind random_float (\<lambda>r. rreturn (a + (b - a) * r))"

definition randint :: "int \<Rightarrow> int \<Rightarrow> int rand" where
  "randint a b = rbind (randbelow (nat (b - a + 1))) (\<lambda>r. rreturn (a + int r))"

definition choice :: "'a list \<Rightarrow> 'a prog" where
  "choice xs = (if xs = [] then pure (Inl IndexError)
                else lift (rbind (randbelow (length xs)) (\<lambda>i. rreturn (xs ! i))))"

text \<open>\<open>for i in reversed(range(1, len(x))): j = _randbelow(i + 1); x[i], x[j] = x[j], x[i]\<close>.\<close>

fun shuffle_from :: "nat \<Rightarrow> 'a list \<Rightarrow> 'a list rand" where
  "shuffle_from 0 xs = rreturn xs"
| "shuffle_from (Suc i) xs =
     rbind (randbelow (Suc (Suc i))) (\<lambda>j. shuffle_from i (xs[Suc i := xs ! j, j := xs ! Suc i]))"

definition shuffle :: "'a list \<Rightarrow> 'a list rand" where
  "shuffle xs = shuffle_from (length xs - 1) xs"

section \<open>Termination on a source\<close>

text \<open>
  A source whose words all have the top bit clear makes every rejection loop accept its
  first word (\<open>top_bits_msb_clear\<close>). A computation is \<^emph>\<open>total\<close> when it returns on
  every such source and leaves the words unread ahead of it unchanged; totality is closed
  under the binds, which gives termination of the generator and the patch pass from that
  of the primitives.
\<close>

definition msb_clear :: "rng \<Rightarrow> bool" where
  "msb_clear g \<longleftrightarrow> (\<forall>i. unat (rng_words g i) < 2 ^ 31)"

definition rand_total :: "'a rand \<Rightarrow> bool" where
  "rand_total m \<longleftrightarrow> (\<forall>g. msb_clear g \<longrightarrow> (\<exists>x g'. m g = Some (x, g') \<and> rng_words g' = rng_words g))"

definition prog_total :: "'a prog \<Rightarrow> bool" where
  "prog_total m \<longleftrightarrow> (\<forall>g. msb_clear g \<longrightarrow> (\<exists>x g'. m g = Some (x, g') \<and> rng_words g' = rng_words g))"

text \<open>
  \<open>prog_ok m\<close>: on every such source \<open>m\<close> returns a value without raising;
  \<open>prog_err e m\<close>: it returns, raising \<open>e\<close>.
\<close>

definition prog_ok :: "'a prog \<Rightarrow> bool" where
  "prog_ok m \<longleftrightarrow> (\<forall>g. msb_clear g \<longrightarrow> (\<exists>x g'. m g = Some (Inr x, g') \<and> rng_words g' = rng_words g))"

definition prog_err :: "py_error \<Rightarrow> 'a prog \<Rightarrow> bool" where
  "prog_err e m \<longleftrightarrow> (\<forall>g. msb_clear g \<longrightarrow> (\<exists>g'. m g = Some (Inl e, g')))"

text \<open>A source whose every word is \<open>0x7FFFFFFF\<close>: \<open>random()\<close> is just below 1/2.\<close>

abbreviation mid_source :: rng where
  "mid_source \<equiv> \<lparr>rng_words = (\<lambda>i. 0x7FFFFFFF), rng_pos = 0\<rparr>"

section \<open>Lemmas\<close>

named_theorems rand_simps "evaluation rules for the random-source monads"

lemma rbind_Some [rand_simps]: "m g = Some (x, g') \<Longrightarrow> rbind m f g = f x g'"
  by (simp add: rbind_def)

lemma pbind_Inr [rand_simps]: "m g = Some (Inr x, g') \<Longrightarrow> pbind m f g = f x g'"
  and pbind_Inl [rand_simps]: "m g = Some (Inl e, g') \<Longrightarrow> pbind m f g = Some (Inl e, g')"
  by (simp_all add: pbind_def)

lemma lift_Some [rand_simps]: "m g = Some (x, g') \<Longrightarrow> lift m g = Some (Inr x, g')"
  by (simp add: lift_def)

lemma rreturn_pure [simp]: "rreturn x g = Some (x, g)" "pure r g = Some (r, g)"
  by (simp_all add: rreturn_def pure_def)

lemma next_word_simps [simp]:
  "next_word g = (rng_words g (rng_pos g), g\<lparr>rng_pos := Suc (rng_pos g)\<rparr>)"
  by (simp add: next_word_def)

text \<open>The rejection loop accepts the first word whose top bits are below \<open>n\<close>.\<close>

lemma randbelow_loop_accept:
  "top_bits k (rng_words g (rng_pos g)) < n \<Longrightarrow>
   randbelow_loop n k g = Some (top_bits k (rng_words g (rng_pos g)), g\<lparr>rng_pos := Suc (rng_pos g)\<rparr>)"
  by (simp add: randbelow_loop.simps)

lemma randbelow_loop_reject:
  "\<not> top_bits k (rng_words g (rng_pos g)) < n \<Longrightarrow>
   randbelow_loop n k g = randbelow_loop n k (g\<lparr>rng_pos := Suc (rng_pos g)\<rparr>)"
  by (simp add: randbelow_loop.simps)

text \<open>
  What the loop returns is below \<open>n\<close>, and it returns only if some word at or after the
  read position is acceptable.
\<close>

lemma randbelow_loop_bound:
  assumes "randbelow_loop n k g = Some x"
  shows "fst x < n \<and> (\<exists>m \<ge> rng_pos g. top_bits k (rng_words g m) < n)"
  using assms
proof (induction n k g x rule: randbelow_loop.raw_induct [rotated -1, consumes 1])
  case (1 loop n k g x)
  note IH = "1"(1) and body = "1"(2)
  show ?case
  proof (cases "top_bits k (rng_words g (rng_pos g)) < n")
    case True
    with body have "x = (top_bits k (rng_words g (rng_pos g)), g\<lparr>rng_pos := Suc (rng_pos g)\<rparr>)"
      by simp
    with True show ?thesis by auto
  next
    case False
    with body have "loop n k (g\<lparr>rng_pos := Suc (rng_pos g)\<rparr>) = Some x" by simp
    from IH [OF this] show ?thesis by (auto intro: Suc_leD)
  qed
qed

lemma randbelow_loop_words:
  assumes "randbelow_loop n k g = Some x"
  shows "rng_words (snd x) = rng_words g"
  using assms
proof (induction n k g x rule: randbelow_loop.raw_induct [rotated -1, consumes 1])
  case (1 loop n k g x)
  note IH = "1"(1) and body = "1"(2)
  show ?case
  proof (cases "top_bits k (rng_words g (rng_pos g)) < n")
    case True
    with body show ?thesis by auto
  next
    case False
    with body have "loop n k (g\<lparr>rng_pos := Suc (rng_pos g)\<rparr>) = Some x" by simp
    from IH [OF this] show ?thesis by simp
  qed
qed

text \<open>
  Termination: the loop returns exactly when some word at or after the read position is
  acceptable.
\<close>

lemma randbelow_loop_reaches:
  "rng_pos g + d = m \<Longrightarrow> top_bits k (rng_words g m) < n \<Longrightarrow> \<exists>x. randbelow_loop n k g = Some x"
proof (induction d arbitrary: g)
  case 0
  then show ?case by (simp add: randbelow_loop_accept)
next
  case (Suc d)
  show ?case
  proof (cases "top_bits k (rng_words g (rng_pos g)) < n")
    case True
    then show ?thesis by (simp add: randbelow_loop_accept)
  next
    case False
    have "\<exists>x. randbelow_loop n k (g\<lparr>rng_pos := Suc (rng_pos g)\<rparr>) = Some x"
      using Suc.prems by (intro Suc.IH) simp_all
    with False show ?thesis by (simp add: randbelow_loop_reject)
  qed
qed

lemma randbelow_loop_terminates:
  "(\<exists>x. randbelow_loop n k g = Some x) \<longleftrightarrow> (\<exists>m \<ge> rng_pos g. top_bits k (rng_words g m) < n)"
proof
  assume "\<exists>x. randbelow_loop n k g = Some x"
  then show "\<exists>m \<ge> rng_pos g. top_bits k (rng_words g m) < n"
    using randbelow_loop_bound by blast
next
  assume "\<exists>m \<ge> rng_pos g. top_bits k (rng_words g m) < n"
  then obtain m where "rng_pos g \<le> m" "top_bits k (rng_words g m) < n" by auto
  then show "\<exists>x. randbelow_loop n k g = Some x"
    using randbelow_loop_reaches [of g "m - rng_pos g" m] by simp
qed

lemma bit_len_bounds: "0 < n \<Longrightarrow> 2 ^ (bit_len n - 1) \<le> n \<and> n < 2 ^ bit_len n"
proof (induction n rule: bit_len.induct)
  case (1 n)
  show ?case
  proof (cases "n = 1")
    case True
    then show ?thesis by (simp add: bit_len.simps)
  next
    case False
    with "1.prems" have "0 < n div 2" by simp
    with "1.IH" "1.prems" have ih: "2 ^ (bit_len (n div 2) - 1) \<le> n div 2" "n div 2 < 2 ^ bit_len (n div 2)"
      by simp_all
    have pos: "0 < bit_len (n div 2)" using \<open>0 < n div 2\<close> by (simp add: bit_len.simps)
    have "bit_len n = Suc (bit_len (n div 2))" using "1.prems" by (simp add: bit_len.simps)
    moreover have "2 ^ bit_len (n div 2) \<le> n"
      using ih(1) pos by (cases "bit_len (n div 2)") auto
    moreover have "n < 2 ^ Suc (bit_len (n div 2))" using ih(2) by simp
    ultimately show ?thesis by simp
  qed
qed

lemma top_bits_div: "top_bits k w = unat w div 2 ^ (32 - k)"
  by (simp only: top_bits_def unat_drop_bit_eq) (simp add: drop_bit_eq_div)

text \<open>A word with its top bit clear is accepted by every rejection loop.\<close>

lemma top_bits_msb_clear:
  assumes w: "unat w < 2 ^ 31" and n: "0 < n" "n < 2 ^ 32"
  shows "top_bits (bit_len n) w < n"
proof -
  from bit_len_bounds [OF n(1)] have lo: "2 ^ (bit_len n - 1) \<le> n" and hi: "n < 2 ^ bit_len n" by auto
  have k1: "1 \<le> bit_len n" using n(1) by (simp add: bit_len.simps)
  have k32: "bit_len n \<le> 32"
  proof (rule ccontr)
    assume "\<not> bit_len n \<le> 32"
    then have "(2::nat) ^ 32 \<le> 2 ^ (bit_len n - 1)" by (intro power_increasing) simp_all
    with lo n(2) show False by simp
  qed
  have "(2::nat) ^ 31 = 2 ^ (bit_len n - 1) * 2 ^ (32 - bit_len n)"
    using k1 k32 by (simp flip: power_add)
  with w have "unat w div 2 ^ (32 - bit_len n) < 2 ^ (bit_len n - 1)"
    by (simp add: less_mult_imp_div_less)
  with lo show ?thesis by (simp add: top_bits_div)
qed


lemma rand_totalD:
  "rand_total m \<Longrightarrow> msb_clear g \<Longrightarrow> \<exists>x g'. m g = Some (x, g') \<and> rng_words g' = rng_words g"
  by (simp add: rand_total_def)

lemma prog_totalD:
  "prog_total m \<Longrightarrow> msb_clear g \<Longrightarrow> \<exists>x g'. m g = Some (x, g') \<and> rng_words g' = rng_words g"
  by (simp add: prog_total_def)

lemma rreturn_total: "rand_total (rreturn x)"
  by (simp add: rand_total_def)

lemma pure_total: "prog_total (pure r)"
  by (simp add: prog_total_def)

lemma rbind_total:
  assumes m: "rand_total m" and f: "\<And>x. rand_total (f x)"
  shows "rand_total (rbind m f)"
  unfolding rand_total_def
proof (intro allI impI)
  fix g assume g: "msb_clear g"
  from rand_totalD [OF m g] obtain x g1 where 1: "m g = Some (x, g1)" "rng_words g1 = rng_words g"
    by blast
  have "msb_clear g1" using g 1(2) by (simp add: msb_clear_def)
  from rand_totalD [OF f this] obtain y g2 where "f x g1 = Some (y, g2)" "rng_words g2 = rng_words g1"
    by blast
  with 1 show "\<exists>y g'. rbind m f g = Some (y, g') \<and> rng_words g' = rng_words g"
    by (simp add: rbind_def)
qed

lemma pbind_total:
  assumes m: "prog_total m" and f: "\<And>x. prog_total (f x)"
  shows "prog_total (pbind m f)"
  unfolding prog_total_def
proof (intro allI impI)
  fix g assume g: "msb_clear g"
  from prog_totalD [OF m g] obtain r g1 where 1: "m g = Some (r, g1)" "rng_words g1 = rng_words g"
    by blast
  show "\<exists>y g'. pbind m f g = Some (y, g') \<and> rng_words g' = rng_words g"
  proof (cases r)
    case (Inl e)
    with 1 show ?thesis by (simp add: pbind_def)
  next
    case (Inr x)
    have "msb_clear g1" using g 1(2) by (simp add: msb_clear_def)
    from prog_totalD [OF f this] obtain y g2 where "f x g1 = Some (y, g2)" "rng_words g2 = rng_words g1"
      by blast
    with 1 Inr show ?thesis by (simp add: pbind_def)
  qed
qed

lemma lift_total:
  assumes "rand_total m"
  shows "prog_total (lift m)"
  unfolding prog_total_def
proof (intro allI impI)
  fix g assume "msb_clear g"
  from rand_totalD [OF assms this] obtain x g' where "m g = Some (x, g')" "rng_words g' = rng_words g"
    by blast
  then show "\<exists>y g''. lift m g = Some (y, g'') \<and> rng_words g'' = rng_words g"
    by (simp add: lift_def)
qed

lemma randbelow_total:
  assumes "0 < n" "n < 2 ^ 32"
  shows "rand_total (randbelow n)"
  unfolding rand_total_def
proof (intro allI impI)
  fix g assume "msb_clear g"
  then have "top_bits (bit_len n) (rng_words g (rng_pos g)) < n"
    using assms by (simp add: msb_clear_def top_bits_msb_clear)
  then show "\<exists>x g'. randbelow n g = Some (x, g') \<and> rng_words g' = rng_words g"
    by (simp add: randbelow_def randbelow_loop_accept)
qed

lemma random_float_total: "rand_total random_float"
  unfolding rand_total_def
proof (intro allI impI)
  fix g :: rng
  show "\<exists>x g'. random_float g = Some (x, g') \<and> rng_words g' = rng_words g"
    unfolding random_float_def next_word_simps prod.case
    by (rule exI, rule exI, rule conjI, rule refl) simp
qed

lemma uniform_total: "rand_total (uniform a b)"
  unfolding uniform_def by (intro rbind_total random_float_total rreturn_total)

lemma randint_total: "a \<le> b \<Longrightarrow> b - a < 2 ^ 32 - 1 \<Longrightarrow> rand_total (randint a b)"
  unfolding randint_def by (intro rbind_total randbelow_total rreturn_total) (simp_all add: nat_less_iff)

lemma choice_total: "length xs < 2 ^ 32 \<Longrightarrow> prog_total (choice xs)"
proof (cases "xs = []")
  case True
  then show ?thesis by (simp add: choice_def pure_total)
next
  case False
  moreover assume "length xs < 2 ^ 32"
  ultimately show ?thesis
    unfolding choice_def if_not_P [OF \<open>xs \<noteq> []\<close>]
    by (intro lift_total rbind_total randbelow_total rreturn_total) simp_all
qed

lemma shuffle_from_total: "Suc i < 2 ^ 32 \<Longrightarrow> rand_total (shuffle_from i xs)"
proof (induction i arbitrary: xs)
  case 0
  show ?case unfolding shuffle_from.simps by (rule rreturn_total)
next
  case (Suc i)
  have "rand_total (shuffle_from i ys)" for ys :: "'a list"
  proof (rule Suc.IH)
    show "Suc i < 2 ^ 32" using Suc.prems by simp
  qed
  with Suc.prems show ?case
    unfolding shuffle_from.simps by (intro rbind_total randbelow_total) simp_all
qed


lemma randbelow_bound: "randbelow n g = Some (r, g') \<Longrightarrow> r < n"
  using randbelow_loop_bound [of n "bit_len n" g "(r, g')"] by (simp add: randbelow_def)

lemma randint_bound: "randint a b g = Some (x, g') \<Longrightarrow> a \<le> x \<and> x \<le> b"
  by (auto simp: randint_def rbind_def split: option.splits dest!: randbelow_bound)

lemma choice_in: "choice xs g = Some (Inr x, g') \<Longrightarrow> x \<in> set xs"
  by (auto simp: choice_def lift_def rbind_def split: if_splits option.splits dest!: randbelow_bound)

lemma random_float_range: "random_float g = Some (r, g') \<Longrightarrow> 0 \<le> r \<and> r < 1"
proof -
  assume rf: "random_float g = Some (r, g')"
  define a where "a = rng_words g (rng_pos g)"
  define b where "b = rng_words g (Suc (rng_pos g))"
  have e: "real (unat (drop_bit 5 a) * 67108864 + unat (drop_bit 6 b)) = r * 9007199254740992"
    using rf by (simp add: random_float_def a_def b_def)
  have "unat (drop_bit 5 a) = unat a div 2 ^ 5"
    by (simp only: unat_drop_bit_eq) (simp add: drop_bit_eq_div)
  then have "unat (drop_bit 5 a) < 2 ^ 27"
    using unsigned_less [of a, where ?'a = nat] by (simp add: less_mult_imp_div_less)
  moreover have "unat (drop_bit 6 b) = unat b div 2 ^ 6"
    by (simp only: unat_drop_bit_eq) (simp add: drop_bit_eq_div)
  then have "unat (drop_bit 6 b) < 2 ^ 26"
    using unsigned_less [of b, where ?'a = nat] by (simp add: less_mult_imp_div_less)
  ultimately have "unat (drop_bit 5 a) * 67108864 + unat (drop_bit 6 b) < (9007199254740992::nat)"
    by simp
  then have "real (unat (drop_bit 5 a) * 67108864 + unat (drop_bit 6 b)) < real (9007199254740992::nat)"
    by (simp only: of_nat_less_iff)
  with e have "r * 9007199254740992 < 9007199254740992" by simp
  moreover have "0 \<le> r * 9007199254740992" unfolding e [symmetric] by (rule of_nat_0_le_iff)
  ultimately show ?thesis by simp
qed

lemma uniform_range: "uniform a b g = Some (x, g') \<Longrightarrow> a \<le> b \<Longrightarrow> a \<le> x \<and> x \<le> b"
proof -
  assume u: "uniform a b g = Some (x, g')" and ab: "a \<le> b"
  then obtain r g1 where rf: "random_float g = Some (r, g1)" and x: "x = a + (b - a) * r"
    by (auto simp: uniform_def rbind_def split: option.splits)
  from random_float_range [OF rf] have "0 \<le> r" "r \<le> 1" by simp_all
  with ab have "0 \<le> (b - a) * r" "(b - a) * r \<le> b - a" by (simp_all add: mult_left_le)
  with x show ?thesis by simp
qed

lemma shuffle_from_mset:
  "shuffle_from i xs g = Some (ys, g') \<Longrightarrow> i < length xs \<Longrightarrow> mset ys = mset xs"
proof (induction i arbitrary: xs g)
  case 0
  then show ?case by simp
next
  case (Suc i)
  from Suc.prems(1) obtain j g1 where j: "randbelow (Suc (Suc i)) g = Some (j, g1)"
    and rest: "shuffle_from i (xs[Suc i := xs ! j, j := xs ! Suc i]) g1 = Some (ys, g')"
    by (auto simp: rbind_def split: option.splits)
  have "j < length xs" using randbelow_bound [OF j] Suc.prems(2) by simp
  then have "mset (xs[Suc i := xs ! j, j := xs ! Suc i]) = mset xs"
    using Suc.prems(2) by (simp add: mset_swap)
  with Suc.IH [OF rest] Suc.prems(2) show ?case by simp
qed

lemma prog_okD:
  "prog_ok m \<Longrightarrow> msb_clear g \<Longrightarrow> \<exists>x g'. m g = Some (Inr x, g') \<and> rng_words g' = rng_words g"
  by (simp add: prog_ok_def)

lemma pure_ok: "prog_ok (pure (Inr x))"
  by (simp add: prog_ok_def)

lemma pure_err: "prog_err e (pure (Inl e))"
  by (simp add: prog_err_def)

lemma pbind_pure_Inr [simp]: "pbind (pure (Inr x)) f = f x"
  and pbind_pure_Inl [simp]: "pbind (pure (Inl e)) f = pure (Inl e)"
  by (simp_all add: pbind_def pure_def fun_eq_iff)

lemma lift_ok: "rand_total m \<Longrightarrow> prog_ok (lift m)"
  unfolding prog_ok_def lift_def
  by (auto dest!: rand_totalD)

lemma pbind_ok:
  assumes m: "prog_ok m" and f: "\<And>x. prog_ok (f x)"
  shows "prog_ok (pbind m f)"
  unfolding prog_ok_def
proof (intro allI impI)
  fix g assume g: "msb_clear g"
  from prog_okD [OF m g] obtain x g1 where 1: "m g = Some (Inr x, g1)" "rng_words g1 = rng_words g"
    by blast
  have "msb_clear g1" using g 1(2) by (simp add: msb_clear_def)
  from prog_okD [OF f this] obtain y g2 where "f x g1 = Some (Inr y, g2)" "rng_words g2 = rng_words g1"
    by blast
  with 1 show "\<exists>y g'. pbind m f g = Some (Inr y, g') \<and> rng_words g' = rng_words g"
    by (simp add: pbind_def)
qed

lemma pbind_err_first: "prog_err e m \<Longrightarrow> prog_err e (pbind m f)"
  unfolding prog_err_def pbind_def by fastforce

lemma pbind_err_next:
  assumes m: "prog_ok m" and f: "\<And>x. prog_err e (f x)"
  shows "prog_err e (pbind m f)"
  unfolding prog_err_def
proof (intro allI impI)
  fix g assume g: "msb_clear g"
  from prog_okD [OF m g] obtain x g1 where 1: "m g = Some (Inr x, g1)" "rng_words g1 = rng_words g"
    by blast
  have "msb_clear g1" using g 1(2) by (simp add: msb_clear_def)
  with f obtain g2 where "f x g1 = Some (Inl e, g2)" by (auto simp: prog_err_def)
  with 1 show "\<exists>g'. pbind m f g = Some (Inl e, g')" by (simp add: pbind_def)
qed

lemma choice_ok: "xs \<noteq> [] \<Longrightarrow> length xs < 2 ^ 32 \<Longrightarrow> prog_ok (choice xs)"
  unfolding choice_def
  by (simp, intro lift_ok rbind_total randbelow_total rreturn_total) simp_all

end
