(* ===== verification/Json.thy ===== *)
theory Json
  imports Py_Prelude
begin

text \<open>
  The save file is a JSON document that \<open>json.load\<close> turns into nested Python
  values. This theory models those values (\<open>json\<close>), Python dictionaries as
  association lists in insertion order (\<open>dict\<close>), and the operations the script
  applies to them: \<open>d.get(k, default)\<close>, \<open>k in x\<close>, \<open>x[k]\<close>,
  \<open>d[k] = v\<close>, \<open>d.update(e)\<close> and \<open>{**d, **e}\<close>, iteration, truthiness,
  comparison with an int literal, and \<open>str(x)\<close>. Each raises the exception Python
  raises on a value of the wrong shape.
\<close>

section \<open>Values\<close>

datatype json =
    JNull
  | JBool bool
  | JInt int
  | JFloat real
  | JStr string
  | JList "json list"
  | JDict "(string \<times> json) list"

type_synonym dict = "(string \<times> json) list"

text \<open>\<open>if x:\<close> -- Python truthiness.\<close>

fun py_truthy :: "json \<Rightarrow> bool" where
  "py_truthy JNull = False"
| "py_truthy (JBool b) = b"
| "py_truthy (JInt i) = (i \<noteq> 0)"
| "py_truthy (JFloat x) = (x \<noteq> 0)"
| "py_truthy (JStr s) = (s \<noteq> [])"
| "py_truthy (JList xs) = (xs \<noteq> [])"
| "py_truthy (JDict d) = (d \<noteq> [])"

text \<open>
  A value used as an operand of float arithmetic (\<open>x * 0.6\<close>): \<open>bool\<close> and
  \<open>int\<close> are numbers in Python; anything else raises \<open>TypeError\<close>.
\<close>

fun py_num :: "json \<Rightarrow> real py_result" where
  "py_num (JBool b) = Inr (if b then 1 else 0)"
| "py_num (JInt i) = Inr (of_int i)"
| "py_num (JFloat x) = Inr x"
| "py_num _ = Inl TypeError"

text \<open>\<open>x == k\<close> for an int literal \<open>k\<close>: numeric comparison across bool/int/float.\<close>

fun py_eq_int :: "json \<Rightarrow> int \<Rightarrow> bool" where
  "py_eq_int (JBool b) k = ((if b then 1 else 0) = k)"
| "py_eq_int (JInt i) k = (i = k)"
| "py_eq_int (JFloat x) k = (x = of_int k)"
| "py_eq_int _ k = False"

section \<open>Dictionaries\<close>

text \<open>
  A Python dict keeps its keys unique and in insertion order; assigning an existing key
  replaces its value in place, a new key goes to the end.
\<close>

definition dict_ok :: "dict \<Rightarrow> bool" where
  "dict_ok d \<longleftrightarrow> distinct (map fst d)"

definition dict_has :: "dict \<Rightarrow> string \<Rightarrow> bool" where
  "dict_has d k \<longleftrightarrow> k \<in> set (map fst d)"

definition dict_get :: "dict \<Rightarrow> string \<Rightarrow> json \<Rightarrow> json" where
  "dict_get d k dflt = (case map_of d k of Some v \<Rightarrow> v | None \<Rightarrow> dflt)"

definition dict_index :: "dict \<Rightarrow> string \<Rightarrow> json py_result" where
  "dict_index d k = (case map_of d k of Some v \<Rightarrow> Inr v | None \<Rightarrow> Inl KeyError)"

text \<open>Replacing the value of key \<open>k\<close> in one entry.\<close>

definition upd_key :: "string \<Rightarrow> json \<Rightarrow> string \<times> json \<Rightarrow> string \<times> json" where
  "upd_key k v kv = (if fst kv = k then (k, v) else kv)"

lemma fst_upd_key [simp]: "fst \<circ> upd_key k v = fst"
  by (auto simp: upd_key_def fun_eq_iff)

lemma fst_upd_key_apply [simp]: "fst (upd_key k v kv) = fst kv"
  by (simp add: upd_key_def)

lemma map_of_append_fresh:
  "k \<notin> fst ` set d \<Longrightarrow> map_of (d @ [(k, v)]) = (map_of d)(k \<mapsto> v)"
  by (induction d) (auto simp: fun_eq_iff)

lemma map_of_map_upd_key:
  "map_of (map (upd_key k v) d) = (if k \<in> fst ` set d then (map_of d)(k \<mapsto> v) else map_of d)"
  by (induction d) (auto simp: upd_key_def fun_eq_iff)

definition dict_set :: "dict \<Rightarrow> string \<Rightarrow> json \<Rightarrow> dict" where
  "dict_set d k v = (if dict_has d k then map (upd_key k v) d else d @ [(k, v)])"

text \<open>\<open>d.update(e)\<close>, and \<open>{**d, **e}\<close>, which builds the same dict.\<close>

definition dict_update :: "dict \<Rightarrow> dict \<Rightarrow> dict" where
  "dict_update d e = foldl (\<lambda>acc (k, v). dict_set acc k v) d e"

lemma map_of_dict_set [simp, dict_simps]: "map_of (dict_set d k v) = (map_of d)(k \<mapsto> v)"
  by (simp add: dict_set_def dict_has_def map_of_map_upd_key map_of_append_fresh
      del: map_of_append)

lemma keys_dict_set [dict_simps]: "fst ` set (dict_set d k v) = insert k (fst ` set d)"
  by (simp add: dict_set_def dict_has_def insert_absorb image_image)

lemma dict_ok_set [dict_simps]: "dict_ok d \<Longrightarrow> dict_ok (dict_set d k v)"
  by (simp add: dict_ok_def dict_set_def dict_has_def)

text \<open>Assignment never moves the keys already present: they keep their positions.\<close>

lemma dict_set_keys_prefix [dict_simps]:
  "take (length d) (map fst (dict_set d k v)) = map fst d"
  by (simp add: dict_set_def)

lemma dict_has_set [simp, dict_simps]: "dict_has (dict_set d k v) k' \<longleftrightarrow> k' = k \<or> dict_has d k'"
  by (simp add: dict_has_def keys_dict_set)

lemma dict_get_set [simp, dict_simps]:
  "dict_get (dict_set d k v) k' dflt = (if k' = k then v else dict_get d k' dflt)"
  by (simp add: dict_get_def)

lemma dict_update_Cons [simp]:
  "dict_update d ((k, v) # e) = dict_update (dict_set d k v) e"
  by (simp add: dict_update_def)

lemma dict_update_Nil [simp]: "dict_update d [] = d"
  by (simp add: dict_update_def)

lemma map_of_dict_update [dict_simps]:
  "dict_ok e \<Longrightarrow> map_of (dict_update d e) = map_of d ++ map_of e"
proof (induction e arbitrary: d)
  case Nil
  then show ?case by simp
next
  case (Cons kv e)
  obtain k v where kv: "kv = (k, v)" by fastforce
  with Cons.prems have ok: "dict_ok e" and fresh: "k \<notin> set (map fst e)"
    by (simp_all add: dict_ok_def)
  from fresh have "map_of e k = None" by (simp add: map_of_eq_None_iff)
  then have step: "(map_of d)(k \<mapsto> v) ++ map_of e = (map_of d ++ map_of e)(k \<mapsto> v)"
    by (auto simp: map_add_def fun_eq_iff split: option.splits)
  have "map_of (dict_update d (kv # e)) = (map_of d)(k \<mapsto> v) ++ map_of e"
    using Cons.IH [OF ok] kv by (simp only: dict_update_Cons map_of_dict_set)
  also have "\<dots> = map_of d ++ map_of (kv # e)"
    using step kv by (simp only: map_of.simps fst_conv snd_conv map_add_upd)
  finally show ?case .
qed

lemma dict_ok_update [dict_simps]: "dict_ok d \<Longrightarrow> dict_ok (dict_update d e)"
  by (induction e arbitrary: d) (auto simp: dict_ok_set)

lemma keys_dict_update [dict_simps]:
  "fst ` set (dict_update d e) = fst ` set d \<union> fst ` set e"
proof (induction e arbitrary: d)
  case Nil
  then show ?case by simp
next
  case (Cons kv e)
  then show ?case by (cases kv) (simp add: keys_dict_set)
qed

lemma map_of_dict_update_at:
  "dict_ok e \<Longrightarrow> map_of (dict_update d e) k = (if dict_has e k then map_of e k else map_of d k)"
proof (cases "map_of e k")
  case None
  then have "\<not> dict_has e k" by (simp add: dict_has_def map_of_eq_None_iff)
  moreover assume "dict_ok e"
  ultimately show ?thesis
    using None by (simp add: map_of_dict_update map_add_def del: map_of_eq_None_iff)
next
  case (Some y)
  then have "k \<in> fst ` set e" by (force dest: map_of_SomeD)
  moreover assume "dict_ok e"
  ultimately show ?thesis using Some by (simp add: map_of_dict_update dict_has_def)
qed

lemma dict_get_update [dict_simps]:
  "dict_ok e \<Longrightarrow> dict_get (dict_update d e) k dflt =
     (if dict_has e k then dict_get e k dflt else dict_get d k dflt)"
  by (simp add: dict_get_def map_of_dict_update_at)

section \<open>Operations on arbitrary values\<close>

text \<open>\<open>x.get(k, default)\<close>: only a dict has \<open>get\<close>.\<close>

fun py_get :: "json \<Rightarrow> string \<Rightarrow> json \<Rightarrow> json py_result" where
  "py_get (JDict d) k dflt = Inr (dict_get d k dflt)"
| "py_get _ k dflt = Inl AttributeError"

text \<open>\<open>k in x\<close> for a string \<open>k\<close>: a dict tests its keys, a list its elements,
  a string its substrings; numbers and None are not containers.\<close>

fun py_contains :: "json \<Rightarrow> string \<Rightarrow> bool py_result" where
  "py_contains (JDict d) k = Inr (dict_has d k)"
| "py_contains (JList xs) k = Inr (JStr k \<in> set xs)"
| "py_contains (JStr s) k = Inr (py_substr k s)"
| "py_contains _ k = Inl TypeError"

text \<open>\<open>x[k]\<close> for a string \<open>k\<close>.\<close>

fun py_index :: "json \<Rightarrow> string \<Rightarrow> json py_result" where
  "py_index (JDict d) k = dict_index d k"
| "py_index _ k = Inl TypeError"

text \<open>\<open>for y in x\<close>: a dict yields its keys, a string its characters.\<close>

fun py_iter :: "json \<Rightarrow> json list py_result" where
  "py_iter (JList xs) = Inr xs"
| "py_iter (JDict d) = Inr (map (\<lambda>(k, _). JStr k) d)"
| "py_iter (JStr s) = Inr (map (\<lambda>c. JStr [c]) s)"
| "py_iter _ = Inl TypeError"

section \<open>\<open>str(x)\<close>\<close>

text \<open>
  Digits of the fractional part of a float, at most \<open>n\<close> of them, stopping when the
  rest is zero.
\<close>

fun frac_digits :: "nat \<Rightarrow> real \<Rightarrow> string" where
  "frac_digits 0 f = []"
| "frac_digits (Suc n) f =
     (if f = 0 then []
      else char_of (48 + nat \<lfloor>f * 10\<rfloor>) # frac_digits n (f * 10 - of_int \<lfloor>f * 10\<rfloor>))"

text \<open>
  \<open>repr(float)\<close>: integral values print as \<open>n.0\<close>; others with their decimal
  expansion cut after 17 digits (Python prints the shortest round-tripping decimal and
  switches to exponent notation outside \<open>[1e-4, 1e16)\<close>; see the header).
\<close>

definition float_str :: "real \<Rightarrow> string" where
  "float_str x =
     (let a = \<bar>x\<bar>; ip = \<lfloor>a\<rfloor>; fd = frac_digits 17 (a - of_int ip)
      in (if x < 0 then ''-'' else []) @ int_str ip @ ''.'' @ (if fd = [] then ''0'' else fd))"

fun py_repr :: "json \<Rightarrow> string" where
  "py_repr JNull = ''None''"
| "py_repr (JBool b) = (if b then ''True'' else ''False'')"
| "py_repr (JInt i) = int_str i"
| "py_repr (JFloat x) = float_str x"
| "py_repr (JStr s) = CHR 0x27 # s @ [CHR 0x27]"
| "py_repr (JList xs) = ''['' @ py_join '', '' (map py_repr xs) @ '']''"
| "py_repr (JDict d) =
     ''{'' @ py_join '', ''
        (map (\<lambda>kv. CHR 0x27 # fst kv @ CHR 0x27 # '': '' @ py_repr (snd kv)) d) @ ''}''"

text \<open>\<open>str(x)\<close> is the text itself for a string and \<open>repr(x)\<close> otherwise.\<close>

fun py_str :: "json \<Rightarrow> string" where
  "py_str (JStr s) = s"
| "py_str v = py_repr v"

end
