(* ===== verification/Generator.thy ===== *)
theory Generator
  imports Py_Random Json "HOL-Library.Code_Target_Numeral"
begin

text \<open>
  \<open>generate_realistic_player\<close> (src/scripts/update_all_rosters.py, lines 42--140): a
  replacement record for a position, a jersey and a team quality tier, drawn from the
  random source of \<open>Py_Random\<close> in the order the source draws: first name, last name,
  the variation factor, the five position-dependent statistics, the free-throw, steal and
  block rates, then height, weight and age while the returned dict literal is built.
  The two dict lookups of the function (\<open>quality_mult[team_quality]\<close>,
  \<open>heights[position]\<close> and \<open>weights[position]\<close>) raise \<open>KeyError\<close> for a tier or
  position outside the tables.
\<close>

section \<open>Tables (lines 44--57, 60, 106--119)\<close>

definition first_names :: "string list" where
  "first_names = [''James'', ''Michael'', ''Chris'', ''Derrick'', ''Kyrie'', ''Trae'', ''Ja'',
     ''De'' @ [CHR 0x27] @ ''Aaron'', ''Tyrese'', ''Devin'', ''Bradley'', ''Zach'', ''CJ'', ''Jordan'',
     ''Jaylen'', ''DeMar'', ''Terry'', ''LeBron'', ''Kevin'', ''Paul'', ''Kawhi'', ''Jimmy'', ''Jayson'',
     ''Brandon'', ''Mikal'', ''OG'', ''Harrison'', ''Anthony'', ''Pascal'', ''Julius'', ''Zion'', ''Evan'',
     ''Jaren'', ''Lauri'', ''Kristaps'', ''Alperen'', ''Bam'', ''Joel'', ''Nikola'', ''Rudy'', ''Myles'',
     ''Jarrett'', ''Clint'', ''Jakob'', ''Steven'', ''Brook'', ''Marcus'', ''DeAndre'', ''Kyle'', ''Tyler'']"

definition last_names :: "string list" where
  "last_names = [''Johnson'', ''Williams'', ''Brown'', ''Jones'', ''Davis'', ''Miller'', ''Wilson'',
     ''Moore'', ''Taylor'', ''Anderson'', ''Thomas'', ''Jackson'', ''White'', ''Harris'', ''Martin'',
     ''Thompson'', ''Garcia'', ''Martinez'', ''Robinson'', ''Clark'', ''Lewis'', ''Walker'', ''Hall'',
     ''Allen'', ''Young'', ''King'', ''Wright'', ''Lopez'', ''Hill'', ''Scott'', ''Green'', ''Adams'',
     ''Baker'', ''Nelson'', ''Carter'', ''Mitchell'', ''Perez'', ''Roberts'', ''Turner'', ''Phillips'']"

definition quality_mults :: "(string \<times> real) list" where
  "quality_mults = [(''elite'', 1.15), (''good'', 1.05), (''average'', 1.0), (''poor'', 0.95)]"

text \<open>\<open>6'0"\<close> and so on.\<close>

definition feet_inches :: "string \<Rightarrow> string \<Rightarrow> string" where
  "feet_inches f i = f @ [CHR 0x27] @ i @ [CHR 0x22]"

definition heights :: "(int \<times> string list) list" where
  "heights = [(0, [feet_inches ''6'' ''0'', feet_inches ''6'' ''1'', feet_inches ''6'' ''2'', feet_inches ''6'' ''3'']),
              (1, [feet_inches ''6'' ''3'', feet_inches ''6'' ''4'', feet_inches ''6'' ''5'', feet_inches ''6'' ''6'']),
              (2, [feet_inches ''6'' ''6'', feet_inches ''6'' ''7'', feet_inches ''6'' ''8'', feet_inches ''6'' ''9'']),
              (3, [feet_inches ''6'' ''8'', feet_inches ''6'' ''9'', feet_inches ''6'' ''10'', feet_inches ''6'' ''11'']),
              (4, [feet_inches ''6'' ''10'', feet_inches ''6'' ''11'', feet_inches ''7'' ''0'', feet_inches ''7'' ''1'',
                   feet_inches ''7'' ''2''])]"

definition weights :: "(int \<times> string list) list" where
  "weights = [(0, [''170'', ''175'', ''180'', ''185'', ''190'']), (1, [''185'', ''190'', ''195'', ''200'']),
              (2, [''200'', ''210'', ''220'', ''230'']), (3, [''220'', ''230'', ''240'', ''250'']),
              (4, [''240'', ''250'', ''260'', ''270'', ''280''])]"

text \<open>\<open>d[k]\<close> on a dict literal.\<close>

definition py_lookup :: "('k \<times> 'v) list \<Rightarrow> 'k \<Rightarrow> 'v py_result" where
  "py_lookup d k = (case map_of d k of Some v \<Rightarrow> Inr v | None \<Rightarrow> Inl KeyError)"

text \<open>
  Lines 64--93: the ranges of \<open>ppg\<close>, \<open>apg\<close>, \<open>rpg\<close>, \<open>fg_pct\<close>,
  \<open>three_pct\<close>, in the order they are drawn; every position other than 0--3 takes the
  \<open>else\<close> (centre) branch.
\<close>

definition stat_ranges :: "int \<Rightarrow> (real \<times> real) list" where
  "stat_ranges position =
     (if position = 0 then [(8, 16), (4, 8), (2, 5), (0.40, 0.48), (0.32, 0.42)]
      else if position = 1 then [(10, 18), (2, 5), (3, 6), (0.42, 0.50), (0.35, 0.45)]
      else if position = 2 then [(12, 20), (2, 4), (4, 8), (0.44, 0.52), (0.33, 0.40)]
      else if position = 3 then [(10, 16), (1, 3), (6, 10), (0.46, 0.54), (0.28, 0.38)]
      else [(8, 14), (1, 2), (7, 12), (0.50, 0.58), (0.20, 0.35)])"

fun uniforms :: "(real \<times> real) list \<Rightarrow> real list rand" where
  "uniforms [] = rreturn []"
| "uniforms ((a, b) # rs) = rbind (uniform a b) (\<lambda>x. rbind (uniforms rs) (\<lambda>xs. rreturn (x # xs)))"

section \<open>Rounding\<close>

text \<open>
  \<open>round(x, n)\<close> on a float rounds the exact value half to even at \<open>n\<close> decimals.
\<close>

definition round_half_even :: "real \<Rightarrow> int" where
  "round_half_even x =
     (let f = \<lfloor>x\<rfloor>; d = x - of_int f in
      if d < 1 / 2 then f else if 1 / 2 < d then f + 1 else if even f then f else f + 1)"

definition py_round :: "real \<Rightarrow> nat \<Rightarrow> real" where
  "py_round x n = of_int (round_half_even (x * 10 ^ n)) / 10 ^ n"

section \<open>The generator (lines 42--140)\<close>

text \<open>Line 101: the overall rating before scaling.\<close>

definition base_rating :: "real \<Rightarrow> real \<Rightarrow> real \<Rightarrow> real \<Rightarrow> real \<Rightarrow> real \<Rightarrow> real" where
  "base_rating ppg rpg apg fg_pct three_pct ft_pct =
     (ppg * 3.0 + rpg * 2.5 + apg * 3.0 + fg_pct * 50 + three_pct * 30 + ft_pct * 20) / 15"

text \<open>Lines 123--139: the returned dict, keys in source order.\<close>

definition player_record ::
  "string \<Rightarrow> string \<Rightarrow> int \<Rightarrow> int \<Rightarrow> string \<Rightarrow> string \<Rightarrow> int \<Rightarrow> int \<Rightarrow>
   real \<Rightarrow> real \<Rightarrow> real \<Rightarrow> real \<Rightarrow> real \<Rightarrow> real \<Rightarrow> real \<Rightarrow> real \<Rightarrow> json" where
  "player_record first_name last_name position jersey height weight age rating
     ppg rpg apg fg_pct three_pct ft_pct spg bpg =
   JDict [(''first_name'', JStr first_name), (''last_name'', JStr last_name),
          (''position'', JInt position), (''jersey'', JInt jersey),
          (''height'', JStr height), (''weight'', JStr weight), (''age'', JInt age),
          (''rating'', JInt rating),
          (''stats'', JDict [(''ppg'', JFloat (py_round ppg 1)), (''rpg'', JFloat (py_round rpg 1)),
                             (''apg'', JFloat (py_round apg 1)), (''fg_pct'', JFloat (py_round fg_pct 3)),
                             (''three_pct'', JFloat (py_round three_pct 3)),
                             (''ft_pct'', JFloat (py_round ft_pct 3)), (''spg'', JFloat (py_round spg 1)),
                             (''bpg'', JFloat (py_round bpg 1))])]"

definition generate_realistic_player :: "int \<Rightarrow> int \<Rightarrow> string \<Rightarrow> json prog" where
  "generate_realistic_player position jersey team_quality =
     pbind (choice first_names) (\<lambda>first_name.
     pbind (choice last_names) (\<lambda>last_name.
     pbind (pure (py_lookup quality_mults team_quality)) (\<lambda>quality_mult.
     pbind (lift (uniform 0.85 1.15)) (\<lambda>variation.
     pbind (lift (uniforms (stat_ranges position))) (\<lambda>xs.
     let ppg = xs ! 0 * quality_mult * variation;
         apg = xs ! 1 * quality_mult * variation;
         rpg = xs ! 2 * quality_mult * variation;
         fg_pct = xs ! 3;
         three_pct = xs ! 4 in
     pbind (lift (uniform 0.65 0.85)) (\<lambda>ft_pct.
     pbind (lift (uniform 0.5 2.0)) (\<lambda>s.
     let spg = s * quality_mult * variation in
     pbind (lift (if 3 \<le> position
                  then rbind (uniform 0.2 1.5) (\<lambda>b. rreturn (b * quality_mult * variation))
                  else uniform 0.0 0.5)) (\<lambda>bpg.
     let rating = clamp 68 99 (py_int (base_rating ppg rpg apg fg_pct three_pct ft_pct
                                        * quality_mult * variation)) in
     pbind (pure (py_lookup heights position)) (\<lambda>hs.
     pbind (choice hs) (\<lambda>height.
     pbind (pure (py_lookup weights position)) (\<lambda>ws.
     pbind (choice ws) (\<lambda>weight.
     pbind (lift (randint 18 23)) (\<lambda>age.
     pure (Inr (player_record first_name last_name position jersey height weight age rating
                  ppg rpg apg fg_pct three_pct ft_pct spg bpg)))))))))))))))"

section \<open>Lemmas\<close>


lemma pbind_InrD:
  "pbind m f g = Some (Inr y, g') \<Longrightarrow> \<exists>x g1. m g = Some (Inr x, g1) \<and> f x g1 = Some (Inr y, g')"
  by (auto simp: pbind_def split: option.splits sum.splits)

lemma rbind_SomeD:
  "rbind m f g = Some (y, g') \<Longrightarrow> \<exists>x g1. m g = Some (x, g1) \<and> f x g1 = Some (y, g')"
  by (auto simp: rbind_def split: option.splits)

lemma lift_Inr_iff: "lift m g = Some (Inr x, g') \<longleftrightarrow> m g = Some (x, g')"
  by (auto simp: lift_def)

lemma pure_Inr_iff: "pure r g = Some (Inr x, g') \<longleftrightarrow> r = Inr x \<and> g' = g"
  by (auto simp: pure_def)

lemma py_lookup_Inr: "py_lookup d k = Inr v \<longleftrightarrow> map_of d k = Some v"
  by (auto simp: py_lookup_def split: option.splits)

lemma uniforms_range:
  "uniforms rs g = Some (xs, g') \<Longrightarrow> \<forall>(a, b) \<in> set rs. a \<le> b \<Longrightarrow>
   list_all2 (\<lambda>(a, b) x. a \<le> x \<and> x \<le> b) rs xs"
proof (induction rs arbitrary: g xs g')
  case Nil
  then show ?case by (simp add: rreturn_def)
next
  case (Cons r rs)
  obtain a b where r: "r = (a, b)" by (cases r)
  from Cons.prems(1) r obtain x g1 ys g2 where u: "uniform a b g = Some (x, g1)"
    and us: "uniforms rs g1 = Some (ys, g2)" and xs: "xs = x # ys" "g' = g2"
    by (auto dest!: rbind_SomeD simp: rreturn_def)
  from uniform_range [OF u] Cons.prems(2) r have "a \<le> x \<and> x \<le> b" by simp
  with Cons.IH [OF us] Cons.prems(2) r xs show ?case by simp
qed

lemma generate_trace:
  assumes "generate_realistic_player position jersey tq g = Some (Inr p, g')"
  shows "\<exists>fn g1 ln g2 qm var g3 xs g4 ft g5 s g6 bpg g7 hs h g8 ws w g9 age.
    choice first_names g = Some (Inr fn, g1) \<and> choice last_names g1 = Some (Inr ln, g2) \<and>
    map_of quality_mults tq = Some qm \<and> uniform 0.85 1.15 g2 = Some (var, g3) \<and>
    uniforms (stat_ranges position) g3 = Some (xs, g4) \<and> uniform 0.65 0.85 g4 = Some (ft, g5) \<and>
    uniform 0.5 2.0 g5 = Some (s, g6) \<and>
    (if 3 \<le> position then rbind (uniform 0.2 1.5) (\<lambda>b. rreturn (b * qm * var))
     else uniform 0.0 0.5) g6 = Some (bpg, g7) \<and>
    map_of heights position = Some hs \<and> choice hs g7 = Some (Inr h, g8) \<and>
    map_of weights position = Some ws \<and> choice ws g8 = Some (Inr w, g9) \<and>
    randint 18 23 g9 = Some (age, g') \<and>
    p = player_record fn ln position jersey h w age
          (clamp 68 99 (py_int (base_rating (xs ! 0 * qm * var) (xs ! 2 * qm * var) (xs ! 1 * qm * var)
                                   (xs ! 3) (xs ! 4) ft * qm * var)))
          (xs ! 0 * qm * var) (xs ! 2 * qm * var) (xs ! 1 * qm * var) (xs ! 3) (xs ! 4) ft
          (s * qm * var) bpg"
  using assms unfolding generate_realistic_player_def Let_def
  by (fastforce dest!: pbind_InrD simp: lift_Inr_iff pure_Inr_iff py_lookup_Inr)


lemma stat_ranges_bounds:
  "list_all2 (\<lambda>(a, b) c. 0 \<le> a \<and> a \<le> b \<and> b \<le> c) (stat_ranges position) [20, 8, 12, 0.58, 0.45]"
  by (simp add: stat_ranges_def)

lemma quality_mult_range: "map_of quality_mults tq = Some qm \<Longrightarrow> 0.95 \<le> qm \<and> qm \<le> 1.15"
  by (auto simp: quality_mults_def split: if_splits)

text \<open>The scaled rating (line 102) stays below 69 for every draw.\<close>

lemma scaled_rating_small:
  fixes x0 x1 x2 x3 x4 ft k :: real
  assumes k: "0 \<le> k" "k \<le> 1.3225"
    and x: "0 \<le> x0" "x0 \<le> 20" "0 \<le> x1" "x1 \<le> 8" "0 \<le> x2" "x2 \<le> 12"
      "0 \<le> x3" "x3 \<le> 0.58" "0 \<le> x4" "x4 \<le> 0.45" "0 \<le> ft" "ft \<le> 0.85"
  shows "0 \<le> base_rating (x0 * k) (x2 * k) (x1 * k) x3 x4 ft * k \<and>
         base_rating (x0 * k) (x2 * k) (x1 * k) x3 x4 ft * k < 69"
proof -
  define a where "a = 3 * x0 + 2.5 * x2 + 3 * x1"
  define c where "c = 50 * x3 + 30 * x4 + 20 * ft"
  have a: "0 \<le> a" "a \<le> 114" using x by (simp_all add: a_def)
  have c: "0 \<le> c" "c \<le> 59.5" using x by (simp_all add: c_def)
  have "a * k \<le> 114 * 1.3225" using a k by (intro mult_mono) simp_all
  then have i: "0 \<le> a * k + c" "a * k + c \<le> 210.265" using a c k by simp_all
  then have b: "(a * k + c) * k \<le> 210.265 * 1.3225" using k by (intro mult_mono) simp_all
  have eq: "base_rating (x0 * k) (x2 * k) (x1 * k) x3 x4 ft * k = (a * k + c) * k / 15"
    by (simp add: base_rating_def a_def c_def algebra_simps)
  have "0 \<le> (a * k + c) * k" using i k by simp
  moreover from b have "(a * k + c) * k / 15 < 69" by simp
  ultimately show ?thesis unfolding eq by simp
qed

lemma clamp_rating_68: "0 \<le> y \<Longrightarrow> y < 69 \<Longrightarrow> clamp 68 99 (py_int y) = 68"
  by (simp add: clamp_def py_int_def floor_less_iff)

lemma generate_rating_68:
  assumes "generate_realistic_player position jersey tq g = Some (Inr p, g')"
  shows "\<exists>d. p = JDict d \<and> map_of d ''rating'' = Some (JInt 68)"
proof -
  from generate_trace [OF assms] obtain qm var xs ft g2 g3 g4 g5 where
    q: "map_of quality_mults tq = Some qm" and v: "uniform 0.85 1.15 g2 = Some (var, g3)"
    and u: "uniforms (stat_ranges position) g3 = Some (xs, g4)"
    and f: "uniform 0.65 0.85 g4 = Some (ft, g5)"
    and p: "\<exists>fn ln h w age s bpg. p = player_record fn ln position jersey h w age
          (clamp 68 99 (py_int (base_rating (xs ! 0 * qm * var) (xs ! 2 * qm * var) (xs ! 1 * qm * var)
                                   (xs ! 3) (xs ! 4) ft * qm * var)))
          (xs ! 0 * qm * var) (xs ! 2 * qm * var) (xs ! 1 * qm * var) (xs ! 3) (xs ! 4) ft
          (s * qm * var) bpg"
    by blast
  have qm: "0.95 \<le> qm" "qm \<le> 1.15" using quality_mult_range [OF q] by simp_all
  have var: "0.85 \<le> var" "var \<le> 1.15" using uniform_range [OF v] by simp_all
  have ft: "0.65 \<le> ft" "ft \<le> 0.85" using uniform_range [OF f] by simp_all
  have "qm * var \<le> 1.15 * 1.15" using qm var by (intro mult_mono) simp_all
  then have k: "0 \<le> qm * var" "qm * var \<le> 1.3225" using qm var by simp_all
  have r: "\<forall>(a, b) \<in> set (stat_ranges position). a \<le> b" by (simp add: stat_ranges_def)
  have xs: "list_all2 (\<lambda>(a, b) x. a \<le> x \<and> x \<le> b) (stat_ranges position) xs"
    by (rule uniforms_range [OF u r])
  have "0 \<le> xs ! 0 \<and> xs ! 0 \<le> 20 \<and> 0 \<le> xs ! 1 \<and> xs ! 1 \<le> 8 \<and> 0 \<le> xs ! 2 \<and> xs ! 2 \<le> 12 \<and>
        0 \<le> xs ! 3 \<and> xs ! 3 \<le> 0.58 \<and> 0 \<le> xs ! 4 \<and> xs ! 4 \<le> 0.45"
    using xs stat_ranges_bounds [of position]
    by (auto simp: stat_ranges_def list_all2_Cons1 split: if_splits)
  with scaled_rating_small [OF k, of "xs ! 0" "xs ! 1" "xs ! 2" "xs ! 3" "xs ! 4" ft] ft
  have "clamp 68 99 (py_int (base_rating (xs ! 0 * (qm * var)) (xs ! 2 * (qm * var)) (xs ! 1 * (qm * var))
                           (xs ! 3) (xs ! 4) ft * (qm * var))) = 68"
    by (intro clamp_rating_68) simp_all
  with p show ?thesis by (auto simp: player_record_def mult.assoc)
qed


lemma uniforms_total: "rand_total (uniforms rs)"
proof (induction rs)
  case Nil
  show ?case unfolding uniforms.simps by (rule rreturn_total)
next
  case (Cons r rs)
  then show ?case
    by (cases r) (simp only: uniforms.simps, intro rbind_total uniform_total rreturn_total)
qed

lemma bpg_total: "rand_total (if c then rbind (uniform a b) (\<lambda>x. rreturn (f x)) else uniform a' b')"
  by (simp add: rbind_total uniform_total rreturn_total)

lemma heights_lookup: "py_lookup heights position = Inr hs \<Longrightarrow> hs \<noteq> [] \<and> length hs < 2 ^ 32"
  by (auto simp: py_lookup_def heights_def split: if_splits)

lemma weights_lookup: "py_lookup weights position = Inr ws \<Longrightarrow> ws \<noteq> [] \<and> length ws < 2 ^ 32"
  by (auto simp: py_lookup_def weights_def split: if_splits)

lemma heights_weights_keys:
  "(\<exists>hs. py_lookup heights position = Inr hs) \<longleftrightarrow> 0 \<le> position \<and> position \<le> 4"
  "(\<exists>ws. py_lookup weights position = Inr ws) \<longleftrightarrow> 0 \<le> position \<and> position \<le> 4"
  by (auto simp: py_lookup_def heights_def weights_def)

lemma generate_tail_ok:
  assumes "py_lookup heights position = Inr hs" "py_lookup weights position = Inr ws"
  shows "prog_ok (pbind (pure (py_lookup heights position)) (\<lambda>hs. pbind (choice hs) (\<lambda>h.
           pbind (pure (py_lookup weights position)) (\<lambda>ws. pbind (choice ws) (\<lambda>w.
           pbind (lift (randint 18 23)) (\<lambda>age. pure (Inr (f h w age))))))))"
  using heights_lookup [OF assms(1)] weights_lookup [OF assms(2)] assms
  by (simp, intro pbind_ok choice_ok lift_ok randint_total pure_ok) simp_all


text \<open>A valid position and tier make the generator a program that returns without raising.\<close>

lemma generate_ok:
  assumes q: "map_of quality_mults tq \<noteq> None" and pos: "0 \<le> position" "position \<le> 4"
  shows "prog_ok (generate_realistic_player position jersey tq)"
proof -
  obtain qm where qm: "py_lookup quality_mults tq = Inr qm"
    using q by (auto simp: py_lookup_def)
  obtain hs where hs: "py_lookup heights position = Inr hs" using heights_weights_keys(1) pos by blast
  obtain ws where ws: "py_lookup weights position = Inr ws" using heights_weights_keys(2) pos by blast
  show ?thesis
    unfolding generate_realistic_player_def qm hs ws Let_def pbind_pure_Inr
    using heights_lookup [OF hs] weights_lookup [OF ws]
    by (intro pbind_ok choice_ok lift_ok uniform_total uniforms_total bpg_total randint_total pure_ok)
       (simp_all add: first_names_def last_names_def)
qed

lemma mid_source_msb: "msb_clear mid_source"
  by (simp add: msb_clear_def)

section \<open>Claims\<close>

text \<open>
  C17. The rating formula of lines 101--103 never leaves the lower clamp: for every draw,
  the scaled weighted sum is below 69, so every generated record has rating 68, although
  the spec derives the rating from the statistics within \<open>[68, 99]\<close>.
\<close>

theorem generate_rating_always_68:
  assumes "generate_realistic_player position jersey tq g = Some (Inr p, g')"
  shows "\<exists>d. p = JDict d \<and> map_of d ''rating'' = Some (JInt 68)"
  using assms by (rule generate_rating_68)

theorem generate_rating_always_68_witness:
  "\<exists>p g' d. generate_realistic_player 2 5 ''average'' mid_source = Some (Inr p, g') \<and>
     p = JDict d \<and> map_of d ''rating'' = Some (JInt 68)"
proof -
  have ok: "prog_ok (generate_realistic_player 2 5 ''average'')"
    by (rule generate_ok) (simp_all add: quality_mults_def)
  obtain p g' where run: "generate_realistic_player 2 5 ''average'' mid_source = Some (Inr p, g')"
    using prog_okD [OF ok mid_source_msb] by blast
  from generate_rating_always_68 [OF run] obtain d where "p = JDict d" "map_of d ''rating'' = Some (JInt 68)"
    by blast
  with run show ?thesis by blast
qed

text \<open>
  C18. Termination: on a random source whose words have the top bit clear (so that no
  rejection loop of \<open>_randbelow\<close> retries), the generator returns a record for every
  position 0--4 and every tier of the multiplier table.
\<close>

theorem generate_succeeds:
  assumes g: "msb_clear g" and q: "map_of quality_mults tq \<noteq> None"
    and pos: "0 \<le> position" "position \<le> 4"
  shows "\<exists>p g'. generate_realistic_player position jersey tq g = Some (Inr p, g')"
  using prog_okD [OF generate_ok [OF q pos] g] by blast

theorem generate_succeeds_witness:
  "msb_clear mid_source \<and> map_of quality_mults ''poor'' \<noteq> None \<and>
   (\<exists>p g'. generate_realistic_player 4 12 ''poor'' mid_source = Some (Inr p, g'))"
proof -
  have q: "map_of quality_mults ''poor'' \<noteq> None" by (simp add: quality_mults_def)
  have "\<exists>p g'. generate_realistic_player 4 12 ''poor'' mid_source = Some (Inr p, g')"
    by (rule generate_succeeds [OF mid_source_msb q]) simp_all
  with q mid_source_msb show ?thesis by blast
qed

text \<open>
  C19. Error path: a tier missing from the multiplier table (line 60) or a position
  outside 0--4 (the \<open>heights\<close> lookup of line 128) makes the generator raise
  \<open>KeyError\<close>, after drawing the names.
\<close>

theorem generate_key_error:
  assumes g: "msb_clear g"
    and bad: "map_of quality_mults tq = None \<or> \<not> (0 \<le> position \<and> position \<le> 4)"
  shows "\<exists>g'. generate_realistic_player position jersey tq g = Some (Inl KeyError, g')"
proof -
  have "prog_err KeyError (generate_realistic_player position jersey tq)"
  proof (cases "map_of quality_mults tq")
    case None
    then have "py_lookup quality_mults tq = Inl KeyError" by (simp add: py_lookup_def)
    then show ?thesis
      unfolding generate_realistic_player_def
      by (simp only: pbind_pure_Inl, intro pbind_err_next choice_ok pure_err)
         (simp_all add: first_names_def last_names_def)
  next
    case (Some qm)
    with bad have "py_lookup heights position = Inl KeyError"
      by (auto simp: py_lookup_def heights_def)
    with Some show ?thesis
      unfolding generate_realistic_player_def Let_def
      by (simp add: py_lookup_def, intro pbind_err_next pbind_ok choice_ok lift_ok uniform_total
            uniforms_total bpg_total pure_err) (simp_all add: first_names_def last_names_def)
  qed
  with g show ?thesis by (simp add: prog_err_def)
qed

theorem generate_key_error_witness:
  "msb_clear mid_source \<and> map_of quality_mults ''great'' = None \<and>
   (\<exists>g'. generate_realistic_player 2 5 ''great'' mid_source = Some (Inl KeyError, g')) \<and>
   (\<exists>g'. generate_realistic_player 5 5 ''good'' mid_source = Some (Inl KeyError, g'))"
proof -
  have q: "map_of quality_mults ''great'' = None" by (simp add: quality_mults_def)
  have 1: "\<exists>g'. generate_realistic_player 2 5 ''great'' mid_source = Some (Inl KeyError, g')"
    by (rule generate_key_error [OF mid_source_msb]) (simp add: q)
  have 2: "\<exists>g'. generate_realistic_player 5 5 ''good'' mid_source = Some (Inl KeyError, g')"
    by (rule generate_key_error [OF mid_source_msb]) simp
  from q 1 2 mid_source_msb show ?thesis by blast
qed

text \<open>
  C20. Shape of a generated record: the nine keys of lines 123--139 in order, the given
  position and jersey, names from the two pools, height and weight from the position's
  lists, age in \<open>[18, 23]\<close>, and the eight statistics keys the mapper reads.
\<close>

theorem generate_record_shape:
  assumes "generate_realistic_player position jersey tq g = Some (Inr p, g')"
  shows "\<exists>fn ln h w age r st.
    p = JDict [(''first_name'', JStr fn), (''last_name'', JStr ln), (''position'', JInt position),
               (''jersey'', JInt jersey), (''height'', JStr h), (''weight'', JStr w), (''age'', JInt age),
               (''rating'', JInt r), (''stats'', JDict st)] \<and>
    fn \<in> set first_names \<and> ln \<in> set last_names \<and>
    h \<in> set (the (map_of heights position)) \<and> w \<in> set (the (map_of weights position)) \<and>
    18 \<le> age \<and> age \<le> 23 \<and>
    map fst st = [''ppg'', ''rpg'', ''apg'', ''fg_pct'', ''three_pct'', ''ft_pct'', ''spg'', ''bpg'']"
proof -
  from generate_trace [OF assms] obtain fn g1 ln g2 g7 hs h g8 ws w g9 age where
    t: "choice first_names g = Some (Inr fn, g1)" "choice last_names g1 = Some (Inr ln, g2)"
       "map_of heights position = Some hs" "choice hs g7 = Some (Inr h, g8)"
       "map_of weights position = Some ws" "choice ws g8 = Some (Inr w, g9)"
       "randint 18 23 g9 = Some (age, g')"
       and "\<exists>r st. p = JDict [(''first_name'', JStr fn), (''last_name'', JStr ln),
               (''position'', JInt position), (''jersey'', JInt jersey), (''height'', JStr h),
               (''weight'', JStr w), (''age'', JInt age), (''rating'', JInt r), (''stats'', JDict st)] \<and>
             map fst st = [''ppg'', ''rpg'', ''apg'', ''fg_pct'', ''three_pct'', ''ft_pct'', ''spg'', ''bpg'']"
    unfolding player_record_def by (elim exE conjE) (intro that exI conjI, assumption+, simp_all)
  moreover from t(1,2,4,6) have "fn \<in> set first_names" "ln \<in> set last_names" "h \<in> set hs" "w \<in> set ws"
    by (simp_all add: choice_in)
  moreover from randint_bound [OF t(7)] have "18 \<le> age" "age \<le> 23" by simp_all
  ultimately show ?thesis using t(3,5) by auto
qed

theorem generate_record_shape_witness:
  "\<exists>p g'. generate_realistic_player 1 23 ''elite'' mid_source = Some (Inr p, g') \<and>
     (\<exists>fn ln h w age r st.
       p = JDict [(''first_name'', JStr fn), (''last_name'', JStr ln), (''position'', JInt 1),
                  (''jersey'', JInt 23), (''height'', JStr h), (''weight'', JStr w), (''age'', JInt age),
                  (''rating'', JInt r), (''stats'', JDict st)] \<and>
       fn \<in> set first_names \<and> 18 \<le> age \<and> age \<le> 23)"
proof -
  have ok: "prog_ok (generate_realistic_player 1 23 ''elite'')"
    by (rule generate_ok) (simp_all add: quality_mults_def)
  obtain p g' where run: "generate_realistic_player 1 23 ''elite'' mid_source = Some (Inr p, g')"
    using prog_okD [OF ok mid_source_msb] by blast
  from generate_record_shape [OF run] run show ?thesis by blast
qed

end
