(* ===== verification/Attributes.thy ===== *)
theory Attributes
  imports Json
begin

text \<open>
  The attribute mapper, \<open>calculate_attributes_from_stats\<close>
  (src/scripts/update_all_rosters.py, lines 11--40): eight per-game statistics become
  twelve attribute pairs \<open>[v, v]\<close>, each \<open>v = min(20, max(0, int(e)))\<close> for a fixed
  linear expression \<open>e\<close>. The arguments are whatever \<open>stats.get(...)\<close> returned,
  so the model takes JSON values and evaluates each line as Python does: an operand that
  is not a number raises \<open>TypeError\<close>, except in \<open>int(x * n)\<close> with an int
  \<open>n\<close>, where a string is repeated \<open>n\<close> times and parsed by \<open>int\<close>.
\<close>

section \<open>The mapper\<close>

text \<open>\<open>min(20, max(0, int(x)))\<close>.\<close>

definition attr_clamp :: "real \<Rightarrow> int" where
  "attr_clamp x = clamp 0 20 (py_int x)"

text \<open>
  \<open>int(v * n)\<close> for an int literal \<open>n\<close>: numbers multiply; a string is
  repeated (\<open>'1' * 20\<close>) and parsed; lists, dicts and None raise \<open>TypeError\<close>
  (\<open>int([..])\<close>, \<open>dict * int\<close>, \<open>None * int\<close>).
\<close>

fun py_int_times :: "json \<Rightarrow> nat \<Rightarrow> int py_result" where
  "py_int_times (JStr s) n = py_int_of_str (concat (replicate n s))"
| "py_int_times v n = py_bind (py_num v) (\<lambda>x. Inr (py_int (x * of_nat n)))"

text \<open>The pair \<open>[v, v]\<close> stored for one attribute.\<close>

definition attr_pair :: "int \<Rightarrow> json" where
  "attr_pair v = JList [JInt v, JInt v]"

definition attr_keys :: "string list" where
  "attr_keys = [''LAY'', ''DNK'', ''INS'', ''MID'', ''TPT'', ''FTS'',
                ''DRB'', ''PAS'', ''ORE'', ''DRE'', ''STL'', ''BLK'']"

text \<open>The returned dict, keys in the source's order.\<close>

definition attr_dict :: "int list \<Rightarrow> dict" where
  "attr_dict vs = zip attr_keys (map attr_pair vs)"

text \<open>
  The twelve values, from the operands as Python numbers: \<open>ft20\<close>, \<open>s10\<close>
  and \<open>b10\<close> are the already truncated \<open>int(ft_pct * 20)\<close>,
  \<open>int(spg * 10)\<close>, \<open>int(bpg * 10)\<close>. \<open>dunk\<close> reads the clamped
  \<open>layup\<close>, as line 15 does.
\<close>

definition attr_values ::
  "real \<Rightarrow> real \<Rightarrow> real \<Rightarrow> real \<Rightarrow> real \<Rightarrow> int \<Rightarrow> int \<Rightarrow> int \<Rightarrow> int list" where
  "attr_values p r a fg t ft20 s10 b10 =
     (let layup = attr_clamp (p * 0.6 + fg * 30) in
      [layup,
       attr_clamp (r * 0.5 + of_int layup * 0.3),
       attr_clamp (fg * 35 + r * 0.8),
       attr_clamp (fg * 30 + p * 0.5),
       attr_clamp (t * 40 + p * 0.3),
       clamp 0 20 ft20,
       attr_clamp (a * 1.2 + p * 0.3),
       attr_clamp (a * 1.0),
       attr_clamp (r * 0.6),
       attr_clamp (r * 0.8),
       clamp 0 20 s10,
       clamp 0 20 b10])"

text \<open>
  The function converts each argument where its line first uses it -- \<open>ppg\<close>,
  \<open>fg_pct\<close> (line 14), \<open>rpg\<close> (15), \<open>three_pct\<close> (18), \<open>ft_pct\<close> (19),
  \<open>apg\<close> (20), \<open>spg\<close> (24), \<open>bpg\<close> (25) -- so the first bad argument in
  that order raises. Once converted, the expressions have no effects and are computed
  by \<open>attr_values\<close>.
\<close>

definition calculate_attributes_from_stats ::
  "json \<Rightarrow> json \<Rightarrow> json \<Rightarrow> json \<Rightarrow> json \<Rightarrow> json \<Rightarrow> json \<Rightarrow> json \<Rightarrow> dict py_result" where
  "calculate_attributes_from_stats ppg rpg apg fg_pct three_pct ft_pct spg bpg =
     py_bind (py_num ppg) (\<lambda>p.
     py_bind (py_num fg_pct) (\<lambda>fg.
     py_bind (py_num rpg) (\<lambda>r.
     py_bind (py_num three_pct) (\<lambda>t.
     py_bind (py_int_times ft_pct 20) (\<lambda>ft20.
     py_bind (py_num apg) (\<lambda>a.
     py_bind (py_int_times spg 10) (\<lambda>s10.
     py_bind (py_int_times bpg 10) (\<lambda>b10.
     Inr (attr_dict (attr_values p r a fg t ft20 s10 b10))))))))))"

section \<open>Properties\<close>

lemma attr_clamp_bounds [simp]: "0 \<le> attr_clamp x \<and> attr_clamp x \<le> 20"
  by (simp add: attr_clamp_def)

lemma length_attr_values [simp]: "length (attr_values p r a fg t ft s b) = 12"
  by (simp add: attr_values_def Let_def)

lemma attr_values_bounds: "v \<in> set (attr_values p r a fg t ft s b) \<Longrightarrow> 0 \<le> v \<and> v \<le> 20"
  by (auto simp: attr_values_def Let_def)

lemma py_int_times_num: "py_num v = Inr x \<Longrightarrow> py_int_times v n = Inr (py_int (x * of_nat n))"
  by (cases v) auto

lemma keys_attr_dict: "length vs = 12 \<Longrightarrow> map fst (attr_dict vs) = attr_keys"
  by (simp add: attr_dict_def attr_keys_def)

lemma attr_dict_pairs:
  "(k, x) \<in> set (attr_dict vs) \<Longrightarrow> \<exists>v \<in> set vs. x = attr_pair v"
  by (metis attr_dict_def imageE set_map set_zip_rightD)

text \<open>A successful call returns exactly the twelve keys, each with a pair of equal values.\<close>

lemma calculate_attributes_Inr:
  assumes "calculate_attributes_from_stats ppg rpg apg fg t ft spg bpg = Inr attrs"
  shows "\<exists>vs. attrs = attr_dict vs \<and> length vs = 12 \<and> (\<forall>v \<in> set vs. 0 \<le> v \<and> v \<le> 20)"
proof -
  from assms obtain p r a f u v s b where "attrs = attr_dict (attr_values p r a f u v s b)"
    unfolding calculate_attributes_from_stats_def by (auto simp: py_bind_eq_Inr)
  then show ?thesis using attr_values_bounds length_attr_values by blast
qed

text \<open>Numeric arguments: the call succeeds with the values of the formulas.\<close>

lemma calculate_attributes_numeric:
  assumes "py_num ppg = Inr p" "py_num rpg = Inr r" "py_num apg = Inr a"
    "py_num fg = Inr f" "py_num t = Inr u" "py_num ft = Inr v" "py_num spg = Inr s"
    "py_num bpg = Inr b"
  shows "calculate_attributes_from_stats ppg rpg apg fg t ft spg bpg =
         Inr (attr_dict (attr_values p r a f u (py_int (v * 20)) (py_int (s * 10)) (py_int (b * 10))))"
  using assms by (simp add: calculate_attributes_from_stats_def py_int_times_num)

lemma attr_clamp_sat: "20 \<le> x \<Longrightarrow> attr_clamp x = 20"
  by (simp add: attr_clamp_def clamp_def py_int_nonneg le_floor_iff)

lemma clamp_py_int_sat: "20 \<le> x \<Longrightarrow> clamp 0 20 (py_int x) = 20"
  using attr_clamp_sat by (simp add: attr_clamp_def)

lemma attr_clamp_zero [simp]: "attr_clamp 0 = 0"
  by (simp add: attr_clamp_def clamp_def py_int_def)

lemma py_int_times_digit_one: "py_int_times (JStr ''1'') 20 = Inr 11111111111111111111"
  by code_simp

lemmas attr_eval = attr_dict_def attr_keys_def attr_pair_def attr_values_def attr_clamp_def
  clamp_def py_int_def

section \<open>Claims\<close>

text \<open>
  C1. Range: whenever the mapper returns, it returns the twelve attribute keys in the
  source's order, and each value is a pair \<open>[v, v]\<close> of one integer \<open>v\<close> with
  \<open>0 \<le> v \<le> 20\<close>, whatever the statistics (negative, huge, bool or int).
\<close>

theorem calculate_attributes_in_range:
  assumes "calculate_attributes_from_stats ppg rpg apg fg t ft spg bpg = Inr attrs"
  shows "map fst attrs = attr_keys \<and>
         (\<forall>(k, x) \<in> set attrs. \<exists>v. x = attr_pair v \<and> 0 \<le> v \<and> v \<le> 20)"
proof -
  from calculate_attributes_Inr [OF assms] obtain vs where
    vs: "attrs = attr_dict vs" "length vs = 12" "\<forall>v \<in> set vs. 0 \<le> v \<and> v \<le> 20"
    by blast
  then have "map fst attrs = attr_keys" by (simp add: keys_attr_dict)
  moreover have "\<forall>(k, x) \<in> set attrs. \<exists>v. x = attr_pair v \<and> 0 \<le> v \<and> v \<le> 20"
    using vs attr_dict_pairs by fastforce
  ultimately show ?thesis ..
qed

theorem calculate_attributes_in_range_witness:
  "calculate_attributes_from_stats (JFloat 14.2) (JFloat 3.8) (JFloat 5.1) (JFloat 0.445)
     (JFloat 0.365) (JFloat 0.82) (JFloat 1.2) (JFloat 0.3)
     = Inr (attr_dict [20, 7, 18, 20, 18, 16, 10, 5, 2, 3, 12, 3]) \<and>
   map fst (attr_dict [20, 7, 18, 20, 18, 16, 10, 5, 2, 3, 12, 3]) = attr_keys"
proof -
  have run: "calculate_attributes_from_stats (JFloat 14.2) (JFloat 3.8) (JFloat 5.1) (JFloat 0.445)
     (JFloat 0.365) (JFloat 0.82) (JFloat 1.2) (JFloat 0.3)
     = Inr (attr_dict [20, 7, 18, 20, 18, 16, 10, 5, 2, 3, 12, 3])"
  proof -
    have "attr_values 14.2 3.8 5.1 0.445 0.365 (py_int (0.82 * 20)) (py_int (1.2 * 10))
            (py_int (0.3 * 10)) = [20, 7, 18, 20, 18, 16, 10, 5, 2, 3, 12, 3]"
      by (simp add: attr_values_def Let_def attr_clamp_def clamp_def py_int_def)
    then show ?thesis
      by (simp add: calculate_attributes_numeric [where p = "14.2" and r = "3.8" and a = "5.1"
            and f = "0.445" and u = "0.365" and v = "0.82" and s = "1.2" and b = "0.3"])
  qed
  show ?thesis using run calculate_attributes_in_range [OF run] by simp
qed

text \<open>
  C2. All-zero statistics (\<open>0\<close>, \<open>0.0\<close> or \<open>False\<close> for each argument) give
  twelve zero attributes.
\<close>

theorem calculate_attributes_all_zero:
  assumes "py_num ppg = Inr 0" "py_num rpg = Inr 0" "py_num apg = Inr 0" "py_num fg = Inr 0"
    "py_num t = Inr 0" "py_num ft = Inr 0" "py_num spg = Inr 0" "py_num bpg = Inr 0"
  shows "calculate_attributes_from_stats ppg rpg apg fg t ft spg bpg =
         Inr (attr_dict (replicate 12 0))"
  using calculate_attributes_numeric [OF assms]
  by (simp add: attr_values_def Let_def clamp_def py_int_def numeral_eq_Suc)

theorem calculate_attributes_all_zero_witness:
  "calculate_attributes_from_stats (JInt 0) (JFloat 0) (JBool False) (JFloat 0) (JInt 0)
     (JFloat 0) (JInt 0) (JBool False) = Inr (attr_dict (replicate 12 0))"
  by (rule calculate_attributes_all_zero) simp_all

text \<open>
  C3. Saturation: large statistics give 20 in every attribute rather than a larger
  value (with non-negative shooting percentages, \<open>ppg \<ge> 67\<close>, \<open>rpg \<ge> 34\<close>,
  \<open>apg \<ge> 20\<close>, \<open>ft_pct \<ge> 1\<close>, \<open>spg, bpg \<ge> 2\<close>).
\<close>

theorem calculate_attributes_saturates:
  assumes num: "py_num ppg = Inr p" "py_num rpg = Inr r" "py_num apg = Inr a" "py_num fg = Inr f"
    "py_num t = Inr u" "py_num ft = Inr v" "py_num spg = Inr s" "py_num bpg = Inr b"
    and big: "67 \<le> p" "34 \<le> r" "20 \<le> a" "0 \<le> f" "0 \<le> u" "1 \<le> v" "2 \<le> s" "2 \<le> b"
  shows "calculate_attributes_from_stats ppg rpg apg fg t ft spg bpg =
         Inr (attr_dict (replicate 12 20))"
proof -
  have lay: "attr_clamp (p * 0.6 + f * 30) = 20" using big by (intro attr_clamp_sat) simp
  have "attr_values p r a f u (py_int (v * 20)) (py_int (s * 10)) (py_int (b * 10)) =
        replicate 12 20"
    unfolding attr_values_def Let_def lay
    using big by (simp add: attr_clamp_sat clamp_py_int_sat numeral_eq_Suc)
  then show ?thesis using calculate_attributes_numeric [OF num] by simp
qed

theorem calculate_attributes_saturates_witness:
  "calculate_attributes_from_stats (JInt 100) (JInt 40) (JInt 25) (JFloat 0.5) (JFloat 0.4)
     (JInt 1) (JInt 3) (JInt 3) = Inr (attr_dict (replicate 12 20))"
  by (rule calculate_attributes_saturates [of _ 100 _ 40 _ 25 _ "0.5" _ "0.4" _ 1 _ 3 _ 3]) simp_all

text \<open>
  C4. Error path: a \<open>ppg\<close> that is not a number (a string, None, a list or a dict)
  makes line 14 raise \<open>TypeError\<close>, whatever the other arguments.
\<close>

theorem calculate_attributes_type_error:
  assumes "\<forall>x. py_num ppg \<noteq> Inr x"
  shows "calculate_attributes_from_stats ppg rpg apg fg t ft spg bpg = Inl TypeError"
proof -
  have "py_num ppg = Inl TypeError"
    using assms by (cases ppg) auto
  then show ?thesis by (simp add: calculate_attributes_from_stats_def)
qed

theorem calculate_attributes_type_error_witness:
  "calculate_attributes_from_stats (JStr ''14.2'') (JInt 3) (JInt 5) (JFloat 0.4) (JFloat 0.3)
     (JFloat 0.8) (JInt 1) (JInt 0) = Inl TypeError"
  by (rule calculate_attributes_type_error) simp

text \<open>
  C5. A free-throw percentage given as the string \<open>"1"\<close> is not rejected: line 19
  computes \<open>int("1" * 20)\<close> = 11111111111111111111 and the attribute saturates
  at 20, for any numeric values of the other statistics.
\<close>

theorem calculate_attributes_string_ft:
  assumes "py_num ppg = Inr p" "py_num rpg = Inr r" "py_num apg = Inr a" "py_num fg = Inr f"
    "py_num t = Inr u" "py_num spg = Inr s" "py_num bpg = Inr b"
  shows "\<exists>attrs. calculate_attributes_from_stats ppg rpg apg fg t (JStr ''1'') spg bpg = Inr attrs
           \<and> map_of attrs ''FTS'' = Some (attr_pair 20)"
  using assms
  by (simp add: calculate_attributes_from_stats_def py_int_times_num py_int_times_digit_one
      attr_dict_def attr_keys_def attr_values_def Let_def clamp_def del: py_int_times.simps)

theorem calculate_attributes_string_ft_witness:
  "\<exists>attrs. calculate_attributes_from_stats (JFloat 14.2) (JFloat 3.8) (JFloat 5.1)
     (JFloat 0.445) (JFloat 0.365) (JStr ''1'') (JFloat 1.2) (JFloat 0.3) = Inr attrs
     \<and> map_of attrs ''FTS'' = Some (attr_pair 20)"
  by (rule calculate_attributes_string_ft [where p = "14.2" and r = "3.8" and a = "5.1"
        and f = "0.445" and u = "0.365" and s = "1.2" and b = "0.3"]) simp_all

end
