(* ===== verification/Updater.thy ===== *)
theory Updater
  imports Attributes
begin

text \<open>
  The player updater, \<open>update_player(player, real_data)\<close>
  (src/scripts/update_all_rosters.py, lines 424--497), and the career-player test it
  starts with. A save-file player is a JSON object with short keys (\<open>fn\<close>,
  \<open>ln\<close>, \<open>pid\<close>, \<open>pos\<close>, \<open>num\<close>, \<open>ht\<close>, \<open>wt\<close>, \<open>age\<close>,
  \<open>rating\<close>, \<open>attributes\<close>, \<open>stats\<close>, and whatever else the game stores); the
  replacement record uses long keys (\<open>first_name\<close>, \<open>position\<close>, \<dots>). The Python
  function mutates the player in place and returns it; the model returns the updated
  value, which the callers store back in the same roster slot.
\<close>

section \<open>The career-player test\<close>

text \<open>\<open>str(player.get(k, '')).lower()\<close>, lines 428--429.\<close>

definition name_key :: "dict \<Rightarrow> string \<Rightarrow> string" where
  "name_key p k = py_lower (py_str (dict_get p k (JStr [])))"

text \<open>Lines 432--436: the id, the exact name, or the two name parts as substrings.\<close>

definition is_career_player :: "dict \<Rightarrow> bool" where
  "is_career_player p \<longleftrightarrow>
     py_eq_int (dict_get p ''pid'' JNull) 706 \<or>
     (name_key p ''fn'' = ''isaac'' \<and> name_key p ''ln'' = ''condrey'') \<or>
     (py_substr ''isaac'' (name_key p ''fn'') \<and> py_substr ''condrey'' (name_key p ''ln''))"

text \<open>Line 443--445: a two-element list \<open>[20, 20]\<close>.\<close>

fun is_maxed_pair :: "json \<Rightarrow> bool" where
  "is_maxed_pair (JList [c, m]) = (py_eq_int c 20 \<and> py_eq_int m 20)"
| "is_maxed_pair _ = False"

text \<open>
  Lines 439--447. The loop stops at the first maxed pair, so the flag is whether
  \<^emph>\<open>any\<close> value is maxed. A truthy \<open>attributes\<close> value that is not a dict has
  no \<open>values()\<close> and raises \<open>AttributeError\<close>.
\<close>

definition has_maxed_attrs :: "dict \<Rightarrow> bool py_result" where
  "has_maxed_attrs p =
     (let attrs = dict_get p ''attributes'' (JDict []) in
      if \<not> py_truthy attrs then Inr False
      else case attrs of
        JDict d \<Rightarrow> Inr (list_ex (\<lambda>(k, v). is_maxed_pair v) d)
      | _ \<Rightarrow> Inl AttributeError)"

section \<open>Copying fields\<close>

text \<open>Lines 454--469, in order: source key of the replacement, target key of the player.\<close>

definition field_map :: "(string \<times> string) list" where
  "field_map = [(''first_name'', ''fn''), (''last_name'', ''ln''), (''position'', ''pos''),
                (''jersey'', ''num''), (''height'', ''ht''), (''weight'', ''wt''),
                (''age'', ''age''), (''rating'', ''rating'')]"

text \<open>\<open>if src in real_data: player[dst] = real_data[src]\<close>.\<close>

definition copy_field :: "json \<Rightarrow> dict \<Rightarrow> string \<times> string \<Rightarrow> dict py_result" where
  "copy_field rd p f =
     py_bind (py_contains rd (fst f)) (\<lambda>present.
       if present then py_bind (py_index rd (fst f)) (\<lambda>v. Inr (dict_set p (snd f) v))
       else Inr p)"

fun copy_fields :: "json \<Rightarrow> dict \<Rightarrow> (string \<times> string) list \<Rightarrow> dict py_result" where
  "copy_fields rd p [] = Inr p"
| "copy_fields rd p (f # fs) = py_bind (copy_field rd p f) (\<lambda>p'. copy_fields rd p' fs)"

section \<open>Attributes and statistics\<close>

text \<open>Lines 473--483: the eight \<open>stats.get\<close> calls with their defaults, then the mapper.\<close>

definition stats_attributes :: "json \<Rightarrow> dict py_result" where
  "stats_attributes st =
     py_bind (py_get st ''ppg'' (JInt 10)) (\<lambda>ppg.
     py_bind (py_get st ''rpg'' (JInt 5)) (\<lambda>rpg.
     py_bind (py_get st ''apg'' (JInt 3)) (\<lambda>apg.
     py_bind (py_get st ''fg_pct'' (JFloat 0.45)) (\<lambda>fg.
     py_bind (py_get st ''three_pct'' (JFloat 0.35)) (\<lambda>tp.
     py_bind (py_get st ''ft_pct'' (JFloat 0.75)) (\<lambda>ft.
     py_bind (py_get st ''spg'' (JInt 1)) (\<lambda>spg.
     py_bind (py_get st ''bpg'' (JFloat 0.5)) (\<lambda>bpg.
       calculate_attributes_from_stats ppg rpg apg fg tp ft spg bpg))))))))"

text \<open>\<open>{**x, **y}\<close> needs mappings: any other value raises \<open>TypeError\<close>.\<close>

fun dict_splat :: "json \<Rightarrow> dict py_result" where
  "dict_splat (JDict d) = Inr d"
| "dict_splat _ = Inl TypeError"

text \<open>
  Lines 486--495: a list-shaped \<open>stats\<close> is left alone, a dict is updated in place
  (its key keeps its position), anything else is replaced by the replacement's stats.
\<close>

definition merge_stats :: "dict \<Rightarrow> json \<Rightarrow> dict" where
  "merge_stats p st =
     (case dict_get p ''stats'' JNull of
        JList _ \<Rightarrow> p
      | JDict d \<Rightarrow> (case st of JDict e \<Rightarrow> dict_set p ''stats'' (JDict (dict_update d e))
                              | _ \<Rightarrow> p)
      | _ \<Rightarrow> dict_set p ''stats'' st)"

text \<open>Lines 472--495, entered with the player after the field copies.\<close>

definition update_stats :: "json \<Rightarrow> dict \<Rightarrow> dict py_result" where
  "update_stats rd p =
     py_bind (py_contains rd ''stats'') (\<lambda>present.
       if \<not> present then Inr p
       else py_bind (py_index rd ''stats'') (\<lambda>st.
            py_bind (stats_attributes st) (\<lambda>attrs.
            py_bind (dict_splat (dict_get p ''attributes'' (JDict []))) (\<lambda>old.
            Inr (merge_stats (dict_set p ''attributes'' (JDict (dict_update old attrs))) st)))))"

section \<open>The updater\<close>

text \<open>
  Lines 424--497. \<open>player.get\<close> needs a dict (\<open>AttributeError\<close> otherwise). The
  maxed-attribute scan runs before the decision, so it can raise even for a player
  whose id already identifies it.
\<close>

definition update_player :: "json \<Rightarrow> json \<Rightarrow> json py_result" where
  "update_player player rd =
     (case player of
        JDict p \<Rightarrow>
          py_bind (has_maxed_attrs p) (\<lambda>maxed.
            if is_career_player p \<or> maxed then Inr player
            else py_bind (copy_fields rd p field_map) (\<lambda>p1.
                 py_bind (update_stats rd p1) (\<lambda>p2. Inr (JDict p2))))
      | _ \<Rightarrow> Inl AttributeError)"

text \<open>One field copy from a dict-shaped replacement, as a pure function.\<close>

definition copy_step :: "dict \<Rightarrow> dict \<Rightarrow> string \<times> string \<Rightarrow> dict" where
  "copy_step r q f = (if dict_has r (fst f) then dict_set q (snd f) (dict_get r (fst f) JNull) else q)"

section \<open>Lemmas\<close>



lemma dict_index_has: "dict_has d k \<Longrightarrow> dict_index d k = Inr (dict_get d k JNull)"
  by (cases "map_of d k") (auto simp: dict_has_def dict_index_def dict_get_def map_of_eq_None_iff)

lemma copy_fields_dict: "copy_fields (JDict r) p fs = Inr (foldl (copy_step r) p fs)"
  by (induction fs arbitrary: p) (simp_all add: copy_field_def copy_step_def dict_index_has)

lemma copy_fold_frame:
  "k \<notin> snd ` set fs \<Longrightarrow> map_of (foldl (copy_step r) p fs) k = map_of p k"
  by (induction fs arbitrary: p) (auto simp: copy_step_def)

lemma copy_fold_target:
  "distinct (map snd fs) \<Longrightarrow> (s, t) \<in> set fs \<Longrightarrow>
   map_of (foldl (copy_step r) p fs) t =
     (if dict_has r s then Some (dict_get r s JNull) else map_of p t)"
proof (induction fs arbitrary: p)
  case Nil
  then show ?case by simp
next
  case (Cons f fs)
  show ?case
  proof (cases "f = (s, t)")
    case True
    with Cons.prems have "t \<notin> snd ` set fs" by auto
    then have "map_of (foldl (copy_step r) (copy_step r p f) fs) t = map_of (copy_step r p f) t"
      by (rule copy_fold_frame)
    moreover have "map_of (copy_step r p (s, t)) t =
        (if dict_has r s then Some (dict_get r s JNull) else map_of p t)"
      by (simp add: copy_step_def)
    ultimately show ?thesis using True by simp
  next
    case False
    with Cons.prems have st: "(s, t) \<in> set fs" and ne: "t \<noteq> snd f"
      by (auto simp: rev_image_eqI)
    from Cons.prems have "distinct (map snd fs)" by simp
    from Cons.IH [OF this st] ne show ?thesis by (simp add: copy_step_def)
  qed
qed

lemma distinct_field_targets: "distinct (map snd field_map)"
  by (simp add: field_map_def)

lemma attributes_not_target: "''attributes'' \<notin> snd ` set field_map"
  by (simp add: field_map_def)

lemma update_player_unprotected:
  "has_maxed_attrs p = Inr False \<Longrightarrow> \<not> is_career_player p \<Longrightarrow>
   update_player (JDict p) rd =
     py_bind (copy_fields rd p field_map) (\<lambda>p1. py_bind (update_stats rd p1) (\<lambda>p2. Inr (JDict p2)))"
  by (simp add: update_player_def)

lemma update_stats_absent:
  "\<not> dict_has r ''stats'' \<Longrightarrow> update_stats (JDict r) p = Inr p"
  by (simp add: update_stats_def)

lemma update_stats_present:
  assumes "dict_has r ''stats''" "stats_attributes (dict_get r ''stats'' JNull) = Inr attrs"
    "dict_get p ''attributes'' (JDict []) = JDict old"
  shows "update_stats (JDict r) p =
         Inr (merge_stats (dict_set p ''attributes'' (JDict (dict_update old attrs)))
                (dict_get r ''stats'' JNull))"
  using assms by (simp add: update_stats_def dict_index_has)

lemma merge_stats_attributes [simp]:
  "dict_get (merge_stats p st) ''attributes'' dflt = dict_get p ''attributes'' dflt"
  by (simp add: merge_stats_def split: json.splits)

lemma dict_ok_attr_dict: "length vs = 12 \<Longrightarrow> dict_ok (attr_dict vs)"
  by (simp add: dict_ok_def keys_attr_dict attr_keys_def)

lemma stats_attributes_dict_ok: "stats_attributes st = Inr attrs \<Longrightarrow> dict_ok attrs"
  unfolding stats_attributes_def
  by (auto simp: py_bind_eq_Inr dest!: calculate_attributes_Inr intro: dict_ok_attr_dict)

lemma dict_get_foldl_copy:
  "k \<notin> snd ` set fs \<Longrightarrow> dict_get (foldl (copy_step r) p fs) k d = dict_get p k d"
  by (simp add: dict_get_def copy_fold_frame)

section \<open>Claims\<close>

text \<open>
  C6. Protection: a player recognised as the career player (pid 706 or the name test), or
  one with a maxed attribute, is returned unchanged, whatever the replacement data, as
  long as the maxed-attribute scan itself does not raise.
\<close>

theorem update_player_protected:
  assumes "has_maxed_attrs p = Inr m" and "is_career_player p \<or> m"
  shows "update_player (JDict p) rd = Inr (JDict p)"
  using assms by (simp add: update_player_def)

theorem update_player_protected_witness:
  "update_player (JDict [(''pid'', JInt 706), (''fn'', JStr ''Isaac''), (''ln'', JStr ''Condrey'')])
     (JDict [(''first_name'', JStr ''Kyan''), (''rating'', JInt 85)])
   = Inr (JDict [(''pid'', JInt 706), (''fn'', JStr ''Isaac''), (''ln'', JStr ''Condrey'')])"
proof (rule update_player_protected)
  show "has_maxed_attrs [(''pid'', JInt 706), (''fn'', JStr ''Isaac''), (''ln'', JStr ''Condrey'')]
        = Inr False"
    by (simp add: has_maxed_attrs_def dict_get_def)
  show "is_career_player [(''pid'', JInt 706), (''fn'', JStr ''Isaac''), (''ln'', JStr ''Condrey'')]
        \<or> False"
    by (simp add: is_career_player_def dict_get_def)
qed

text \<open>
  C7. The protection test does not short-circuit: the maxed-attribute scan of lines
  439--447 runs before the decision of line 450, so a player identified by pid 706 whose
  \<open>attributes\<close> is a non-empty value other than a dict makes \<open>update_player\<close>
  raise \<open>AttributeError\<close> instead of returning it unchanged.
\<close>

theorem update_player_career_scan_error:
  assumes "py_truthy (dict_get p ''attributes'' (JDict []))"
    and "\<forall>d. dict_get p ''attributes'' (JDict []) \<noteq> JDict d"
  shows "update_player (JDict p) rd = Inl AttributeError"
proof -
  have "has_maxed_attrs p = Inl AttributeError"
    using assms by (simp add: has_maxed_attrs_def Let_def split: json.splits)
  then show ?thesis by (simp add: update_player_def)
qed

theorem update_player_career_scan_error_witness:
  "is_career_player [(''pid'', JInt 706), (''attributes'', JList [JInt 20, JInt 20])] \<and>
   update_player (JDict [(''pid'', JInt 706), (''attributes'', JList [JInt 20, JInt 20])])
     (JDict []) = Inl AttributeError"
proof
  show "is_career_player [(''pid'', JInt 706), (''attributes'', JList [JInt 20, JInt 20])]"
    by (simp add: is_career_player_def dict_get_def)
  show "update_player (JDict [(''pid'', JInt 706), (''attributes'', JList [JInt 20, JInt 20])])
     (JDict []) = Inl AttributeError"
    by (rule update_player_career_scan_error) (simp_all add: dict_get_def)
qed

text \<open>
  C8. Field copy and frame: for an unprotected player and a replacement dict without
  \<open>stats\<close>, the update succeeds; each target key of lines 454--469 gets the
  replacement's value when its source key is present and keeps its value otherwise; every
  other key of the player keeps its value.
\<close>

theorem update_player_copies_fields:
  assumes "has_maxed_attrs p = Inr False" "\<not> is_career_player p" "\<not> dict_has r ''stats''"
  shows "\<exists>p'. update_player (JDict p) (JDict r) = Inr (JDict p') \<and>
           (\<forall>k. k \<notin> snd ` set field_map \<longrightarrow> map_of p' k = map_of p k) \<and>
           (\<forall>(s, t) \<in> set field_map.
              map_of p' t = (if dict_has r s then Some (dict_get r s JNull) else map_of p t))"
proof -
  let ?p' = "foldl (copy_step r) p field_map"
  have run: "update_player (JDict p) (JDict r) = Inr (JDict ?p')"
    using assms by (simp add: update_player_unprotected copy_fields_dict update_stats_absent)
  have "\<forall>k. k \<notin> snd ` set field_map \<longrightarrow> map_of ?p' k = map_of p k"
    by (simp add: copy_fold_frame)
  moreover have "\<forall>(s, t) \<in> set field_map.
      map_of ?p' t = (if dict_has r s then Some (dict_get r s JNull) else map_of p t)"
    using copy_fold_target [OF distinct_field_targets] by blast
  ultimately show ?thesis using run by blast
qed

theorem update_player_copies_fields_witness:
  "\<exists>p'. update_player (JDict [(''pid'', JInt 12), (''fn'', JStr ''Joe''), (''skills'', JList [])])
           (JDict [(''first_name'', JStr ''Kyan''), (''age'', JInt 21)]) = Inr (JDict p') \<and>
        map_of p' ''skills'' = Some (JList []) \<and> map_of p' ''fn'' = Some (JStr ''Kyan'') \<and>
        map_of p' ''age'' = Some (JInt 21)"
proof -
  have h1: "has_maxed_attrs [(''pid'', JInt 12), (''fn'', JStr ''Joe''), (''skills'', JList [])]
            = Inr False"
    by (simp add: has_maxed_attrs_def dict_get_def)
  have h2: "\<not> is_career_player [(''pid'', JInt 12), (''fn'', JStr ''Joe''), (''skills'', JList [])]"
    by code_simp
  have h3: "\<not> dict_has [(''first_name'', JStr ''Kyan''), (''age'', JInt 21)] ''stats''"
    by (simp add: dict_has_def)
  from update_player_copies_fields [OF h1 h2 h3] obtain p' where
    run: "update_player (JDict [(''pid'', JInt 12), (''fn'', JStr ''Joe''), (''skills'', JList [])])
           (JDict [(''first_name'', JStr ''Kyan''), (''age'', JInt 21)]) = Inr (JDict p')"
    and fr: "\<forall>k. k \<notin> snd ` set field_map \<longrightarrow>
               map_of p' k = map_of [(''pid'', JInt 12), (''fn'', JStr ''Joe''), (''skills'', JList [])] k"
    and cp: "\<forall>(s, t) \<in> set field_map.
               map_of p' t = (if dict_has [(''first_name'', JStr ''Kyan''), (''age'', JInt 21)] s
                 then Some (dict_get [(''first_name'', JStr ''Kyan''), (''age'', JInt 21)] s JNull)
                 else map_of [(''pid'', JInt 12), (''fn'', JStr ''Joe''), (''skills'', JList [])] t)"
    by blast
  have "map_of p' ''skills'' = Some (JList [])" using fr by (simp add: field_map_def)
  moreover have "map_of p' ''fn'' = Some (JStr ''Kyan'')"
    using cp by (simp add: field_map_def dict_has_def dict_get_def)
  moreover have "map_of p' ''age'' = Some (JInt 21)"
    using cp by (simp add: field_map_def dict_has_def dict_get_def)
  ultimately show ?thesis using run by blast
qed

text \<open>
  C9. Attribute merge: for an unprotected player and a replacement with \<open>stats\<close>, the
  new \<open>attributes\<close> dict is \<open>{**old, **computed}\<close>: computed attributes override,
  attributes the mapper does not produce are kept.
\<close>

theorem update_player_merges_attributes:
  assumes "has_maxed_attrs p = Inr False" "\<not> is_career_player p" "dict_has r ''stats''"
    and comp: "stats_attributes (dict_get r ''stats'' JNull) = Inr attrs"
    and old: "dict_get p ''attributes'' (JDict []) = JDict old"
  shows "\<exists>p' new. update_player (JDict p) (JDict r) = Inr (JDict p') \<and>
           dict_get p' ''attributes'' JNull = JDict new \<and> map_of new = map_of old ++ map_of attrs"
proof -
  let ?p1 = "foldl (copy_step r) p field_map"
  have old1: "dict_get ?p1 ''attributes'' (JDict []) = JDict old"
    using old by (simp add: dict_get_foldl_copy attributes_not_target)
  have run: "update_player (JDict p) (JDict r) =
     Inr (JDict (merge_stats (dict_set ?p1 ''attributes'' (JDict (dict_update old attrs)))
                   (dict_get r ''stats'' JNull)))"
    using assms old1 by (simp add: update_player_unprotected copy_fields_dict update_stats_present)
  moreover have "map_of (dict_update old attrs) = map_of old ++ map_of attrs"
    using stats_attributes_dict_ok [OF comp] by (rule map_of_dict_update)
  ultimately show ?thesis by simp
qed

lemma stats_attributes_empty:
  "stats_attributes (JDict []) = Inr (attr_dict [19, 8, 19, 18, 17, 15, 6, 3, 3, 4, 10, 5])"
proof -
  have "attr_values 10 5 3 0.45 0.35 (py_int (0.75 * 20)) (py_int (1 * 10)) (py_int (0.5 * 10))
        = [19, 8, 19, 18, 17, 15, 6, 3, 3, 4, 10, 5]"
    by (simp add: attr_values_def Let_def attr_clamp_def clamp_def py_int_def)
  then show ?thesis
    by (simp add: stats_attributes_def dict_get_def calculate_attributes_numeric
        [where p = 10 and r = 5 and a = 3 and f = "0.45" and u = "0.35" and v = "0.75" and s = 1
           and b = "0.5"])
qed

theorem update_player_merges_attributes_witness:
  "\<exists>p' new. update_player (JDict [(''fn'', JStr ''Joe''), (''attributes'', JDict [(''SPD'', JList [JInt 9, JInt 12])])])
       (JDict [(''stats'', JDict [])]) = Inr (JDict p') \<and>
     dict_get p' ''attributes'' JNull = JDict new \<and>
     map_of new = map_of [(''SPD'', JList [JInt 9, JInt 12])] ++
                  map_of (attr_dict [19, 8, 19, 18, 17, 15, 6, 3, 3, 4, 10, 5])"
proof (rule update_player_merges_attributes)
  show "has_maxed_attrs [(''fn'', JStr ''Joe''), (''attributes'', JDict [(''SPD'', JList [JInt 9, JInt 12])])]
        = Inr False"
    by (simp add: has_maxed_attrs_def dict_get_def)
  show "\<not> is_career_player [(''fn'', JStr ''Joe''), (''attributes'', JDict [(''SPD'', JList [JInt 9, JInt 12])])]"
    by code_simp
  show "dict_has [(''stats'', JDict [])] ''stats''" by (simp add: dict_has_def)
  show "stats_attributes (dict_get [(''stats'', JDict [])] ''stats'' JNull) =
        Inr (attr_dict [19, 8, 19, 18, 17, 15, 6, 3, 3, 4, 10, 5])"
    by (simp add: dict_get_def stats_attributes_empty)
  show "dict_get [(''fn'', JStr ''Joe''), (''attributes'', JDict [(''SPD'', JList [JInt 9, JInt 12])])]
          ''attributes'' (JDict []) = JDict [(''SPD'', JList [JInt 9, JInt 12])]"
    by (simp add: dict_get_def)
qed



end
