(* ===== verification/Document.thy ===== *)
theory Document
  imports Updater
begin

text \<open>
  The save document as the passes of \<open>main\<close> see it
  (src/scripts/update_all_rosters.py, lines 499--765): \<open>data['seasonLeagues']\<close> is a
  list of leagues, a league with \<open>leagueType == 1\<close> is a college league, its
  \<open>teams\<close> a list of team dicts, each with a \<open>roster\<close> list of player dicts. Python
  keeps references to team objects and mutates them in place; the model addresses a team
  by its path (league index, team index) in the lists the loops enumerate, and rewrites
  the document along that path. Writing into a dict keeps the key's position, as an
  in-place mutation does.
\<close>

section \<open>Names\<close>

text \<open>\<open>f"{team.get('city', '')} {team.get('name', '')}".strip()\<close> (lines 533, 574, 674).\<close>

definition team_name :: "dict \<Rightarrow> string" where
  "team_name t = py_strip (py_str (dict_get t ''city'' (JStr [])) @ '' '' @
                           py_str (dict_get t ''name'' (JStr [])))"

text \<open>The home-team test of lines 675 and 706.\<close>

definition is_home_name :: "string \<Rightarrow> bool" where
  "is_home_name n \<longleftrightarrow> py_substr ''North Carolina'' n \<or> py_substr ''Tar Heels'' n"

text \<open>\<open>league.get('leagueType') == 1\<close> (lines 522, 571, 671).\<close>

definition is_college :: "dict \<Rightarrow> bool" where
  "is_college l \<longleftrightarrow> py_eq_int (dict_get l ''leagueType'' JNull) 1"

section \<open>Writing along a path\<close>

text \<open>Replace the element at an index of a list by \<open>f\<close> of it.\<close>

definition map_nth :: "nat \<Rightarrow> ('a \<Rightarrow> 'a py_result) \<Rightarrow> 'a list \<Rightarrow> 'a list py_result" where
  "map_nth i f xs = (if i < length xs then py_bind (f (xs ! i)) (\<lambda>x. Inr (xs[i := x]))
                     else Inl IndexError)"

definition with_key :: "string \<Rightarrow> (json \<Rightarrow> json py_result) \<Rightarrow> json \<Rightarrow> json py_result" where
  "with_key k f v = (case v of
      JDict d \<Rightarrow> py_bind (dict_index d k) (\<lambda>x. py_bind (f x) (\<lambda>y. Inr (JDict (dict_set d k y))))
    | _ \<Rightarrow> Inl TypeError)"

definition with_nth :: "nat \<Rightarrow> (json \<Rightarrow> json py_result) \<Rightarrow> json \<Rightarrow> json py_result" where
  "with_nth i f v = (case v of
      JList xs \<Rightarrow> py_bind (map_nth i f xs) (\<lambda>ys. Inr (JList ys))
    | _ \<Rightarrow> Inl TypeError)"

text \<open>The team object at \<open>data['seasonLeagues'][i]['teams'][j]\<close>.\<close>

definition with_team :: "nat \<Rightarrow> nat \<Rightarrow> (json \<Rightarrow> json py_result) \<Rightarrow> json \<Rightarrow> json py_result" where
  "with_team i j f = with_key ''seasonLeagues'' (with_nth i (with_key ''teams'' (with_nth j f)))"

section \<open>Roster mutations\<close>

text \<open>
  \<open>roster.remove(player)\<close> (line 710): the first element equal to \<open>player\<close>; a
  missing element raises \<open>ValueError\<close>, and only a list has \<open>remove\<close>.
\<close>

definition roster_remove :: "json \<Rightarrow> json \<Rightarrow> json py_result" where
  "roster_remove p r = (case r of
      JList xs \<Rightarrow> if p \<in> set xs then Inr (JList (remove1 p xs)) else Inl ValueError
    | _ \<Rightarrow> Inl AttributeError)"

text \<open>\<open>roster.insert(0, player)\<close> (lines 712, 758).\<close>

definition roster_insert0 :: "json \<Rightarrow> json \<Rightarrow> json py_result" where
  "roster_insert0 p r = (case r of JList xs \<Rightarrow> Inr (JList (p # xs)) | _ \<Rightarrow> Inl AttributeError)"

section \<open>Reading along a path\<close>

definition team_at :: "nat \<Rightarrow> nat \<Rightarrow> json \<Rightarrow> json option" where
  "team_at i j data = (case data of
      JDict d \<Rightarrow> (case map_of d ''seasonLeagues'' of
         Some (JList ls) \<Rightarrow> if i < length ls then (case ls ! i of
             JDict l \<Rightarrow> (case map_of l ''teams'' of
                Some (JList ts) \<Rightarrow> if j < length ts then Some (ts ! j) else None
              | _ \<Rightarrow> None)
           | _ \<Rightarrow> None) else None
       | _ \<Rightarrow> None)
    | _ \<Rightarrow> None)"

definition roster_of :: "json \<Rightarrow> json list" where
  "roster_of t = (case t of JDict d \<Rightarrow> (case map_of d ''roster'' of Some (JList xs) \<Rightarrow> xs | _ \<Rightarrow> [])
                  | _ \<Rightarrow> [])"

section \<open>Lemmas\<close>

lemma map_nth_Inr: "i < length xs \<Longrightarrow> f (xs ! i) = Inr x \<Longrightarrow> map_nth i f xs = Inr (xs[i := x])"
  by (simp add: map_nth_def)

lemma with_key_Inr:
  "map_of d k = Some x \<Longrightarrow> f x = Inr y \<Longrightarrow> with_key k f (JDict d) = Inr (JDict (dict_set d k y))"
  by (simp add: with_key_def dict_index_def)

lemma with_nth_Inr:
  "i < length xs \<Longrightarrow> f (xs ! i) = Inr x \<Longrightarrow> with_nth i f (JList xs) = Inr (JList (xs[i := x]))"
  by (simp add: with_nth_def map_nth_def)

text \<open>A successful write along a path exposes every level it went through.\<close>

lemma with_key_InrD:
  "with_key k f v = Inr v' \<Longrightarrow>
   \<exists>d x y. v = JDict d \<and> map_of d k = Some x \<and> f x = Inr y \<and> v' = JDict (dict_set d k y)"
  by (cases v) (auto simp: with_key_def dict_index_def py_bind_eq_Inr split: option.splits)

lemma with_nth_InrD:
  "with_nth i f v = Inr v' \<Longrightarrow>
   \<exists>xs y. v = JList xs \<and> i < length xs \<and> f (xs ! i) = Inr y \<and> v' = JList (xs[i := y])"
  by (cases v) (auto simp: with_nth_def map_nth_def py_bind_eq_Inr split: if_splits)

lemma with_team_InrE:
  assumes "with_team i j f data = Inr data'"
  obtains d ls l ts t' where
    "data = JDict d" "map_of d ''seasonLeagues'' = Some (JList ls)" "i < length ls"
    "ls ! i = JDict l" "map_of l ''teams'' = Some (JList ts)" "j < length ts"
    "f (ts ! j) = Inr t'"
    "data' = JDict (dict_set d ''seasonLeagues''
                (JList (ls[i := JDict (dict_set l ''teams'' (JList (ts[j := t'])))])))"
proof -
  from assms obtain d x y where 1: "data = JDict d" "map_of d ''seasonLeagues'' = Some x"
      "with_nth i (with_key ''teams'' (with_nth j f)) x = Inr y" "data' = JDict (dict_set d ''seasonLeagues'' y)"
    unfolding with_team_def by (blast dest: with_key_InrD)
  from 1(3) obtain ls z where 2: "x = JList ls" "i < length ls"
      "with_key ''teams'' (with_nth j f) (ls ! i) = Inr z" "y = JList (ls[i := z])"
    by (blast dest: with_nth_InrD)
  from 2(3) obtain l u w where 3: "ls ! i = JDict l" "map_of l ''teams'' = Some u"
      "with_nth j f u = Inr w" "z = JDict (dict_set l ''teams'' w)"
    by (blast dest: with_key_InrD)
  from 3(3) obtain ts t' where 4: "u = JList ts" "j < length ts" "f (ts ! j) = Inr t'"
      "w = JList (ts[j := t'])"
    by (blast dest: with_nth_InrD)
  show ?thesis by (rule that) (use 1 2 3 4 in simp_all)
qed

lemma team_at_write:
  assumes "map_of d ''seasonLeagues'' = Some (JList ls)" "i < length ls" "ls ! i = JDict l"
    "map_of l ''teams'' = Some (JList ts)" "j < length ts"
  shows "team_at i' j' (JDict (dict_set d ''seasonLeagues''
            (JList (ls[i := JDict (dict_set l ''teams'' (JList (ts[j := t'])))])))) =
         (if (i', j') = (i, j) then Some t' else team_at i' j' (JDict d))"
  using assms by (auto simp: team_at_def nth_list_update split: json.splits option.splits)

lemma team_at_path:
  "map_of d ''seasonLeagues'' = Some (JList ls) \<Longrightarrow> i < length ls \<Longrightarrow> ls ! i = JDict l \<Longrightarrow>
   map_of l ''teams'' = Some (JList ts) \<Longrightarrow> j < length ts \<Longrightarrow> team_at i j (JDict d) = Some (ts ! j)"
  by (simp add: team_at_def)

text \<open>Lookup after update on the path store: the written team, and every other team unchanged.\<close>

lemma with_team_team_at:
  assumes "with_team i j f data = Inr data'"
  shows "\<exists>t t'. team_at i j data = Some t \<and> f t = Inr t' \<and> team_at i j data' = Some t' \<and>
           (\<forall>i' j'. (i', j') \<noteq> (i, j) \<longrightarrow> team_at i' j' data' = team_at i' j' data)"
proof -
  from assms obtain d ls l ts t' where
    p: "data = JDict d" "map_of d ''seasonLeagues'' = Some (JList ls)" "i < length ls"
    "ls ! i = JDict l" "map_of l ''teams'' = Some (JList ts)" "j < length ts"
    and ft: "f (ts ! j) = Inr t'"
    and d': "data' = JDict (dict_set d ''seasonLeagues''
                (JList (ls[i := JDict (dict_set l ''teams'' (JList (ts[j := t'])))])))"
    by (rule with_team_InrE)
  have "team_at i j data = Some (ts ! j)" using p by (simp add: team_at_path)
  moreover have "\<forall>i' j'. team_at i' j' data' = (if (i', j') = (i, j) then Some t' else team_at i' j' data)"
    using p d' by (simp add: team_at_write)
  ultimately show ?thesis using ft by auto
qed

lemma team_at_SomeE:
  assumes "team_at i j data = Some t"
  obtains d ls l ts where
    "data = JDict d" "map_of d ''seasonLeagues'' = Some (JList ls)" "i < length ls"
    "ls ! i = JDict l" "map_of l ''teams'' = Some (JList ts)" "j < length ts" "ts ! j = t"
  using assms by (auto simp: team_at_def split: json.splits option.splits if_splits)

text \<open>A write whose function succeeds on the team at an existing path succeeds.\<close>

lemma with_team_success:
  assumes "team_at i j data = Some t" and "f t = Inr t'"
  shows "\<exists>data'. with_team i j f data = Inr data' \<and> team_at i j data' = Some t' \<and>
           (\<forall>i' j'. (i', j') \<noteq> (i, j) \<longrightarrow> team_at i' j' data' = team_at i' j' data)"
proof -
  from assms(1) obtain d ls l ts where
    p: "data = JDict d" "map_of d ''seasonLeagues'' = Some (JList ls)" "i < length ls"
    "ls ! i = JDict l" "map_of l ''teams'' = Some (JList ts)" "j < length ts" "ts ! j = t"
    by (rule team_at_SomeE)
  let ?d' = "JDict (dict_set d ''seasonLeagues''
                (JList (ls[i := JDict (dict_set l ''teams'' (JList (ts[j := t'])))])))"
  have "with_team i j f data = Inr ?d'"
    using p assms(2) by (simp add: with_team_def with_key_Inr with_nth_Inr)
  moreover have "\<forall>i' j'. team_at i' j' ?d' = (if (i', j') = (i, j) then Some t' else team_at i' j' data)"
    using p by (simp add: team_at_write)
  ultimately show ?thesis by auto
qed

lemma roster_of_set [simp]: "roster_of (JDict (dict_set d ''roster'' (JList xs))) = xs"
  by (simp add: roster_of_def)

lemma with_key_roster:
  "map_of d ''roster'' = Some r \<Longrightarrow> g r = Inr r' \<Longrightarrow>
   with_key ''roster'' g (JDict d) = Inr (JDict (dict_set d ''roster'' r'))"
  by (rule with_key_Inr)

end
