(* ===== verification/Relocate.thy ===== *)
theory Relocate
  imports Document
begin

text \<open>
  The two passes of \<open>main\<close> that look for the career player
  (src/scripts/update_all_rosters.py): the scan before the roster update (lines 514--565),
  whose result only decides a warning, and the relocation pass after it (lines 666--765),
  which moves the first career player it finds to the North Carolina roster, or creates
  one there when none is found.
\<close>

section \<open>The scan before the update (lines 514--565)\<close>

text \<open>
  Lines 541--548: only the \<^emph>\<open>first\<close> attribute value is inspected
  (\<open>list(attrs.values())[0]\<close>); a truthy non-dict has no \<open>values()\<close>.
\<close>

definition first_attr_maxed :: "dict \<Rightarrow> bool py_result" where
  "first_attr_maxed p =
     (let attrs = dict_get p ''attributes'' (JDict []) in
      if \<not> py_truthy attrs then Inr False
      else case attrs of
        JDict ((k, v) # _) \<Rightarrow> Inr (is_maxed_pair v)
      | _ \<Rightarrow> Inl AttributeError)"

text \<open>Lines 526--557: the pid test, then the name test guarded by the first attribute.\<close>

fun scan_players :: "json list \<Rightarrow> bool py_result" where
  "scan_players [] = Inr False"
| "scan_players (p # ps) =
     py_bind (py_get p ''pid'' JNull) (\<lambda>pid.
       if py_eq_int pid 706 then Inr True
       else case p of
         JDict d \<Rightarrow>
           let fn = name_key d ''fn''; ln = name_key d ''ln'' in
           if (py_substr ''isaac'' fn \<and> py_substr ''condrey'' ln) \<or> (fn = ''isaac'' \<and> ln = ''condrey'')
           then py_bind (first_attr_maxed d) (\<lambda>m.
                  if m \<or> py_eq_int pid 706 then Inr True else scan_players ps)
           else scan_players ps
       | _ \<Rightarrow> Inl AttributeError)"

text \<open>Lines 524--559: \<open>if 'roster' in team and team['roster']\<close>.\<close>

fun scan_teams :: "json list \<Rightarrow> bool py_result" where
  "scan_teams [] = Inr False"
| "scan_teams (t # ts) =
     py_bind (py_contains t ''roster'') (\<lambda>has.
       if \<not> has then scan_teams ts
       else py_bind (py_index t ''roster'') (\<lambda>r.
         if \<not> py_truthy r then scan_teams ts
         else py_bind (py_iter r) (\<lambda>ps.
              py_bind (scan_players ps) (\<lambda>f. if f then Inr True else scan_teams ts))))"

fun scan_leagues :: "json list \<Rightarrow> bool py_result" where
  "scan_leagues [] = Inr False"
| "scan_leagues (l # ls) =
     py_bind (py_get l ''leagueType'' JNull) (\<lambda>lt.
       if \<not> py_eq_int lt 1 then scan_leagues ls
       else py_bind (py_contains l ''teams'') (\<lambda>has.
         if \<not> has then scan_leagues ls
         else py_bind (py_index l ''teams'') (\<lambda>ts.
              py_bind (py_iter ts) (\<lambda>teams.
              py_bind (scan_teams teams) (\<lambda>f. if f then Inr True else scan_leagues ls)))))"

definition find_career_player :: "json \<Rightarrow> bool py_result" where
  "find_career_player data =
     py_bind (py_index data ''seasonLeagues'') (\<lambda>ls. py_bind (py_iter ls) scan_leagues)"

section \<open>The relocation scan (lines 666--719)\<close>

text \<open>
  The scan's state: the first career player found, with the path and name of its team,
  and the North Carolina team most recently passed (\<open>north_carolina_team\<close>): the
  variable is set while iterating, so at the moment of the find it is the last home team
  \<^emph>\<open>before or at\<close> the player's team.
\<close>

datatype reloc_scan =
    Found "nat \<times> nat \<times> string \<times> json" "(nat \<times> nat) option"
  | Not_Found "(nat \<times> nat) option"

text \<open>
  Lines 679--714 for one roster: the pid/name test (no maxed-attribute test, despite the
  comment on line 680); at the find, the maxed-attribute scan of lines 692--699 runs for
  the report and may raise.
\<close>

fun reloc_players :: "json list \<Rightarrow> json option py_result" where
  "reloc_players [] = Inr None"
| "reloc_players (p # ps) = (case p of
      JDict d \<Rightarrow> if is_career_player d then py_bind (has_maxed_attrs d) (\<lambda>_. Inr (Some p))
                 else reloc_players ps
    | _ \<Rightarrow> Inl AttributeError)"

fun reloc_teams ::
  "nat \<Rightarrow> nat \<Rightarrow> (nat \<times> nat) option \<Rightarrow> json list \<Rightarrow> reloc_scan py_result" where
  "reloc_teams i j home [] = Inr (Not_Found home)"
| "reloc_teams i j home (t # ts) = (case t of
      JDict d \<Rightarrow>
        let name = team_name d;
            home' = (if is_home_name name then Some (i, j) else home) in
        if dict_has d ''roster'' then
          py_bind (py_iter (dict_get d ''roster'' JNull)) (\<lambda>ps.
          py_bind (reloc_players ps) (\<lambda>r. case r of
              Some p \<Rightarrow> Inr (Found (i, j, name, p) home')
            | None \<Rightarrow> reloc_teams i (Suc j) home' ts))
        else reloc_teams i (Suc j) home' ts
    | _ \<Rightarrow> Inl AttributeError)"

fun reloc_leagues :: "nat \<Rightarrow> (nat \<times> nat) option \<Rightarrow> json list \<Rightarrow> reloc_scan py_result" where
  "reloc_leagues i home [] = Inr (Not_Found home)"
| "reloc_leagues i home (l # ls) = (case l of
      JDict d \<Rightarrow>
        if is_college d \<and> dict_has d ''teams'' then
          py_bind (py_iter (dict_get d ''teams'' JNull)) (\<lambda>ts.
          py_bind (reloc_teams i 0 home ts) (\<lambda>sc. case sc of
              Found f h \<Rightarrow> Inr sc
            | Not_Found h \<Rightarrow> reloc_leagues (Suc i) h ls))
        else reloc_leagues (Suc i) home ls
    | _ \<Rightarrow> Inl AttributeError)"

section \<open>Creating the career player (lines 720--763)\<close>

text \<open>Lines 738--741: the twelve attributes at \<open>[20, 20]\<close>.\<close>

definition maxed_attributes :: dict where
  "maxed_attributes = map (\<lambda>k. (k, attr_pair 20)) attr_keys"

text \<open>Lines 729--744: the fields written over the sample's copy, in order.\<close>

definition career_fields :: dict where
  "career_fields = [(''pid'', JInt 706), (''fn'', JStr ''Isaac''), (''ln'', JStr ''Condrey''),
                    (''pos'', JInt 0), (''num'', JInt 1), (''age'', JInt 20), (''rating'', JInt 99),
                    (''attributes'', JDict maxed_attributes), (''skills'', JList [])]"

text \<open>\<open>{'season': {'ppg': 25.0, 'rpg': 5.0, 'apg': 8.0}}\<close> (lines 750--754).\<close>

definition season_line :: json where
  "season_line = JDict [(''season'', JDict [(''ppg'', JFloat 25.0), (''rpg'', JFloat 5.0),
                                            (''apg'', JFloat 8.0)])]"

text \<open>\<open>x.copy()\<close>: dicts and lists have it.\<close>

fun py_copy :: "json \<Rightarrow> json py_result" where
  "py_copy (JDict d) = Inr (JDict d)"
| "py_copy (JList xs) = Inr (JList xs)"
| "py_copy _ = Inl AttributeError"

text \<open>\<open>x[0]\<close>: a dict has no int key 0 (JSON keys are strings).\<close>

fun py_index0 :: "json \<Rightarrow> json py_result" where
  "py_index0 (JList (y # _)) = Inr y"
| "py_index0 (JList []) = Inl IndexError"
| "py_index0 (JStr (c # _)) = Inr (JStr [c])"
| "py_index0 (JStr []) = Inl IndexError"
| "py_index0 (JDict _) = Inl KeyError"
| "py_index0 _ = Inl TypeError"

text \<open>Lines 723--725: the copy of the home roster's first entry, if the roster is truthy.\<close>

definition career_sample :: "dict \<Rightarrow> json option py_result" where
  "career_sample nc =
     (if dict_has nc ''roster'' \<and> py_truthy (dict_get nc ''roster'' JNull)
      then py_bind (py_index0 (dict_get nc ''roster'' JNull)) (\<lambda>x.
           py_bind (py_copy x) (\<lambda>y. Inr (Some y)))
      else Inr None)"

text \<open>
  Lines 728--754: copy the sample (or start from \<open>{}\<close>), write the career fields, and
  give it a stats entry shaped like the sample's when it has none or a falsy one.
\<close>

definition make_career_player :: "json option \<Rightarrow> json py_result" where
  "make_career_player sample =
     py_bind (case sample of Some s \<Rightarrow> if py_truthy s then py_copy s else Inr (JDict [])
                           | None \<Rightarrow> Inr (JDict [])) (\<lambda>b. case b of
       JDict cp0 \<Rightarrow>
         let cp = dict_update cp0 career_fields in
         if \<not> dict_has cp ''stats'' \<or> \<not> py_truthy (dict_get cp ''stats'' JNull) then
           Inr (JDict (dict_set cp ''stats''
             (case sample of
                Some (JDict sd) \<Rightarrow>
                  if sd \<noteq> [] \<and> dict_has sd ''stats'' then
                    (case dict_get sd ''stats'' JNull of JList _ \<Rightarrow> JList [season_line]
                                                      | _ \<Rightarrow> season_line)
                  else JList [season_line]
              | _ \<Rightarrow> JList [season_line])))
         else Inr (JDict cp)
     | _ \<Rightarrow> Inl AttributeError)"

section \<open>The relocation pass\<close>

text \<open>
  Lines 705--714: a player found off the home team moves to the front of the home roster,
  if a home team has been passed and has a roster; lines 720--762: with no player found,
  a home team with a \<open>roster\<close> key gets a new one at the front.
\<close>

definition relocate_action :: "reloc_scan \<Rightarrow> json \<Rightarrow> json py_result" where
  "relocate_action sc data = (case sc of
      Found (i, j, name, p) home \<Rightarrow>
        if is_home_name name then Inr data
        else (case home of
          None \<Rightarrow> Inr data
        | Some (hi, hj) \<Rightarrow> (case team_at hi hj data of
            Some (JDict nc) \<Rightarrow>
              if nc \<noteq> [] \<and> dict_has nc ''roster'' then
                py_bind (with_team i j (with_key ''roster'' (roster_remove p)) data) (\<lambda>d1.
                  with_team hi hj (with_key ''roster'' (roster_insert0 p)) d1)
              else Inr data
          | _ \<Rightarrow> Inr data))
    | Not_Found home \<Rightarrow> (case home of
        None \<Rightarrow> Inr data
      | Some (hi, hj) \<Rightarrow> (case team_at hi hj data of
          Some (JDict nc) \<Rightarrow>
            if nc = [] then Inr data
            else py_bind (career_sample nc) (\<lambda>sample.
                 py_bind (make_career_player sample) (\<lambda>cp.
                   if dict_has nc ''roster''
                   then with_team hi hj (with_key ''roster'' (roster_insert0 cp)) data
                   else Inr data))
        | _ \<Rightarrow> Inr data)))"

definition relocate_career_player :: "json \<Rightarrow> json py_result" where
  "relocate_career_player data =
     py_bind (py_index data ''seasonLeagues'') (\<lambda>ls.
     py_bind (py_iter ls) (\<lambda>leagues.
     py_bind (reloc_leagues 0 None leagues) (\<lambda>sc. relocate_action sc data)))"

section \<open>Example documents\<close>

text \<open>Small documents for the concrete claims: one college league with the given teams.\<close>

abbreviation ex_doc :: "json list \<Rightarrow> json" where
  "ex_doc teams \<equiv> JDict [(''seasonLeagues'', JList [JDict [(''leagueType'', JInt 1), (''teams'', JList teams)]])]"

abbreviation ex_team :: "string \<Rightarrow> string \<Rightarrow> json list \<Rightarrow> json" where
  "ex_team c n r \<equiv> JDict [(''city'', JStr c), (''name'', JStr n), (''roster'', JList r)]"

abbreviation ex_isaac :: json where
  "ex_isaac \<equiv> JDict [(''pid'', JInt 706), (''fn'', JStr ''Isaac''), (''ln'', JStr ''Condrey'')]"

abbreviation ex_kyan :: json where
  "ex_kyan \<equiv> JDict [(''pid'', JInt 11), (''fn'', JStr ''Kyan''), (''ln'', JStr ''Evans'')]"

section \<open>Lemmas\<close>

lemma relocate_unfold:
  "py_index data ''seasonLeagues'' = Inr lsj \<Longrightarrow> py_iter lsj = Inr ls \<Longrightarrow>
   reloc_leagues 0 None ls = Inr sc \<Longrightarrow> relocate_career_player data = relocate_action sc data"
  by (simp add: relocate_career_player_def)

lemma map_of_dict_has: "map_of d k = Some v \<Longrightarrow> dict_has d k"
  by (force simp: dict_has_def dest: map_of_SomeD)

lemma dict_get_Some: "map_of d k = Some v \<Longrightarrow> dict_get d k x = v"
  by (simp add: dict_get_def)

lemma dict_ok_career_fields: "dict_ok career_fields"
  by (simp add: dict_ok_def career_fields_def)

lemma career_sample_dict:
  assumes "map_of nc ''roster'' = Some (JList hr)" and "\<forall>x \<in> set (take 1 hr). \<exists>d. x = JDict d"
  shows "career_sample nc = Inr None \<or> (\<exists>d. career_sample nc = Inr (Some (JDict d)))"
proof (cases hr)
  case Nil
  with assms show ?thesis by (simp add: career_sample_def dict_get_Some)
next
  case (Cons x xs)
  with assms(2) obtain d where "x = JDict d" by auto
  with Cons assms(1) show ?thesis
    by (simp add: career_sample_def dict_get_Some map_of_dict_has)
qed

lemma make_career_player_base:
  assumes "sample = None \<or> (\<exists>d. sample = Some (JDict d))"
  shows "\<exists>cp0. (case sample of Some s \<Rightarrow> if py_truthy s then py_copy s else Inr (JDict [])
                              | None \<Rightarrow> Inr (JDict [])) = Inr (JDict cp0)"
  using assms by (cases sample) auto

text \<open>The created record carries every career field, whatever the sample held.\<close>

lemma make_career_player_fields:
  assumes "sample = None \<or> (\<exists>d. sample = Some (JDict d))"
  shows "\<exists>cp. make_career_player sample = Inr (JDict cp) \<and>
           (\<forall>k \<in> fst ` set career_fields. map_of cp k = map_of career_fields k)"
proof -
  obtain cp0 where base: "(case sample of Some s \<Rightarrow> if py_truthy s then py_copy s else Inr (JDict [])
                                  | None \<Rightarrow> Inr (JDict [])) = Inr (JDict cp0)"
    using make_career_player_base [OF assms] by blast
  let ?cp = "dict_update cp0 career_fields"
  have lk: "\<forall>k \<in> fst ` set career_fields. map_of ?cp k = map_of career_fields k"
    using dict_ok_career_fields by (auto simp: map_of_dict_update_at dict_has_def)
  have ns: "''stats'' \<notin> fst ` set career_fields" by (simp add: career_fields_def)
  have "\<exists>v. make_career_player sample = Inr (JDict (dict_set ?cp ''stats'' v)) \<or>
            make_career_player sample = Inr (JDict ?cp)"
    using base by (auto simp: make_career_player_def Let_def)
  then obtain v where "make_career_player sample = Inr (JDict (dict_set ?cp ''stats'' v)) \<or>
            make_career_player sample = Inr (JDict ?cp)" by blast
  then show ?thesis
  proof
    assume r: "make_career_player sample = Inr (JDict (dict_set ?cp ''stats'' v))"
    have "\<forall>k \<in> fst ` set career_fields. map_of (dict_set ?cp ''stats'' v) k = map_of career_fields k"
    proof
      fix k assume k: "k \<in> fst ` set career_fields"
      with lk have "map_of ?cp k = map_of career_fields k" by blast
      moreover from k ns have "k \<noteq> ''stats''" by blast
      ultimately show "map_of (dict_set ?cp ''stats'' v) k = map_of career_fields k" by simp
    qed
    with r show ?thesis by simp
  next
    assume "make_career_player sample = Inr (JDict ?cp)"
    with lk show ?thesis by blast
  qed
qed

lemma career_fields_protected:
  assumes "\<forall>k \<in> fst ` set career_fields. map_of cp k = map_of career_fields k"
  shows "is_career_player cp \<and> has_maxed_attrs cp = Inr True \<and> map_of cp ''rating'' = Some (JInt 99)"
proof -
  have pid: "map_of cp ''pid'' = Some (JInt 706)" and at: "map_of cp ''attributes'' = Some (JDict maxed_attributes)"
    and rt: "map_of cp ''rating'' = Some (JInt 99)"
    using assms by (simp_all add: career_fields_def)
  have "is_career_player cp" using pid by (simp add: is_career_player_def dict_get_Some)
  moreover have "has_maxed_attrs cp = Inr True"
    using at by (simp add: has_maxed_attrs_def dict_get_Some maxed_attributes_def attr_keys_def attr_pair_def)
  ultimately show ?thesis using rt by simp
qed

text \<open>
  The scan on documents of a known shape: rosters without career records, teams that are
  neither home nor hold one, and the two actions of the pass once the scan has answered.
\<close>

lemma reloc_players_none:
  "\<forall>x \<in> set ps. \<exists>e. x = JDict e \<and> \<not> is_career_player e \<Longrightarrow> reloc_players ps = Inr None"
  by (induction ps) auto

lemma reloc_players_first:
  "\<forall>x \<in> set pre. \<exists>e. x = JDict e \<and> \<not> is_career_player e \<Longrightarrow> is_career_player q \<Longrightarrow>
   has_maxed_attrs q = Inr m \<Longrightarrow> reloc_players (pre @ JDict q # post) = Inr (Some (JDict q))"
  by (induction pre) auto

lemma reloc_teams_append:
  "\<forall>x \<in> set pre. \<exists>e. x = JDict e \<and> \<not> is_home_name (team_name e) \<and>
     (dict_has e ''roster'' \<longrightarrow> (\<exists>ps. py_iter (dict_get e ''roster'' JNull) = Inr ps \<and> reloc_players ps = Inr None)) \<Longrightarrow>
   reloc_teams i j home (pre @ post) = reloc_teams i (j + length pre) home post"
  by (induction pre arbitrary: j) (auto simp: Let_def)

lemma relocate_move:
  assumes scan: "py_index data ''seasonLeagues'' = Inr lsj" "py_iter lsj = Inr ls"
      "reloc_leagues 0 None ls = Inr (Found (i, j, name, p) (Some (hi, hj)))"
    and off: "\<not> is_home_name name" and ne: "(hi, hj) \<noteq> (i, j)"
    and home: "team_at hi hj data = Some (JDict nc)" "nc \<noteq> []" "map_of nc ''roster'' = Some (JList hr)"
    and src: "team_at i j data = Some (JDict ft)" "map_of ft ''roster'' = Some (JList fr)" "p \<in> set fr"
  shows "\<exists>data'. relocate_career_player data = Inr data' \<and>
           team_at hi hj data' = Some (JDict (dict_set nc ''roster'' (JList (p # hr)))) \<and>
           team_at i j data' = Some (JDict (dict_set ft ''roster'' (JList (remove1 p fr)))) \<and>
           (\<forall>i' j'. (i', j') \<noteq> (i, j) \<longrightarrow> (i', j') \<noteq> (hi, hj) \<longrightarrow> team_at i' j' data' = team_at i' j' data)"
proof -
  have rm: "with_key ''roster'' (roster_remove p) (JDict ft) =
            Inr (JDict (dict_set ft ''roster'' (JList (remove1 p fr))))"
    using src by (simp add: with_key_roster roster_remove_def)
  obtain d1 where d1: "with_team i j (with_key ''roster'' (roster_remove p)) data = Inr d1"
      "team_at i j d1 = Some (JDict (dict_set ft ''roster'' (JList (remove1 p fr))))"
      "\<forall>i' j'. (i', j') \<noteq> (i, j) \<longrightarrow> team_at i' j' d1 = team_at i' j' data"
    using with_team_success [where f = "with_key ''roster'' (roster_remove p)", OF src(1) rm] by blast
  have h1: "team_at hi hj d1 = Some (JDict nc)" using d1(3) ne home(1) by simp
  have ins: "with_key ''roster'' (roster_insert0 p) (JDict nc) =
             Inr (JDict (dict_set nc ''roster'' (JList (p # hr))))"
    using home by (simp add: with_key_roster roster_insert0_def)
  obtain d2 where d2: "with_team hi hj (with_key ''roster'' (roster_insert0 p)) d1 = Inr d2"
      "team_at hi hj d2 = Some (JDict (dict_set nc ''roster'' (JList (p # hr))))"
      "\<forall>i' j'. (i', j') \<noteq> (hi, hj) \<longrightarrow> team_at i' j' d2 = team_at i' j' d1"
    using with_team_success [where f = "with_key ''roster'' (roster_insert0 p)", OF h1 ins] by blast
  have "relocate_career_player data = Inr d2"
    using scan off home d1(1) d2(1) by (simp add: relocate_unfold relocate_action_def map_of_dict_has)
  moreover have "team_at i j d2 = team_at i j d1" using d2(3) ne by auto
  ultimately show ?thesis using d1(2,3) d2(2,3) by auto
qed

lemma relocate_create:
  assumes scan: "py_index data ''seasonLeagues'' = Inr lsj" "py_iter lsj = Inr ls"
      "reloc_leagues 0 None ls = Inr (Not_Found (Some (hi, hj)))"
    and home: "team_at hi hj data = Some (JDict nc)" "nc \<noteq> []" "map_of nc ''roster'' = Some (JList hr)"
    and first: "\<forall>x \<in> set (take 1 hr). \<exists>d. x = JDict d"
  shows "\<exists>data' cp. relocate_career_player data = Inr data' \<and>
           team_at hi hj data' = Some (JDict (dict_set nc ''roster'' (JList (JDict cp # hr)))) \<and>
           is_career_player cp \<and> has_maxed_attrs cp = Inr True \<and> map_of cp ''rating'' = Some (JInt 99)"
proof -
  from career_sample_dict [OF home(3) first] obtain sample where
    smp: "career_sample nc = Inr sample" "sample = None \<or> (\<exists>d. sample = Some (JDict d))"
    by blast
  from make_career_player_fields [OF smp(2)] obtain cp where
    mk: "make_career_player sample = Inr (JDict cp)"
    and fields: "\<forall>k \<in> fst ` set career_fields. map_of cp k = map_of career_fields k"
    by blast
  have ins: "with_key ''roster'' (roster_insert0 (JDict cp)) (JDict nc) =
             Inr (JDict (dict_set nc ''roster'' (JList (JDict cp # hr))))"
    using home by (simp add: with_key_roster roster_insert0_def)
  obtain d' where d': "with_team hi hj (with_key ''roster'' (roster_insert0 (JDict cp))) data = Inr d'"
      "team_at hi hj d' = Some (JDict (dict_set nc ''roster'' (JList (JDict cp # hr))))"
    using with_team_success [where f = "with_key ''roster'' (roster_insert0 (JDict cp))", OF home(1) ins] by blast
  have "relocate_career_player data = Inr d'"
    using scan home smp(1) mk d'(1) by (simp add: relocate_unfold relocate_action_def map_of_dict_has)
  with d'(2) career_fields_protected [OF fields] show ?thesis by auto
qed

lemma first_league_scan:
  "map_of dd ''seasonLeagues'' = Some (JList (JDict l # ls)) \<Longrightarrow>
   py_index (JDict dd) ''seasonLeagues'' = Inr (JList (JDict l # ls)) \<and>
   py_iter (JList (JDict l # ls)) = Inr (JDict l # ls)"
  by (simp add: dict_index_def)

lemma remove1_first:
  "\<forall>x \<in> set pre. \<exists>e. x = JDict e \<and> \<not> is_career_player e \<Longrightarrow> is_career_player q \<Longrightarrow>
   remove1 (JDict q) (pre @ JDict q # rest) = pre @ rest"
  by (induction pre) auto

section \<open>Claims\<close>

text \<open>
  C12. Move: when the scan finds the career player on a team that is not a home team and
  has already passed a home team with a list roster, the pass removes the player from its
  roster and puts it at the front of the home roster, leaving the rest of both in order.
\<close>

theorem relocate_moves_player:
  assumes scan: "py_index data ''seasonLeagues'' = Inr lsj" "py_iter lsj = Inr ls"
      "reloc_leagues 0 None ls = Inr (Found (i, j, name, p) (Some (hi, hj)))"
    and off: "\<not> is_home_name name" and ne: "(hi, hj) \<noteq> (i, j)"
    and home: "team_at hi hj data = Some (JDict nc)" "nc \<noteq> []" "map_of nc ''roster'' = Some (JList hr)"
    and src: "team_at i j data = Some (JDict ft)" "map_of ft ''roster'' = Some (JList fr)" "p \<in> set fr"
  shows "\<exists>data'. relocate_career_player data = Inr data' \<and>
           map_option roster_of (team_at hi hj data') = Some (p # hr) \<and> map_option roster_of (team_at i j data') = Some (remove1 p fr)"
  using relocate_move [OF assms] by auto

theorem relocate_moves_player_witness:
  "\<exists>data'. relocate_career_player
      (ex_doc [ex_team ''North Carolina'' ''Tar Heels'' [ex_kyan], ex_team ''Duke'' ''Blue Devils'' [ex_isaac]])
      = Inr data' \<and>
    map_option roster_of (team_at 0 0 data') = Some [ex_isaac, ex_kyan] \<and> map_option roster_of (team_at 0 1 data') = Some []"
proof -
  let ?d = "ex_doc [ex_team ''North Carolina'' ''Tar Heels'' [ex_kyan], ex_team ''Duke'' ''Blue Devils'' [ex_isaac]]"
  have s: "reloc_leagues 0 None [JDict [(''leagueType'', JInt 1), (''teams'', JList
             [ex_team ''North Carolina'' ''Tar Heels'' [ex_kyan], ex_team ''Duke'' ''Blue Devils'' [ex_isaac]])]]
           = Inr (Found (0, 1, ''Duke Blue Devils'', ex_isaac) (Some (0, 0)))"
    by code_simp
  have o: "\<not> is_home_name ''Duke Blue Devils''" by code_simp
  have "\<exists>data'. relocate_career_player ?d = Inr data' \<and>
          map_option roster_of (team_at 0 0 data') = Some (ex_isaac # [ex_kyan]) \<and>
          map_option roster_of (team_at 0 1 data') = Some (remove1 ex_isaac [ex_isaac])"
    by (rule relocate_moves_player [OF _ _ s o]) (simp add: dict_index_def team_at_def)+
  then show ?thesis by simp
qed

text \<open>
  C13. Creation: when no career player is found and a non-empty home team with a list
  roster whose first entry (if any) is a dict has been passed, the pass puts a new record
  at the front of that roster; the record passes both protection tests of
  \<open>update_player\<close> (pid 706, and maxed attributes) and has rating 99.
\<close>

theorem relocate_creates_player:
  assumes scan: "py_index data ''seasonLeagues'' = Inr lsj" "py_iter lsj = Inr ls"
      "reloc_leagues 0 None ls = Inr (Not_Found (Some (hi, hj)))"
    and home: "team_at hi hj data = Some (JDict nc)" "nc \<noteq> []" "map_of nc ''roster'' = Some (JList hr)"
    and first: "\<forall>x \<in> set (take 1 hr). \<exists>d. x = JDict d"
  shows "\<exists>data' cp. relocate_career_player data = Inr data' \<and>
           map_option roster_of (team_at hi hj data') = Some (JDict cp # hr) \<and>
           is_career_player cp \<and> has_maxed_attrs cp = Inr True \<and> map_of cp ''rating'' = Some (JInt 99)"
  using relocate_create [OF assms] by auto

theorem relocate_creates_player_witness:
  "\<exists>data' cp. relocate_career_player (ex_doc [ex_team ''North Carolina'' ''Tar Heels'' [ex_kyan]])
      = Inr data' \<and> map_option roster_of (team_at 0 0 data') = Some (JDict cp # [ex_kyan]) \<and>
      is_career_player cp \<and> has_maxed_attrs cp = Inr True \<and> map_of cp ''rating'' = Some (JInt 99)"
proof -
  have s: "reloc_leagues 0 None [JDict [(''leagueType'', JInt 1), (''teams'', JList
             [ex_team ''North Carolina'' ''Tar Heels'' [ex_kyan]])]] = Inr (Not_Found (Some (0, 0)))"
    by code_simp
  show ?thesis
    by (rule relocate_creates_player [OF _ _ s]) (simp add: dict_index_def team_at_def)+
qed

text \<open>
  C14. Team order: the home team is whichever North Carolina team the loop has passed when
  the player is found. In the first college league, if the career player is on a team
  that is not a home team and every team before it is neither a home team nor holds a
  career record, the pass returns the document unchanged, although the spec requires the
  player to end on the home team listed later.
\<close>

theorem relocate_misses_later_home:
  assumes d: "map_of dd ''seasonLeagues'' = Some (JList (JDict l # ls))"
    and col: "is_college l" "map_of l ''teams'' = Some (JList (pre @ JDict t # post))"
    and pre: "\<forall>x \<in> set pre. \<exists>e. x = JDict e \<and> \<not> is_home_name (team_name e) \<and>
      (dict_has e ''roster'' \<longrightarrow> (\<exists>ps. py_iter (dict_get e ''roster'' JNull) = Inr ps \<and> reloc_players ps = Inr None))"
    and t: "\<not> is_home_name (team_name t)" "map_of t ''roster'' = Some (JList ps)" "reloc_players ps = Inr (Some p)"
  shows "relocate_career_player (JDict dd) = Inr (JDict dd)"
proof -
  have "reloc_teams 0 0 None (pre @ JDict t # post) = reloc_teams 0 (length pre) None (JDict t # post)"
    using reloc_teams_append [OF pre] by simp
  also have "\<dots> = Inr (Found (0, length pre, team_name t, p) None)"
    using t by (simp add: Let_def map_of_dict_has dict_get_Some)
  finally have "reloc_leagues 0 None (JDict l # ls) = Inr (Found (0, length pre, team_name t, p) None)"
    using col by (simp add: map_of_dict_has dict_get_Some)
  then show ?thesis
    using first_league_scan [OF d] t(1) by (simp add: relocate_unfold relocate_action_def)
qed

theorem relocate_misses_later_home_witness:
  "relocate_career_player
     (ex_doc [ex_team ''Duke'' ''Blue Devils'' [ex_isaac], ex_team ''North Carolina'' ''Tar Heels'' [ex_kyan]])
   = Inr (ex_doc [ex_team ''Duke'' ''Blue Devils'' [ex_isaac], ex_team ''North Carolina'' ''Tar Heels'' [ex_kyan]])"
proof -
  have o: "\<not> is_home_name (team_name [(''city'', JStr ''Duke''), (''name'', JStr ''Blue Devils''),
             (''roster'', JList [ex_isaac])])" by code_simp
  have r: "reloc_players [ex_isaac] = Inr (Some ex_isaac)" by code_simp
  show ?thesis
    by (rule relocate_misses_later_home [where pre = "[]", OF _ _ _ _ o _ r])
       (simp_all add: is_college_def dict_get_def, code_simp+)
qed

text \<open>
  C15. Duplicates survive: the pass stops at the first match. With the home team first in
  the first college league (its roster free of career records) and the first career record
  \<open>q1\<close> on the next team, the home roster becomes \<open>q1\<close> in front of
  what it held, and the other roster loses only that one entry: every later entry of it,
  a second career record included, stays where it was.
\<close>

theorem relocate_keeps_duplicate:
  assumes d: "map_of dd ''seasonLeagues'' = Some (JList (JDict l # ls))"
    and col: "is_college l" "map_of l ''teams'' = Some (JList (JDict h # JDict t # ts))"
    and h: "is_home_name (team_name h)" "map_of h ''roster'' = Some (JList hr)"
      "\<forall>x \<in> set hr. \<exists>e. x = JDict e \<and> \<not> is_career_player e"
    and t: "\<not> is_home_name (team_name t)" "map_of t ''roster'' = Some (JList (pre @ JDict q1 # rest))"
      "\<forall>x \<in> set pre. \<exists>e. x = JDict e \<and> \<not> is_career_player e" "is_career_player q1" "has_maxed_attrs q1 = Inr m"
  shows "\<exists>data'. relocate_career_player (JDict dd) = Inr data' \<and>
           map_option roster_of (team_at 0 0 data') = Some (JDict q1 # hr) \<and>
           map_option roster_of (team_at 0 1 data') = Some (pre @ rest)"
proof -
  have scan: "reloc_leagues 0 None (JDict l # ls) = Inr (Found (0, 1, team_name t, JDict q1) (Some (0, 0)))"
    using col h t reloc_players_none [OF h(3)] reloc_players_first [OF t(3,4,5)]
    by (simp add: Let_def map_of_dict_has dict_get_Some)
  have th: "team_at 0 0 (JDict dd) = Some (JDict h)" and tt: "team_at 0 1 (JDict dd) = Some (JDict t)"
    using d col by (simp_all add: team_at_def)
  have ne: "h \<noteq> []" using h(2) by auto
  from relocate_move [OF first_league_scan [OF d, THEN conjunct1] first_league_scan [OF d, THEN conjunct2]
      scan t(1) _ th ne h(2) tt t(2)]
  obtain data' where "relocate_career_player (JDict dd) = Inr data'"
      "team_at 0 0 data' = Some (JDict (dict_set h ''roster'' (JList (JDict q1 # hr))))"
      "team_at 0 1 data' = Some (JDict (dict_set t ''roster'' (JList (remove1 (JDict q1) (pre @ JDict q1 # rest)))))"
    by auto
  with remove1_first [OF t(3,4)] show ?thesis by auto
qed

theorem relocate_keeps_duplicate_witness:
  "\<exists>data'. relocate_career_player
      (ex_doc [ex_team ''North Carolina'' ''Tar Heels'' [ex_kyan], ex_team ''Duke'' ''Blue Devils'' [ex_isaac, ex_isaac]])
      = Inr data' \<and>
    map_option roster_of (team_at 0 0 data') = Some [ex_isaac, ex_kyan] \<and>
    map_option roster_of (team_at 0 1 data') = Some [ex_isaac]"
proof -
  have h: "is_home_name (team_name [(''city'', JStr ''North Carolina''), (''name'', JStr ''Tar Heels''),
             (''roster'', JList [ex_kyan])])" by code_simp
  have o: "\<not> is_home_name (team_name [(''city'', JStr ''Duke''), (''name'', JStr ''Blue Devils''),
             (''roster'', JList [ex_isaac, ex_isaac])])" by code_simp
  have k: "\<not> is_career_player [(''pid'', JInt 11), (''fn'', JStr ''Kyan''), (''ln'', JStr ''Evans'')]" by code_simp
  have c: "is_career_player [(''pid'', JInt 706), (''fn'', JStr ''Isaac''), (''ln'', JStr ''Condrey'')]" by code_simp
  have m: "has_maxed_attrs [(''pid'', JInt 706), (''fn'', JStr ''Isaac''), (''ln'', JStr ''Condrey'')] = Inr False"
    by (simp add: has_maxed_attrs_def dict_get_def)
  have "\<exists>data'. relocate_career_player
      (ex_doc [ex_team ''North Carolina'' ''Tar Heels'' [ex_kyan], ex_team ''Duke'' ''Blue Devils'' [ex_isaac, ex_isaac]])
      = Inr data' \<and> map_option roster_of (team_at 0 0 data') = Some (ex_isaac # [ex_kyan]) \<and>
      map_option roster_of (team_at 0 1 data') = Some ([] @ [ex_isaac])"
    by (rule relocate_keeps_duplicate [where pre = "[]", OF _ _ _ h _ _ o _ _ c m])
       (use k in \<open>simp_all add: is_college_def dict_get_def\<close>, code_simp+)
  then show ?thesis by simp
qed

text \<open>
  C16. The relocation test is pid or name only (the comment on line 680 also names maxed
  attributes): when the only team is the home team and its roster holds no career record
  but does hold a record \<open>m\<close> with every attribute at \<open>[20, 20]\<close>, which
  \<open>update_player\<close> protects, the pass puts a new career record, different from
  \<open>m\<close>, in front of the whole roster, so the roster ends with two protected records.
\<close>

theorem relocate_ignores_maxed_record:
  assumes d: "map_of dd ''seasonLeagues'' = Some (JList [JDict l])"
    and col: "is_college l" "map_of l ''teams'' = Some (JList [JDict h])"
    and h: "is_home_name (team_name h)" "map_of h ''roster'' = Some (JList hr)"
      "\<forall>x \<in> set hr. \<exists>e. x = JDict e \<and> \<not> is_career_player e"
    and m: "JDict m \<in> set hr" "has_maxed_attrs m = Inr True"
  shows "\<exists>data' cp. relocate_career_player (JDict dd) = Inr data' \<and>
           map_option roster_of (team_at 0 0 data') = Some (JDict cp # hr) \<and>
           is_career_player cp \<and> has_maxed_attrs cp = Inr True \<and> cp \<noteq> m"
proof -
  have scan: "reloc_leagues 0 None [JDict l] = Inr (Not_Found (Some (0, 0)))"
    using col h reloc_players_none [OF h(3)] by (simp add: Let_def map_of_dict_has dict_get_Some)
  have th: "team_at 0 0 (JDict dd) = Some (JDict h)" using d col by (simp add: team_at_def)
  have ne: "h \<noteq> []" using h(2) by auto
  have first: "\<forall>x \<in> set (take 1 hr). \<exists>d. x = JDict d" using h(3) by (auto dest: in_set_takeD)
  have nm: "\<not> is_career_player m" using h(3) m(1) by auto
  from relocate_create [OF first_league_scan [OF d, THEN conjunct1] first_league_scan [OF d, THEN conjunct2]
      scan th ne h(2) first]
  obtain data' cp where "relocate_career_player (JDict dd) = Inr data'"
      "team_at 0 0 data' = Some (JDict (dict_set h ''roster'' (JList (JDict cp # hr))))"
      "is_career_player cp" "has_maxed_attrs cp = Inr True" by blast
  with nm show ?thesis by auto
qed

theorem relocate_ignores_maxed_record_witness:
  "\<exists>data' cp. relocate_career_player
     (ex_doc [ex_team ''North Carolina'' ''Tar Heels''
                [JDict [(''pid'', JInt 5), (''fn'', JStr ''Ike''), (''attributes'', JDict maxed_attributes)]]])
     = Inr data' \<and>
   map_option roster_of (team_at 0 0 data') =
     Some [JDict cp, JDict [(''pid'', JInt 5), (''fn'', JStr ''Ike''), (''attributes'', JDict maxed_attributes)]] \<and>
   is_career_player cp \<and> has_maxed_attrs cp = Inr True \<and>
   cp \<noteq> [(''pid'', JInt 5), (''fn'', JStr ''Ike''), (''attributes'', JDict maxed_attributes)]"
proof -
  have h: "is_home_name (team_name [(''city'', JStr ''North Carolina''), (''name'', JStr ''Tar Heels''),
             (''roster'', JList [JDict [(''pid'', JInt 5), (''fn'', JStr ''Ike''), (''attributes'', JDict maxed_attributes)]])])"
    by code_simp
  have k: "\<not> is_career_player [(''pid'', JInt 5), (''fn'', JStr ''Ike''), (''attributes'', JDict maxed_attributes)]"
    by code_simp
  have m: "has_maxed_attrs [(''pid'', JInt 5), (''fn'', JStr ''Ike''), (''attributes'', JDict maxed_attributes)] = Inr True"
    by code_simp
  show ?thesis
    by (rule relocate_ignores_maxed_record [OF _ _ _ h _ _ _ m]) (use k in \<open>simp_all add: is_college_def dict_get_def\<close>, code_simp+)
qed

end
