(* ===== verification/Rosters.thy ===== *)
theory Rosters
  imports Json
begin

text \<open>
  The two static tables of src/scripts/update_all_rosters.py, transcribed entry by entry:
  \<open>REAL_ROSTERS\<close> (lines 160--300), the curated 2025-26 rosters keyed by team display
  name, each player a dict with the long keys \<open>update_player\<close> reads; and
  \<open>TEAM_QUALITY\<close> (lines 356--422), the tier of each team. Python dict literals are
  association lists in their written order. \<open>REAL_ROSTERS\<close> is the table as written;
  the external-roster merge of lines 302--353 (theory \<open>Loader\<close>) computes the table
  the passes actually use.
\<close>

section \<open>Curated rosters\<close>

definition REAL_ROSTERS :: "(string \<times> json list) list" where
  "REAL_ROSTERS = [
   (''Duke Blue Devils'', [
    JDict [(''first_name'', JStr ''Tyrese''), (''last_name'', JStr ''Proctor''), (''position'', JInt 0), (''jersey'', JInt 0),
      (''height'', JStr (''6'' @ [CHR 0x27] @ ''5'' @ [CHR 0x22])), (''weight'', JStr ''190''), (''age'', JInt 21), (''rating'', JInt 88),
      (''stats'', JDict [
        (''ppg'', JFloat 14.2), (''rpg'', JFloat 3.8), (''apg'', JFloat 5.1), (''fg_pct'', JFloat 0.445),
        (''three_pct'', JFloat 0.365), (''ft_pct'', JFloat 0.82), (''spg'', JFloat 1.2), (''bpg'', JFloat 0.3)])],
    JDict [(''first_name'', JStr ''Caleb''), (''last_name'', JStr ''Foster''), (''position'', JInt 1), (''jersey'', JInt 1),
      (''height'', JStr (''6'' @ [CHR 0x27] @ ''4'' @ [CHR 0x22])), (''weight'', JStr ''190''), (''age'', JInt 20), (''rating'', JInt 82),
      (''stats'', JDict [
        (''ppg'', JFloat 11.8), (''rpg'', JFloat 3.2), (''apg'', JFloat 3.5), (''fg_pct'', JFloat 0.43),
        (''three_pct'', JFloat 0.38), (''ft_pct'', JFloat 0.785), (''spg'', JFloat 1.0), (''bpg'', JFloat 0.2)])],
    JDict [(''first_name'', JStr ''Isaiah''), (''last_name'', JStr ''Evans''), (''position'', JInt 2), (''jersey'', JInt 2),
      (''height'', JStr (''6'' @ [CHR 0x27] @ ''6'' @ [CHR 0x22])), (''weight'', JStr ''200''), (''age'', JInt 19), (''rating'', JInt 85),
      (''stats'', JDict [
        (''ppg'', JFloat 12.5), (''rpg'', JFloat 4.1), (''apg'', JFloat 2.8), (''fg_pct'', JFloat 0.44),
        (''three_pct'', JFloat 0.375), (''ft_pct'', JFloat 0.8), (''spg'', JFloat 1.3), (''bpg'', JFloat 0.4)])],
    JDict [(''first_name'', JStr ''Kon''), (''last_name'', JStr ''Knueppel''), (''position'', JInt 2), (''jersey'', JInt 3),
      (''height'', JStr (''6'' @ [CHR 0x27] @ ''7'' @ [CHR 0x22])), (''weight'', JStr ''205''), (''age'', JInt 19), (''rating'', JInt 83),
      (''stats'', JDict [
        (''ppg'', JFloat 10.2), (''rpg'', JFloat 3.9), (''apg'', JFloat 2.2), (''fg_pct'', JFloat 0.435),
        (''three_pct'', JFloat 0.39), (''ft_pct'', JFloat 0.81), (''spg'', JFloat 0.9), (''bpg'', JFloat 0.3)])],
    JDict [(''first_name'', JStr ''Khaman''), (''last_name'', JStr ''Maluach''), (''position'', JInt 4), (''jersey'', JInt 4),
      (''height'', JStr (''7'' @ [CHR 0x27] @ ''2'' @ [CHR 0x22])), (''weight'', JStr ''230''), (''age'', JInt 19), (''rating'', JInt 90),
      (''stats'', JDict [
        (''ppg'', JFloat 12.8), (''rpg'', JFloat 9.5), (''apg'', JFloat 1.2), (''fg_pct'', JFloat 0.55),
        (''three_pct'', JFloat 0.0), (''ft_pct'', JFloat 0.72), (''spg'', JFloat 0.5), (''bpg'', JFloat 2.8)])],
    JDict [(''first_name'', JStr ''Patrick''), (''last_name'', JStr ''Ngongba II''), (''position'', JInt 4), (''jersey'', JInt 5),
      (''height'', JStr (''6'' @ [CHR 0x27] @ ''11'' @ [CHR 0x22])), (''weight'', JStr ''235''), (''age'', JInt 19), (''rating'', JInt 80),
      (''stats'', JDict [
        (''ppg'', JFloat 8.5), (''rpg'', JFloat 6.8), (''apg'', JFloat 1.0), (''fg_pct'', JFloat 0.52),
        (''three_pct'', JFloat 0.0), (''ft_pct'', JFloat 0.68), (''spg'', JFloat 0.4), (''bpg'', JFloat 1.2)])],
    JDict [(''first_name'', JStr ''Nikolas''), (''last_name'', JStr ''Khamenia''), (''position'', JInt 2), (''jersey'', JInt 6),
      (''height'', JStr (''6'' @ [CHR 0x27] @ ''8'' @ [CHR 0x22])), (''weight'', JStr ''215''), (''age'', JInt 19), (''rating'', JInt 84),
      (''stats'', JDict [
        (''ppg'', JFloat 11.2), (''rpg'', JFloat 4.5), (''apg'', JFloat 2.5), (''fg_pct'', JFloat 0.45),
        (''three_pct'', JFloat 0.37), (''ft_pct'', JFloat 0.79), (''spg'', JFloat 1.1), (''bpg'', JFloat 0.6)])],
    JDict [(''first_name'', JStr ''Cameron''), (''last_name'', JStr ''Boozer''), (''position'', JInt 3), (''jersey'', JInt 7),
      (''height'', JStr (''6'' @ [CHR 0x27] @ ''9'' @ [CHR 0x22])), (''weight'', JStr ''250''), (''age'', JInt 19), (''rating'', JInt 92),
      (''stats'', JDict [
        (''ppg'', JFloat 16.2), (''rpg'', JFloat 8.8), (''apg'', JFloat 2.8), (''fg_pct'', JFloat 0.495),
        (''three_pct'', JFloat 0.35), (''ft_pct'', JFloat 0.78), (''spg'', JFloat 1.2), (''bpg'', JFloat 1.1)])],
    JDict [(''first_name'', JStr ''Cayden''), (''last_name'', JStr ''Boozer''), (''position'', JInt 0), (''jersey'', JInt 8),
      (''height'', JStr (''6'' @ [CHR 0x27] @ ''4'' @ [CHR 0x22])), (''weight'', JStr ''200''), (''age'', JInt 19), (''rating'', JInt 86),
      (''stats'', JDict [
        (''ppg'', JFloat 13.5), (''rpg'', JFloat 3.5), (''apg'', JFloat 5.5), (''fg_pct'', JFloat 0.455),
        (''three_pct'', JFloat 0.365), (''ft_pct'', JFloat 0.81), (''spg'', JFloat 1.4), (''bpg'', JFloat 0.3)])],
    JDict [(''first_name'', JStr ''Darren''), (''last_name'', JStr ''Harris''), (''position'', JInt 2), (''jersey'', JInt 9),
      (''height'', JStr (''6'' @ [CHR 0x27] @ ''6'' @ [CHR 0x22])), (''weight'', JStr ''195''), (''age'', JInt 19), (''rating'', JInt 81),
      (''stats'', JDict [
        (''ppg'', JFloat 9.8), (''rpg'', JFloat 3.6), (''apg'', JFloat 2.0), (''fg_pct'', JFloat 0.425),
        (''three_pct'', JFloat 0.375), (''ft_pct'', JFloat 0.77), (''spg'', JFloat 0.8), (''bpg'', JFloat 0.3)])],
    JDict [(''first_name'', JStr ''Sion''), (''last_name'', JStr ''James''), (''position'', JInt 1), (''jersey'', JInt 10),
      (''height'', JStr (''6'' @ [CHR 0x27] @ ''6'' @ [CHR 0x22])), (''weight'', JStr ''210''), (''age'', JInt 22), (''rating'', JInt 85),
      (''stats'', JDict [
        (''ppg'', JFloat 12.2), (''rpg'', JFloat 4.2), (''apg'', JFloat 3.2), (''fg_pct'', JFloat 0.44),
        (''three_pct'', JFloat 0.36), (''ft_pct'', JFloat 0.8), (''spg'', JFloat 1.5), (''bpg'', JFloat 0.4)])],
    JDict [(''first_name'', JStr ''Maliq''), (''last_name'', JStr ''Brown''), (''position'', JInt 3), (''jersey'', JInt 11),
      (''height'', JStr (''6'' @ [CHR 0x27] @ ''9'' @ [CHR 0x22])), (''weight'', JStr ''220''), (''age'', JInt 21), (''rating'', JInt 84),
      (''stats'', JDict [
        (''ppg'', JFloat 11.5), (''rpg'', JFloat 7.2), (''apg'', JFloat 2.1), (''fg_pct'', JFloat 0.51),
        (''three_pct'', JFloat 0.0), (''ft_pct'', JFloat 0.75), (''spg'', JFloat 1.8), (''bpg'', JFloat 1.0)])],
    JDict [(''first_name'', JStr ''Mason''), (''last_name'', JStr ''Gillis''), (''position'', JInt 3), (''jersey'', JInt 12),
      (''height'', JStr (''6'' @ [CHR 0x27] @ ''6'' @ [CHR 0x22])), (''weight'', JStr ''225''), (''age'', JInt 22), (''rating'', JInt 83),
      (''stats'', JDict [
        (''ppg'', JFloat 10.8), (''rpg'', JFloat 5.5), (''apg'', JFloat 1.8), (''fg_pct'', JFloat 0.445),
        (''three_pct'', JFloat 0.385), (''ft_pct'', JFloat 0.82), (''spg'', JFloat 0.9), (''bpg'', JFloat 0.3)])],
    JDict [(''first_name'', JStr ''Cameron''), (''last_name'', JStr ''Sheffield''), (''position'', JInt 2), (''jersey'', JInt 13),
      (''height'', JStr (''6'' @ [CHR 0x27] @ ''6'' @ [CHR 0x22])), (''weight'', JStr ''210''), (''age'', JInt 22), (''rating'', JInt 82),
      (''stats'', JDict [
        (''ppg'', JFloat 9.5), (''rpg'', JFloat 4.0), (''apg'', JFloat 2.3), (''fg_pct'', JFloat 0.43),
        (''three_pct'', JFloat 0.37), (''ft_pct'', JFloat 0.78), (''spg'', JFloat 1.0), (''bpg'', JFloat 0.4)])],
    JDict [(''first_name'', JStr ''Sebastian''), (''last_name'', JStr ''Wilkins''), (''position'', JInt 2), (''jersey'', JInt 14),
      (''height'', JStr (''6'' @ [CHR 0x27] @ ''7'' @ [CHR 0x22])), (''weight'', JStr ''200''), (''age'', JInt 19), (''rating'', JInt 80),
      (''stats'', JDict [
        (''ppg'', JFloat 8.5), (''rpg'', JFloat 3.8), (''apg'', JFloat 1.8), (''fg_pct'', JFloat 0.425),
        (''three_pct'', JFloat 0.36), (''ft_pct'', JFloat 0.75), (''spg'', JFloat 0.8), (''bpg'', JFloat 0.3)])],
    JDict [(''first_name'', JStr ''Dame''), (''last_name'', JStr ''Sarr''), (''position'', JInt 2), (''jersey'', JInt 15),
      (''height'', JStr (''6'' @ [CHR 0x27] @ ''6'' @ [CHR 0x22])), (''weight'', JStr ''195''), (''age'', JInt 19), (''rating'', JInt 81),
      (''stats'', JDict [
        (''ppg'', JFloat 9.2), (''rpg'', JFloat 3.5), (''apg'', JFloat 2.0), (''fg_pct'', JFloat 0.43),
        (''three_pct'', JFloat 0.365), (''ft_pct'', JFloat 0.77), (''spg'', JFloat 0.9), (''bpg'', JFloat 0.3)])],
    JDict [(''first_name'', JStr ''Ifeanyi''), (''last_name'', JStr ''Ufochukwu''), (''position'', JInt 4), (''jersey'', JInt 20),
      (''height'', JStr (''6'' @ [CHR 0x27] @ ''11'' @ [CHR 0x22])), (''weight'', JStr ''240''), (''age'', JInt 22), (''rating'', JInt 82),
      (''stats'', JDict [
        (''ppg'', JFloat 8.8), (''rpg'', JFloat 7.0), (''apg'', JFloat 1.0), (''fg_pct'', JFloat 0.515),
        (''three_pct'', JFloat 0.0), (''ft_pct'', JFloat 0.7), (''spg'', JFloat 0.5), (''bpg'', JFloat 1.5)])],
    JDict [(''first_name'', JStr ''Jack''), (''last_name'', JStr ''Scott''), (''position'', JInt 2), (''jersey'', JInt 21),
      (''height'', JStr (''6'' @ [CHR 0x27] @ ''5'' @ [CHR 0x22])), (''weight'', JStr ''205''), (''age'', JInt 22), (''rating'', JInt 81),
      (''stats'', JDict [
        (''ppg'', JFloat 8.2), (''rpg'', JFloat 3.2), (''apg'', JFloat 2.2), (''fg_pct'', JFloat 0.42),
        (''three_pct'', JFloat 0.355), (''ft_pct'', JFloat 0.76), (''spg'', JFloat 0.9), (''bpg'', JFloat 0.2)])]]),
   (''North Carolina Tar Heels'', [
    JDict [(''first_name'', JStr ''Kyan''), (''last_name'', JStr ''Evans''), (''position'', JInt 0), (''jersey'', JInt 0),
      (''height'', JStr (''6'' @ [CHR 0x27] @ ''2'' @ [CHR 0x22])), (''weight'', JStr ''175''), (''age'', JInt 21), (''rating'', JInt 85),
      (''stats'', JDict [
        (''ppg'', JFloat 13.8), (''rpg'', JFloat 3.2), (''apg'', JFloat 5.2), (''fg_pct'', JFloat 0.44),
        (''three_pct'', JFloat 0.37), (''ft_pct'', JFloat 0.81), (''spg'', JFloat 1.3), (''bpg'', JFloat 0.2)])],
    JDict [(''first_name'', JStr ''Zayden''), (''last_name'', JStr ''High''), (''position'', JInt 3), (''jersey'', JInt 1),
      (''height'', JStr (''6'' @ [CHR 0x27] @ ''10'' @ [CHR 0x22])), (''weight'', JStr ''230''), (''age'', JInt 20), (''rating'', JInt 82),
      (''stats'', JDict [
        (''ppg'', JFloat 10.5), (''rpg'', JFloat 6.8), (''apg'', JFloat 1.5), (''fg_pct'', JFloat 0.485),
        (''three_pct'', JFloat 0.32), (''ft_pct'', JFloat 0.75), (''spg'', JFloat 0.8), (''bpg'', JFloat 1.2)])],
    JDict [(''first_name'', JStr ''James''), (''last_name'', JStr ''Brown''), (''position'', JInt 3), (''jersey'', JInt 2),
      (''height'', JStr (''6'' @ [CHR 0x27] @ ''10'' @ [CHR 0x22])), (''weight'', JStr ''240''), (''age'', JInt 20), (''rating'', JInt 81),
      (''stats'', JDict [
        (''ppg'', JFloat 9.2), (''rpg'', JFloat 6.2), (''apg'', JFloat 1.2), (''fg_pct'', JFloat 0.5),
        (''three_pct'', JFloat 0.0), (''ft_pct'', JFloat 0.72), (''spg'', JFloat 0.6), (''bpg'', JFloat 1.0)])],
    JDict [(''first_name'', JStr ''Derek''), (''last_name'', JStr ''Dixon''), (''position'', JInt 1), (''jersey'', JInt 3),
      (''height'', JStr (''6'' @ [CHR 0x27] @ ''5'' @ [CHR 0x22])), (''weight'', JStr ''200''), (''age'', JInt 19), (''rating'', JInt 83),
      (''stats'', JDict [
        (''ppg'', JFloat 11.2), (''rpg'', JFloat 3.5), (''apg'', JFloat 2.8), (''fg_pct'', JFloat 0.435),
        (''three_pct'', JFloat 0.38), (''ft_pct'', JFloat 0.79), (''spg'', JFloat 1.1), (''bpg'', JFloat 0.3)])],
    JDict [(''first_name'', JStr ''Jaydon''), (''last_name'', JStr ''Young''), (''position'', JInt 1), (''jersey'', JInt 4),
      (''height'', JStr (''6'' @ [CHR 0x27] @ ''4'' @ [CHR 0x22])), (''weight'', JStr ''200''), (''age'', JInt 21), (''rating'', JInt 84),
      (''stats'', JDict [
        (''ppg'', JFloat 12.5), (''rpg'', JFloat 3.8), (''apg'', JFloat 3.2), (''fg_pct'', JFloat 0.445),
        (''three_pct'', JFloat 0.365), (''ft_pct'', JFloat 0.8), (''spg'', JFloat 1.2), (''bpg'', JFloat 0.3)])],
    JDict [(''first_name'', JStr ''Isaiah''), (''last_name'', JStr ''Denis''), (''position'', JInt 1), (''jersey'', JInt 5),
      (''height'', JStr (''6'' @ [CHR 0x27] @ ''4'' @ [CHR 0x22])), (''weight'', JStr ''180''), (''age'', JInt 19), (''rating'', JInt 80),
      (''stats'', JDict [
        (''ppg'', JFloat 8.8), (''rpg'', JFloat 2.8), (''apg'', JFloat 2.2), (''fg_pct'', JFloat 0.42),
        (''three_pct'', JFloat 0.36), (''ft_pct'', JFloat 0.76), (''spg'', JFloat 0.9), (''bpg'', JFloat 0.2)])],
    JDict [(''first_name'', JStr ''Elijah''), (''last_name'', JStr ''Davis''), (''position'', JInt 1), (''jersey'', JInt 6),
      (''height'', JStr (''6'' @ [CHR 0x27] @ ''3'' @ [CHR 0x22])), (''weight'', JStr ''205''), (''age'', JInt 22), (''rating'', JInt 83),
      (''stats'', JDict [
        (''ppg'', JFloat 10.8), (''rpg'', JFloat 3.5), (''apg'', JFloat 3.0), (''fg_pct'', JFloat 0.43),
        (''three_pct'', JFloat 0.35), (''ft_pct'', JFloat 0.78), (''spg'', JFloat 1.0), (''bpg'', JFloat 0.2)])],
    JDict [(''first_name'', JStr ''Seth''), (''last_name'', JStr ''Trimble''), (''position'', JInt 1), (''jersey'', JInt 7),
      (''height'', JStr (''6'' @ [CHR 0x27] @ ''3'' @ [CHR 0x22])), (''weight'', JStr ''200''), (''age'', JInt 22), (''rating'', JInt 87),
      (''stats'', JDict [
        (''ppg'', JFloat 15.2), (''rpg'', JFloat 5.2), (''apg'', JFloat 3.8), (''fg_pct'', JFloat 0.46),
        (''three_pct'', JFloat 0.375), (''ft_pct'', JFloat 0.82), (''spg'', JFloat 1.5), (''bpg'', JFloat 0.4)])],
    JDict [(''first_name'', JStr ''Jonathan''), (''last_name'', JStr ''Powell''), (''position'', JInt 1), (''jersey'', JInt 11),
      (''height'', JStr (''6'' @ [CHR 0x27] @ ''6'' @ [CHR 0x22])), (''weight'', JStr ''190''), (''age'', JInt 20), (''rating'', JInt 82),
      (''stats'', JDict [
        (''ppg'', JFloat 10.5), (''rpg'', JFloat 3.2), (''apg'', JFloat 2.5), (''fg_pct'', JFloat 0.435),
        (''three_pct'', JFloat 0.37), (''ft_pct'', JFloat 0.77), (''spg'', JFloat 1.0), (''bpg'', JFloat 0.3)])],
    JDict [(''first_name'', JStr ''Henri''), (''last_name'', JStr ''Veesaar''), (''position'', JInt 4), (''jersey'', JInt 13),
      (''height'', JStr (''7'' @ [CHR 0x27] @ ''0'' @ [CHR 0x22])), (''weight'', JStr ''225''), (''age'', JInt 21), (''rating'', JInt 85),
      (''stats'', JDict [
        (''ppg'', JFloat 11.8), (''rpg'', JFloat 8.5), (''apg'', JFloat 1.5), (''fg_pct'', JFloat 0.535),
        (''three_pct'', JFloat 0.0), (''ft_pct'', JFloat 0.74), (''spg'', JFloat 0.6), (''bpg'', JFloat 2.2)])],
    JDict [(''first_name'', JStr ''Jarin''), (''last_name'', JStr ''Stevenson''), (''position'', JInt 3), (''jersey'', JInt 15),
      (''height'', JStr (''6'' @ [CHR 0x27] @ ''10'' @ [CHR 0x22])), (''weight'', JStr ''215''), (''age'', JInt 21), (''rating'', JInt 84),
      (''stats'', JDict [
        (''ppg'', JFloat 12.2), (''rpg'', JFloat 6.5), (''apg'', JFloat 2.2), (''fg_pct'', JFloat 0.47),
        (''three_pct'', JFloat 0.34), (''ft_pct'', JFloat 0.78), (''spg'', JFloat 1.0), (''bpg'', JFloat 1.1)])],
    JDict [(''first_name'', JStr ''John''), (''last_name'', JStr ''Holbrook''), (''position'', JInt 3), (''jersey'', JInt 25),
      (''height'', JStr (''6'' @ [CHR 0x27] @ ''8'' @ [CHR 0x22])), (''weight'', JStr ''230''), (''age'', JInt 20), (''rating'', JInt 79),
      (''stats'', JDict [
        (''ppg'', JFloat 7.5), (''rpg'', JFloat 5.2), (''apg'', JFloat 1.0), (''fg_pct'', JFloat 0.48),
        (''three_pct'', JFloat 0.0), (''ft_pct'', JFloat 0.7), (''spg'', JFloat 0.5), (''bpg'', JFloat 0.8)])],
    JDict [(''first_name'', JStr ''Evan''), (''last_name'', JStr ''Smith''), (''position'', JInt 0), (''jersey'', JInt 32),
      (''height'', JStr (''6'' @ [CHR 0x27] @ ''1'' @ [CHR 0x22])), (''weight'', JStr ''195''), (''age'', JInt 21), (''rating'', JInt 81),
      (''stats'', JDict [
        (''ppg'', JFloat 9.2), (''rpg'', JFloat 2.5), (''apg'', JFloat 3.5), (''fg_pct'', JFloat 0.425),
        (''three_pct'', JFloat 0.36), (''ft_pct'', JFloat 0.75), (''spg'', JFloat 1.2), (''bpg'', JFloat 0.1)])],
    JDict [(''first_name'', JStr ''Ivan''), (''last_name'', JStr ''Matlekovic''), (''position'', JInt 4), (''jersey'', JInt 40),
      (''height'', JStr (''7'' @ [CHR 0x27] @ ''0'' @ [CHR 0x22])), (''weight'', JStr ''255''), (''age'', JInt 20), (''rating'', JInt 82),
      (''stats'', JDict [
        (''ppg'', JFloat 8.8), (''rpg'', JFloat 7.2), (''apg'', JFloat 1.0), (''fg_pct'', JFloat 0.52),
        (''three_pct'', JFloat 0.0), (''ft_pct'', JFloat 0.68), (''spg'', JFloat 0.4), (''bpg'', JFloat 1.8)])],
    JDict [(''first_name'', JStr ''Luka''), (''last_name'', JStr ''Bogavac''), (''position'', JInt 1), (''jersey'', JInt 44),
      (''height'', JStr (''6'' @ [CHR 0x27] @ ''6'' @ [CHR 0x22])), (''weight'', JStr ''215''), (''age'', JInt 19), (''rating'', JInt 81),
      (''stats'', JDict [
        (''ppg'', JFloat 9.5), (''rpg'', JFloat 3.8), (''apg'', JFloat 2.2), (''fg_pct'', JFloat 0.43),
        (''three_pct'', JFloat 0.35), (''ft_pct'', JFloat 0.76), (''spg'', JFloat 0.9), (''bpg'', JFloat 0.3)])]])]"

section \<open>Team quality\<close>

definition TEAM_QUALITY :: "(string \<times> string) list" where
  "TEAM_QUALITY = [
   (''Alabama Crimson Tide'', ''elite''),
   (''Duke Blue Devils'', ''elite''),
   (''Kentucky Wildcats'', ''elite''),
   (''North Carolina Tar Heels'', ''elite''),
   (''Arizona Wildcats'', ''elite''),
   (''Houston Cougars'', ''elite''),
   (''UCLA Bruins'', ''elite''),
   (''Kansas Jayhawks'', ''elite''),
   (''Purdue Boilermakers'', ''elite''),
   (''Connecticut Huskies'', ''elite''),
   (''Auburn Tigers'', ''good''),
   (''Tennessee Volunteers'', ''elite''),
   (''Arizona State Sun Devils'', ''good''),
   (''Arkansas Razorbacks'', ''good''),
   (''Texas Longhorns'', ''good''),
   (''Florida Gators'', ''good''),
   (''Michigan Wolverines'', ''good''),
   (''USC Trojans'', ''good''),
   (''Baylor Bears'', ''good''),
   (''Villanova Wildcats'', ''good''),
   (''Syracuse Orange'', ''good''),
   (''Louisville Cardinals'', ''good''),
   (''Memphis Tigers'', ''good''),
   (''Oregon Ducks'', ''good''),
   (''Maryland Terrapins'', ''good''),
   (''Oklahoma Sooners'', ''good''),
   (''Texas Tech Red Raiders'', ''good''),
   (''LSU Tigers'', ''good''),
   (''Miami Hurricanes'', ''good''),
   (''Georgia Bulldogs'', ''average''),
   (''Colorado Buffaloes'', ''average''),
   (''TCU Horned Frogs'', ''average''),
   (''Florida State Seminoles'', ''average''),
   (''Virginia Cavaliers'', ''average''),
   (''Oregon State Beavers'', ''average''),
   (''SMU Mustangs'', ''average''),
   (''Washington Huskies'', ''average''),
   (''Utah Utes'', ''average''),
   (''Seton Hall Pirates'', ''average''),
   (''Gonzaga Bulldogs'', ''average''),
   (''Providence Friars'', ''average''),
   ((''St. John'' @ [CHR 0x27] @ ''s Red Storm''), ''average''),
   (''Temple Owls'', ''average''),
   (''UCF Knights'', ''average''),
   (''Ole Miss Rebels'', ''average''),
   (''Nevada Wolf Pack'', ''average''),
   (''Rhode Island Rams'', ''average''),
   (''Washington State Cougars'', ''average''),
   (''Portland Pilots'', ''average''),
   (''Rutgers Scarlet Knights'', ''average''),
   (''UMass Minutemen'', ''average''),
   (''Tulsa Golden Hurricane'', ''average''),
   (''New Mexico Lobos'', ''average''),
   (''Texas A&M Aggies'', ''average''),
   (''FIU Panthers'', ''poor''),
   (''Weber State Wildcats'', ''poor''),
   (''Idaho Vandals'', ''poor''),
   (''Montana Grizzlies'', ''poor''),
   (''Arkansas-Little Rock Trojans'', ''poor''),
   (''Wyoming Cowboys'', ''poor''),
   ((''UNLV Runnin'' @ [CHR 0x27] @ '' Rebels''), ''poor''),
   (''Hawaii Rainbow Warriors'', ''poor''),
   (''Boise State Broncos'', ''poor''),
   (''Holy Cross Crusaders'', ''poor''),
   (''Boston University Terriers'', ''poor'')]"

end
