(* ===== verification/Probes.thy ===== *)
theory Probes
  imports Json "HOL-Library.While_Combinator"
begin

text \<open>
  The two jersey probes of the roster patch pass (src/scripts/update_all_rosters.py):
  the linear probe of the curated branch (lines 617--620) and the wrapping probe of the
  generated branch (lines 642--644), both \<open>while\<close> loops written with
  \<open>while_option\<close>, so that a probe that never ends is \<open>None\<close>. The linear probe always
  ends with the least free jersey; the wrapping probe is equivalent to a bounded cyclic
  search and never ends once thirty jerseys are taken.
\<close>

section \<open>The probes\<close>

text \<open>
  Lines 617--620 (curated teams): \<open>jersey = 1; while jersey in used_jerseys: jersey += 1\<close>.
  The set holds the \<open>num\<close> values of the curated slots, compared with Python's \<open>==\<close>.
\<close>

definition jersey_used :: "json list \<Rightarrow> nat \<Rightarrow> bool" where
  "jersey_used used j \<longleftrightarrow> (\<exists>v \<in> set used. py_eq_int v (int j))"

definition first_free :: "json list \<Rightarrow> nat option" where
  "first_free used = while_option (jersey_used used) Suc 1"

text \<open>
  Lines 641--644 (generated teams): start at \<open>i % 30 + 1\<close> and step
  \<open>jersey = jersey % 30 + 1\<close> while the jersey is taken.
\<close>

definition probe30 :: "nat list \<Rightarrow> nat \<Rightarrow> nat option" where
  "probe30 used i = while_option (\<lambda>j. j \<in> set used) (\<lambda>j. j mod 30 + 1) (i mod 30 + 1)"

text \<open>
  The probe's reference: the first free jersey among the thirty candidates in cyclic
  order from \<open>i % 30 + 1\<close>, \<open>None\<close> when all thirty are taken.
\<close>

definition probe30_ref :: "nat list \<Rightarrow> nat \<Rightarrow> nat option" where
  "probe30_ref used i = find (\<lambda>j. j \<notin> set used) (map (\<lambda>k. (i + k) mod 30 + 1) [0..<30])"

section \<open>Lemmas\<close>

lemma while_Suc_reaches:
  "s + d = j \<Longrightarrow> \<not> b j \<Longrightarrow> \<exists>t. while_option b Suc s = Some t"
proof (induction d arbitrary: s)
  case 0
  then show ?case by (subst while_option_unfold) simp
next
  case (Suc d)
  show ?case
  proof (cases "b s")
    case True
    have "\<exists>t. while_option b Suc (Suc s) = Some t" using Suc.prems by (intro Suc.IH) simp_all
    with True show ?thesis by (subst while_option_unfold) simp
  next
    case False
    then show ?thesis by (subst while_option_unfold) simp
  qed
qed

lemma jersey_used_finite: "finite {j. jersey_used used j}"
proof -
  have "{j. jersey_used used j} \<subseteq> (\<Union>v \<in> set used. {j. py_eq_int v (int j)})"
    by (auto simp: jersey_used_def)
  moreover have "finite {j. py_eq_int v (int j)}" for v
  proof (cases v)
    case (JBool b)
    then show ?thesis by (auto intro: finite_subset [of _ "{0, 1}"])
  next
    case (JInt i)
    then show ?thesis by (auto intro: finite_subset [of _ "{nat i}"])
  next
    case (JFloat x)
    then show ?thesis by (auto intro: finite_subset [of _ "{nat \<lfloor>x\<rfloor>}"])
  qed simp_all
  ultimately show ?thesis by (meson finite_UN_I finite_subset List.finite_set)
qed

lemma first_free_result:
  "\<exists>j. first_free used = Some j \<and> 1 \<le> j \<and> \<not> jersey_used used j \<and>
       (\<forall>k. 1 \<le> k \<longrightarrow> k < j \<longrightarrow> jersey_used used k)"
proof -
  obtain m where m: "\<forall>j \<ge> m. \<not> jersey_used used j"
    using jersey_used_finite [of used]
    by (metis (mono_tags) finite_nat_set_iff_bounded_le le_trans mem_Collect_eq not_less_eq_eq)
  then obtain t where t: "first_free used = Some t"
    using while_Suc_reaches [of 1 m "m + 1" "jersey_used used"]
    by (fastforce simp: first_free_def)
  have "1 \<le> t \<and> (\<forall>k. 1 \<le> k \<longrightarrow> k < t \<longrightarrow> jersey_used used k)"
    by (rule while_option_rule [where P = "\<lambda>x. 1 \<le> x \<and> (\<forall>k. 1 \<le> k \<longrightarrow> k < x \<longrightarrow> jersey_used used k)",
          OF _ t [unfolded first_free_def]]) (auto simp: less_Suc_eq)
  with t show ?thesis using while_option_stop [of "jersey_used used" Suc 1 t]
    by (simp add: first_free_def)
qed


lemma cycle30_reaches:
  fixes s k d :: nat and used :: "nat list"
  shows "s \<in> {1..30} \<Longrightarrow> k \<notin> set used \<Longrightarrow> (s + d - 1) mod 30 + 1 = k \<Longrightarrow>
   \<exists>t. while_option (\<lambda>j. j \<in> set used) (\<lambda>j. j mod 30 + 1) s = Some t"
proof (induction d arbitrary: s)
  case 0
  have "(s - 1) mod 30 = s - 1" by (rule mod_less) (use "0.prems"(1) in auto)
  with "0.prems"(1,3) have "s = k" by simp
  with "0.prems"(2) show ?case by (subst while_option_unfold) simp
next
  case (Suc d)
  show ?case
  proof (cases "s \<in> set used")
    case True
    have "s mod 30 + 1 \<in> {1..30}" by simp
    moreover have "(s mod 30 + 1 + d - 1) mod 30 + 1 = k"
      using Suc.prems(1,3) by (simp add: mod_add_left_eq)
    ultimately have "\<exists>t. while_option (\<lambda>j. j \<in> set used) (\<lambda>j. j mod 30 + 1) (s mod 30 + 1) = Some t"
      using Suc.prems(2) by (intro Suc.IH)
    with True show ?thesis by (subst while_option_unfold) simp
  next
    case False
    then show ?thesis by (subst while_option_unfold) simp
  qed
qed

lemma probe30_terminates:
  assumes "k \<in> {1..30}" "k \<notin> set used"
  shows "\<exists>j. probe30 used i = Some j \<and> j \<in> {1..30} \<and> j \<notin> set used"
proof -
  let ?s = "i mod 30 + 1"
  have "?s \<le> 30" by simp
  then have "?s + (k + 30 - ?s) - 1 = (k - 1) + 30" using assms(1) by simp
  moreover have "((k - 1) + 30) mod 30 = k - 1"
    unfolding mod_add_self2 by (rule mod_less) (use assms(1) in auto)
  ultimately have eq: "(?s + (k + 30 - ?s) - 1) mod 30 + 1 = k" using assms(1) by simp
  have "\<exists>t. probe30 used i = Some t"
    unfolding probe30_def by (rule cycle30_reaches [OF _ assms(2) eq]) simp
  then obtain t where t: "probe30 used i = Some t" by blast
  have "t \<in> {1..30}"
    by (rule while_option_rule [where P = "\<lambda>x. x \<in> {1..30}", OF _ t [unfolded probe30_def]]) auto
  moreover have "t \<notin> set used" using while_option_stop t by (fastforce simp: probe30_def)
  ultimately show ?thesis using t by blast
qed

lemma probe30_diverges:
  assumes "{1..30} \<subseteq> set used"
  shows "probe30 used i = None"
proof (rule ccontr)
  assume "probe30 used i \<noteq> None"
  then obtain t where t: "probe30 used i = Some t" by auto
  have "t \<in> {1..30}"
    by (rule while_option_rule [where P = "\<lambda>x. x \<in> {1..30}", OF _ t [unfolded probe30_def]]) auto
  moreover have "t \<notin> set used" using while_option_stop t by (fastforce simp: probe30_def)
  ultimately show False using assms by blast
qed

lemma find_append: "find P (xs @ ys) = (case find P xs of None \<Rightarrow> find P ys | Some x \<Rightarrow> Some x)"
  by (induction xs) simp_all

lemma probe30_walk:
  "while_option (\<lambda>j. j \<in> set used) (\<lambda>j. j mod 30 + 1) (i mod 30 + 1) =
   (case find (\<lambda>j. j \<notin> set used) (map (\<lambda>k. (i + k) mod 30 + 1) [0..<m]) of
      Some j \<Rightarrow> Some j
    | None \<Rightarrow> while_option (\<lambda>j. j \<in> set used) (\<lambda>j. j mod 30 + 1) ((i + m) mod 30 + 1))"
proof (induction m)
  case 0
  then show ?case by simp
next
  case (Suc m)
  have step: "((i + m) mod 30 + 1) mod 30 + 1 = (i + Suc m) mod 30 + 1"
    by (simp add: mod_Suc_eq)
  have unf: "while_option (\<lambda>j. j \<in> set used) (\<lambda>j. j mod 30 + 1) ((i + m) mod 30 + 1) =
     (if (i + m) mod 30 + 1 \<in> set used
      then while_option (\<lambda>j. j \<in> set used) (\<lambda>j. j mod 30 + 1) ((i + Suc m) mod 30 + 1)
      else Some ((i + m) mod 30 + 1))"
    by (subst while_option_unfold) (simp only: step)
  show ?case
  proof (cases "find (\<lambda>j. j \<notin> set used) (map (\<lambda>k. (i + k) mod 30 + 1) [0..<m])")
    case None
    with Suc.IH unf show ?thesis by (simp add: find_append)
  next
    case (Some j)
    then show ?thesis using Suc.IH by (simp add: find_append)
  qed
qed

lemma probe30_covers:
  assumes "j \<in> {1..30}"
  shows "j \<in> set (map (\<lambda>k. (i + k) mod 30 + 1) [0..<30])"
proof -
  let ?r = "i mod 30"
  let ?k = "(j - 1 + 30 - ?r) mod 30"
  have r: "?r < 30" by simp
  have "(i + ?k) mod 30 = (?r + ?k) mod 30" by (simp add: mod_add_left_eq)
  also have "\<dots> = (?r + (j - 1 + 30 - ?r)) mod 30" by (simp add: mod_add_right_eq)
  also have "?r + (j - 1 + 30 - ?r) = (j - 1) + 30" using r by linarith
  also have "((j - 1) + 30) mod 30 = j - 1" unfolding mod_add_self2 using assms by (intro mod_less) auto
  finally have eq: "(i + ?k) mod 30 + 1 = j" using assms by simp
  have "?k \<in> {0..<30}" by simp
  then show ?thesis unfolding set_map set_upt
    by (rule image_eqI [where f = "\<lambda>k. (i + k) mod 30 + 1", OF eq [symmetric]])
qed

section \<open>Claims\<close>

text \<open>
  C25. The curated fill probe (lines 617--620) always ends, with the least jersey from 1
  upwards that no curated slot's \<open>num\<close> equals.
\<close>

theorem first_free_least:
  "\<exists>j. first_free used = Some j \<and> 1 \<le> j \<and> \<not> jersey_used used j \<and>
       (\<forall>k. 1 \<le> k \<longrightarrow> k < j \<longrightarrow> jersey_used used k)"
  by (rule first_free_result)

theorem first_free_least_witness:
  "first_free [JInt 1, JInt 3] = Some 2 \<and> \<not> jersey_used [JInt 1, JInt 3] 2 \<and> jersey_used [JInt 1, JInt 3] 1"
proof -
  have ff: "first_free [JInt 1, JInt 3] = Some 2" by code_simp
  from first_free_least [of "[JInt 1, JInt 3]"] obtain j where
    r: "first_free [JInt 1, JInt 3] = Some j" "\<not> jersey_used [JInt 1, JInt 3] j"
       "\<forall>k. 1 \<le> k \<longrightarrow> k < j \<longrightarrow> jersey_used [JInt 1, JInt 3] k"
    by blast
  have "j = 2" using r(1) ff by simp
  with r ff show ?thesis by simp
qed

text \<open>
  C34. The wrapping probe of lines 642--644 is equivalent to a bounded search: it returns
  the first jersey not taken among the thirty candidates \<open>i % 30 + 1, ...\<close> in cyclic
  order, and runs forever exactly when all thirty are taken (\<open>probe30_ref\<close>).
\<close>

theorem probe30_equiv: "probe30 used i = probe30_ref used i"
proof (cases "probe30_ref used i")
  case (Some j)
  then show ?thesis using probe30_walk [of used i 30] by (simp add: probe30_def probe30_ref_def)
next
  case None
  have "{1..30} \<subseteq> set used"
  proof
    fix j :: nat
    assume "j \<in> {1..30}"
    then have "j \<in> set (map (\<lambda>k. (i + k) mod 30 + 1) [0..<30])" by (rule probe30_covers)
    with None show "j \<in> set used" unfolding probe30_ref_def find_None_iff by blast
  qed
  then show ?thesis using probe30_diverges None by simp
qed

end
