(* ===== verification/Patch.thy ===== *)
theory Patch
  imports Generator Relocate Rosters Probes
begin

text \<open>
  The roster patch pass of \<open>main\<close> (src/scripts/update_all_rosters.py, lines 566--664):
  for every team of every college league, curated data (\<open>REAL_ROSTERS\<close>, possibly
  extended by the external files, see \<open>Loader\<close>) applied to the first roster slots and
  generated players in the remaining ones, or a fully generated roster. Each roster slot is
  replaced by what \<open>update_player\<close> returns; the counters \<open>total_updated\<close> and
  \<open>teams_updated\<close> and the preservation test of lines 592--600 and 651--659 only decide
  what is printed, and are not modelled. The pass draws from the random source, so it is a
  \<open>prog\<close>; a jersey probe that never ends makes it \<open>None\<close>.
\<close>

text \<open>A loop that never ends.\<close>

definition diverge :: "'a prog" where
  "diverge g = None"

text \<open>\<open>len(x)\<close>.\<close>

fun py_len :: "json \<Rightarrow> nat py_result" where
  "py_len (JList xs) = Inr (length xs)"
| "py_len (JDict d) = Inr (length d)"
| "py_len (JStr s) = Inr (length s)"
| "py_len _ = Inl TypeError"

section \<open>Curated teams (lines 582--626)\<close>

text \<open>
  Lines 586--600: the curated record with index \<open>i\<close> goes through \<open>update_player\<close>
  onto slot \<open>i\<close> while \<open>i\<close> is below the roster size; \<open>.copy()\<close> of the slot runs
  first. \<open>update_player\<close> returns the slot's own dict, changed in place or not, so the
  slot ends as its result on both branches of the preservation test.
\<close>

fun apply_curated :: "nat \<Rightarrow> json list \<Rightarrow> json list \<Rightarrow> json list py_result" where
  "apply_curated i [] roster = Inr roster"
| "apply_curated i (rp # rps) roster =
     (if i < length roster then
        py_bind (py_copy (roster ! i)) (\<lambda>_.
        py_bind (update_player (roster ! i) rp) (\<lambda>u. apply_curated (Suc i) rps (roster[i := u])))
      else apply_curated (Suc i) rps roster)"

text \<open>
  Line 608: \<open>{p.get('num') for p in roster[:n] if p.get('num')}\<close>; a list or dict
  value is unhashable.
\<close>

fun num_set :: "json list \<Rightarrow> json list py_result" where
  "num_set [] = Inr []"
| "num_set (p # ps) =
     py_bind (py_get p ''num'' JNull) (\<lambda>n.
     py_bind (if \<not> py_truthy n then Inr []
              else case n of JList _ \<Rightarrow> Inl TypeError | JDict _ \<Rightarrow> Inl TypeError | _ \<Rightarrow> Inr [n]) (\<lambda>a.
     py_bind (num_set ps) (\<lambda>ns. Inr (a @ ns))))"

definition positions10 :: "int list" where
  "positions10 = [0, 1, 2, 3, 4, 0, 1, 2, 3, 4]"

text \<open>
  Lines 610--625, one iteration per \<open>i in range(remaining)\<close>: a pid-706 slot is skipped
  before any draw; otherwise the first free jersey, a generated player for position
  \<open>positions[i % 10]\<close>, and \<open>update_player\<close> on the slot.
\<close>

fun fill_slots :: "string \<Rightarrow> nat \<Rightarrow> json list \<Rightarrow> nat list \<Rightarrow> json list \<Rightarrow> json list prog" where
  "fill_slots q n used [] roster = pure (Inr roster)"
| "fill_slots q n used (i # is) roster =
     pbind (pure (if n + i < length roster
                  then py_bind (py_get (roster ! (n + i)) ''pid'' JNull) (\<lambda>pid. Inr (py_eq_int pid 706))
                  else Inr False)) (\<lambda>skip.
     if skip then fill_slots q n used is roster
     else (case first_free used of
       None \<Rightarrow> diverge
     | Some j \<Rightarrow>
         pbind (generate_realistic_player (positions10 ! (i mod length positions10)) (int j) q) (\<lambda>rp.
         pbind (if n + i < length roster
                then pbind (pure (update_player (roster ! (n + i)) rp)) (\<lambda>u. pure (Inr (roster[n + i := u])))
                else pure (Inr roster)) (\<lambda>roster'.
         fill_slots q n (used @ [JInt (int j)]) is roster'))))"

definition patch_curated :: "string \<Rightarrow> json list \<Rightarrow> json list \<Rightarrow> json list prog" where
  "patch_curated q reals roster =
     pbind (pure (apply_curated 0 reals roster)) (\<lambda>r1.
     if length reals < length roster then
       pbind (pure (num_set (take (length reals) r1))) (\<lambda>used.
       fill_slots q (length reals) used [0..<length roster - length reals] r1)
     else pure (Inr r1))"

section \<open>Generated teams (lines 627--661)\<close>

text \<open>Lines 631--632: \<open>(base_positions * (n // 10 + 1))[:n]\<close>, shuffled.\<close>

definition gen_positions :: "nat \<Rightarrow> int list" where
  "gen_positions n = take n (concat (replicate (n div 10 + 1) [0, 0, 1, 1, 2, 2, 3, 3, 4, 4]))"

fun gen_roster :: "string \<Rightarrow> int list \<Rightarrow> nat list \<Rightarrow> nat \<Rightarrow> json list \<Rightarrow> json list prog" where
  "gen_roster q pos used i [] = pure (Inr [])"
| "gen_roster q pos used i (p # ps) =
     pbind (pure (py_copy p)) (\<lambda>_.
     case probe30 used i of
       None \<Rightarrow> diverge
     | Some j \<Rightarrow>
         pbind (generate_realistic_player (if i < length pos then pos ! i else int (i mod 5)) (int j) q) (\<lambda>rp.
         pbind (pure (update_player p rp)) (\<lambda>u.
         pbind (gen_roster q pos (used @ [j]) (Suc i) ps) (\<lambda>us. pure (Inr (u # us))))))"

definition patch_generated :: "string \<Rightarrow> json list \<Rightarrow> json list prog" where
  "patch_generated q roster =
     pbind (lift (shuffle (gen_positions (length roster)))) (\<lambda>pos. gen_roster q pos [] 0 roster)"

section \<open>The pass (lines 569--664)\<close>

text \<open>The curated table the pass reads: \<open>REAL_ROSTERS\<close> after the loader.\<close>

type_synonym roster_table = dict

definition curated_table :: roster_table where
  "curated_table = map (\<lambda>(k, r). (k, JList r)) REAL_ROSTERS"

definition quality_of :: "string \<Rightarrow> string" where
  "quality_of name = (case map_of TEAM_QUALITY name of Some q \<Rightarrow> q | None \<Rightarrow> ''average'')"

text \<open>
  Lines 573--661 for one team: teams without a truthy roster are skipped; a roster other
  than a list fails where Python fails on it (\<open>len\<close>, indexing, or \<open>.copy()\<close> of
  a key or character), after the shuffle on the generated branch.
\<close>

definition patch_team :: "roster_table \<Rightarrow> json \<Rightarrow> json prog" where
  "patch_team table t = (case t of
     JDict d \<Rightarrow>
       let name = team_name d; roster = dict_get d ''roster'' JNull in
       if \<not> dict_has d ''roster'' \<or> \<not> py_truthy roster then pure (Inr t)
       else
         let reals = dict_get table name (JList []); q = quality_of name in
         pbind (pure (py_len roster)) (\<lambda>size.
         if py_truthy reals then
           pbind (pure (py_iter reals)) (\<lambda>rps.
           case roster of
             JList xs \<Rightarrow> pbind (patch_curated q rps xs) (\<lambda>xs'.
                          pure (Inr (JDict (dict_set d ''roster'' (JList xs')))))
           | JDict _ \<Rightarrow> pure (Inl KeyError)
           | _ \<Rightarrow> pure (Inl AttributeError))
         else
           case roster of
             JList xs \<Rightarrow> pbind (patch_generated q xs) (\<lambda>xs'.
                          pure (Inr (JDict (dict_set d ''roster'' (JList xs')))))
           | _ \<Rightarrow> pbind (lift (shuffle (gen_positions size))) (\<lambda>_. pure (Inl AttributeError)))
   | _ \<Rightarrow> pure (Inl AttributeError))"

fun patch_teams :: "roster_table \<Rightarrow> json list \<Rightarrow> json list prog" where
  "patch_teams table [] = pure (Inr [])"
| "patch_teams table (t # ts) =
     pbind (patch_team table t) (\<lambda>t'. pbind (patch_teams table ts) (\<lambda>ts'. pure (Inr (t' # ts'))))"

text \<open>A container iterated and changed in place: rebuilt only when it is a list.\<close>

definition write_back :: "json \<Rightarrow> json list \<Rightarrow> json" where
  "write_back c xs = (case c of JList _ \<Rightarrow> JList xs | _ \<Rightarrow> c)"

fun patch_leagues :: "roster_table \<Rightarrow> json list \<Rightarrow> json list prog" where
  "patch_leagues table [] = pure (Inr [])"
| "patch_leagues table (l # ls) =
     pbind (case l of
         JDict d \<Rightarrow>
           if is_college d \<and> dict_has d ''teams'' then
             pbind (pure (py_iter (dict_get d ''teams'' JNull))) (\<lambda>ts.
             pbind (patch_teams table ts) (\<lambda>ts'.
             pure (Inr (JDict (dict_set d ''teams'' (write_back (dict_get d ''teams'' JNull) ts'))))))
           else pure (Inr l)
       | _ \<Rightarrow> pure (Inl AttributeError)) (\<lambda>l'.
     pbind (patch_leagues table ls) (\<lambda>ls'. pure (Inr (l' # ls'))))"

definition patch_pass :: "roster_table \<Rightarrow> json \<Rightarrow> json prog" where
  "patch_pass table data =
     pbind (pure (py_index data ''seasonLeagues'')) (\<lambda>lsj.
     pbind (pure (py_iter lsj)) (\<lambda>ls.
     pbind (patch_leagues table ls) (\<lambda>ls'.
     case data of
       JDict d \<Rightarrow> pure (Inr (JDict (dict_set d ''seasonLeagues'' (write_back lsj ls'))))
     | _ \<Rightarrow> pure (Inr data))))"

section \<open>The shape of the document\<close>

text \<open>
  What the pass must not change: the number of leagues, of teams per league, and of
  players per roster (\<open>None\<close> where a team has no list roster).
\<close>

fun roster_size :: "json \<Rightarrow> nat option" where
  "roster_size (JDict d) = (case dict_get d ''roster'' JNull of JList xs \<Rightarrow> Some (length xs) | _ \<Rightarrow> None)"
| "roster_size _ = None"

fun league_sizes :: "json \<Rightarrow> nat option list" where
  "league_sizes (JDict d) = (case dict_get d ''teams'' JNull of JList ts \<Rightarrow> map roster_size ts | _ \<Rightarrow> [])"
| "league_sizes _ = []"

fun doc_sizes :: "json \<Rightarrow> nat option list list" where
  "doc_sizes (JDict d) = (case dict_get d ''seasonLeagues'' JNull of JList ls \<Rightarrow> map league_sizes ls | _ \<Rightarrow> [])"
| "doc_sizes _ = []"

text \<open>An example table: two curated records for the home team.\<close>

abbreviation wt_table :: roster_table where
  "wt_table \<equiv> [(''North Carolina Tar Heels'', JList
     [JDict [(''first_name'', JStr ''Ian''), (''jersey'', JInt 3)],
      JDict [(''first_name'', JStr ''Seth''), (''jersey'', JInt 5)]])]"

section \<open>Lemmas\<close>

subsection \<open>Generated slots and teams\<close>

lemma has_maxed_attrs_dict: "dict_get d ''attributes'' (JDict []) = JDict a \<Longrightarrow> \<exists>m. has_maxed_attrs d = Inr m"
  by (cases a) (auto simp: has_maxed_attrs_def)

lemma stats_attributes_record:
  "\<exists>attrs. stats_attributes (JDict [(''ppg'', JFloat a1), (''rpg'', JFloat a2), (''apg'', JFloat a3),
     (''fg_pct'', JFloat a4), (''three_pct'', JFloat a5), (''ft_pct'', JFloat a6), (''spg'', JFloat a7),
     (''bpg'', JFloat a8)]) = Inr attrs"
  by (simp add: stats_attributes_def dict_get_def calculate_attributes_numeric)

lemma update_player_record_ok:
  assumes at: "dict_get d ''attributes'' (JDict []) = JDict a"
  shows "\<exists>u. update_player (JDict d) (player_record fname lname pos j h w age r a1 a2 a3 a4 a5 a6 a7 a8) = Inr u"
proof -
  obtain m where m: "has_maxed_attrs d = Inr m" using has_maxed_attrs_dict [OF at] by blast
  show ?thesis
  proof (cases "is_career_player d \<or> m")
    case True
    with m show ?thesis by (simp add: update_player_def)
  next
    case False
    define rd where "rd = player_record fname lname pos j h w age r a1 a2 a3 a4 a5 a6 a7 a8"
    obtain rr where rr: "rd = JDict rr" by (simp add: rd_def player_record_def)
    let ?p1 = "foldl (copy_step rr) d field_map"
    have has: "dict_has rr ''stats''" using rr by (auto simp: rd_def player_record_def dict_has_def)
    obtain attrs where sa: "stats_attributes (dict_get rr ''stats'' JNull) = Inr attrs"
      using rr stats_attributes_record [of "py_round a1 1" "py_round a2 1" "py_round a3 1" "py_round a4 3"
          "py_round a5 3" "py_round a6 3" "py_round a7 1" "py_round a8 1"]
      by (auto simp: rd_def player_record_def dict_get_def)
    have "dict_get ?p1 ''attributes'' (JDict []) = JDict a"
      by (simp add: dict_get_foldl_copy attributes_not_target at)
    from update_stats_present [OF has sa this] obtain p2 where us: "update_stats rd ?p1 = Inr p2"
      using rr by simp
    have cf: "copy_fields rd d field_map = Inr ?p1" using rr by (simp add: copy_fields_dict)
    show ?thesis unfolding rd_def [symmetric] using False m cf us by (simp add: update_player_def)
  qed
qed


lemma generate_is_record:
  "generate_realistic_player position jersey q g = Some (Inr rp, g') \<Longrightarrow>
   \<exists>fname lname h w age r a1 a2 a3 a4 a5 a6 a7 a8.
     rp = player_record fname lname position jersey h w age r a1 a2 a3 a4 a5 a6 a7 a8"
  by (drule generate_trace) blast

text \<open>One generated slot: the draw returns on a top-bit-clear source and the update succeeds.\<close>

lemma generated_slot_ok:
  assumes g: "msb_clear g" and q: "map_of quality_mults q \<noteq> None"
    and pos: "0 \<le> position" "position \<le> 4"
    and at: "dict_get d ''attributes'' (JDict []) = JDict a"
  shows "\<exists>rp g1 u. generate_realistic_player position jersey q g = Some (Inr rp, g1) \<and>
           msb_clear g1 \<and> update_player (JDict d) rp = Inr u"
proof -
  from prog_okD [OF generate_ok [OF q pos] g] obtain rp g1 where
    run: "generate_realistic_player position jersey q g = Some (Inr rp, g1)" and
    w: "rng_words g1 = rng_words g" by blast
  have "msb_clear g1" using g w by (simp add: msb_clear_def)
  moreover from generate_is_record [OF run] update_player_record_ok [OF at]
  obtain u where "update_player (JDict d) rp = Inr u" by blast
  ultimately show ?thesis using run by blast
qed

lemma free_jersey:
  fixes used :: "nat list"
  assumes "distinct used" "set used \<subseteq> {1..30}" "length used < 30"
  shows "\<exists>k \<in> {1..30}. k \<notin> set used"
proof (rule ccontr)
  assume "\<not> ?thesis"
  then have "{1..30} \<subseteq> set used" by auto
  then have "card {1..(30::nat)} \<le> card (set used)" by (intro card_mono) simp_all
  with assms(1,3) show False by (simp add: distinct_card)
qed

lemma full_jerseys:
  fixes used :: "nat list"
  assumes "distinct used" "set used \<subseteq> {1..30}" "30 \<le> length used"
  shows "{1..30} \<subseteq> set used"
proof -
  have "card (set used) = card {1..(30::nat)}"
    using assms card_mono [OF _ assms(2)] by (simp add: distinct_card)
  then show ?thesis using card_subset_eq [OF _ assms(2)] by simp
qed

lemma gen_position_ok:
  "set pos \<subseteq> {0..4} \<Longrightarrow> 0 \<le> (if i < length pos then pos ! i else int (i mod 5)) \<and>
     (if i < length pos then pos ! i else int (i mod 5)) \<le> 4"
  by (auto dest: nth_mem)

lemma gen_roster_diverges:
  assumes g: "msb_clear g" and q: "map_of quality_mults q \<noteq> None" and pos: "set pos \<subseteq> {0..4}"
    and ps: "\<forall>p \<in> set ps. \<exists>d a. p = JDict d \<and> dict_get d ''attributes'' (JDict []) = JDict a"
    and used: "distinct used" "set used \<subseteq> {1..30}"
    and long: "30 < length used + length ps"
  shows "gen_roster q pos used i ps g = None"
  using g ps used long
proof (induction ps arbitrary: used i g)
  case Nil
  have "length used \<le> 30" using Nil.prems(3,4) card_mono [of "{1..30}" "set used"]
    by (simp add: distinct_card)
  with Nil.prems(5) show ?case by simp
next
  case (Cons p ps)
  from Cons.prems(2) obtain d a where p: "p = JDict d" "dict_get d ''attributes'' (JDict []) = JDict a"
    by auto
  show ?case
  proof (cases "30 \<le> length used")
    case True
    with Cons.prems(3,4) have "probe30 used i = None" by (intro probe30_diverges full_jerseys)
    then show ?thesis using p by (simp add: diverge_def)
  next
    case False
    with Cons.prems(3,4) obtain k where "k \<in> {1..30}" "k \<notin> set used"
      using free_jersey by (meson not_le)
    then obtain j where j: "probe30 used i = Some j" "j \<in> {1..30}" "j \<notin> set used"
      using probe30_terminates by blast
    from generated_slot_ok [OF Cons.prems(1) q gen_position_ok [OF pos, THEN conjunct1]
        gen_position_ok [OF pos, THEN conjunct2] p(2), of i "int j"]
    obtain rp g1 u where run: "generate_realistic_player (if i < length pos then pos ! i else int (i mod 5)) (int j) q g
        = Some (Inr rp, g1)" and g1: "msb_clear g1" and u: "update_player (JDict d) rp = Inr u"
      by blast
    have "gen_roster q pos (used @ [j]) (Suc i) ps g1 = None"
      using g1 Cons.prems(2,3,4,5) j by (intro Cons.IH) auto
    then show ?thesis using p j run u by (simp add: pbind_def pure_def)
  qed
qed

lemma gen_roster_returns:
  assumes g: "msb_clear g" and q: "map_of quality_mults q \<noteq> None" and pos: "set pos \<subseteq> {0..4}"
    and ps: "\<forall>p \<in> set ps. \<exists>d a. p = JDict d \<and> dict_get d ''attributes'' (JDict []) = JDict a"
    and used: "distinct used" "set used \<subseteq> {1..30}"
    and short: "length used + length ps \<le> 30"
  shows "\<exists>us g'. gen_roster q pos used i ps g = Some (Inr us, g') \<and> length us = length ps"
  using g ps used short
proof (induction ps arbitrary: used i g)
  case Nil
  then show ?case by simp
next
  case (Cons p ps)
  from Cons.prems(2) obtain d a where p: "p = JDict d" "dict_get d ''attributes'' (JDict []) = JDict a"
    by auto
  from Cons.prems(5) have "length used < 30" by simp
  with Cons.prems(3,4) obtain k where "k \<in> {1..30}" "k \<notin> set used"
    using free_jersey by blast
  then obtain j where j: "probe30 used i = Some j" "j \<in> {1..30}" "j \<notin> set used"
    using probe30_terminates by blast
  from generated_slot_ok [OF Cons.prems(1) q gen_position_ok [OF pos, THEN conjunct1]
      gen_position_ok [OF pos, THEN conjunct2] p(2), of i "int j"]
  obtain rp g1 u where run: "generate_realistic_player (if i < length pos then pos ! i else int (i mod 5)) (int j) q g
      = Some (Inr rp, g1)" and g1: "msb_clear g1" and u: "update_player (JDict d) rp = Inr u"
    by blast
  obtain us g' where rest: "gen_roster q pos (used @ [j]) (Suc i) ps g1 = Some (Inr us, g')" "length us = length ps"
    using g1 Cons.prems(2,3,4,5) j Cons.IH [of g1 "used @ [j]" "Suc i"] by auto
  then show ?case using p j run u by (simp add: pbind_def pure_def)
qed


lemma set_concat_replicate: "set (concat (replicate m xs)) \<subseteq> set xs"
  by (induction m) auto

lemma set_gen_positions: "set (gen_positions n) \<subseteq> {0..4}"
proof -
  have "set (gen_positions n) \<subseteq> set [0, 0, 1, 1, 2, 2, 3, 3, 4, 4 :: int]"
    unfolding gen_positions_def by (rule order_trans [OF set_take_subset set_concat_replicate])
  then show ?thesis by auto
qed

lemma shuffle_positions:
  assumes "msb_clear g" and n: "n < 2 ^ 32"
  shows "\<exists>pos g1. shuffle (gen_positions n) g = Some (pos, g1) \<and> msb_clear g1 \<and> set pos \<subseteq> {0..4}"
proof -
  let ?xs = "gen_positions n"
  have "length ?xs \<le> n" by (simp add: gen_positions_def)
  with n have "Suc (length ?xs - 1) < 2 ^ 32" by (cases "length ?xs") auto
  from rand_totalD [OF shuffle_from_total [OF this, of ?xs] assms(1)] obtain pos g1 where
    run: "shuffle ?xs g = Some (pos, g1)" and w: "rng_words g1 = rng_words g"
    by (auto simp: shuffle_def)
  have "set pos = set ?xs"
  proof (cases "?xs = []")
    case True
    with run show ?thesis by (simp add: shuffle_def)
  next
    case False
    then have "length ?xs - 1 < length ?xs" by simp
    from shuffle_from_mset [OF run [unfolded shuffle_def] this] show ?thesis
      by (metis set_mset_mset)
  qed
  with run w assms(1) set_gen_positions show ?thesis by (auto simp: msb_clear_def)
qed

lemma quality_tiers: "map_of quality_mults (quality_of name) \<noteq> None"
proof -
  have tiers: "\<forall>(k, v) \<in> set TEAM_QUALITY. v \<in> fst ` set quality_mults"
    by (simp add: TEAM_QUALITY_def quality_mults_def)
  have "quality_of name \<in> fst ` set quality_mults"
  proof (cases "map_of TEAM_QUALITY name")
    case None
    then show ?thesis by (simp add: quality_of_def quality_mults_def)
  next
    case (Some v)
    with tiers show ?thesis by (auto simp: quality_of_def dest: map_of_SomeD)
  qed
  then show ?thesis unfolding map_of_eq_None_iff by simp
qed

lemma patch_team_generated:
  assumes t: "t = JDict d" and r: "dict_get d ''roster'' JNull = JList xs" "xs \<noteq> []"
    and nc: "map_of REAL_ROSTERS (team_name d) = None"
  shows "patch_team curated_table t =
           pbind (patch_generated (quality_of (team_name d)) xs) (\<lambda>xs'.
             pure (Inr (JDict (dict_set d ''roster'' (JList xs')))))"
proof -
  have "dict_has d ''roster''" using r
    by (auto simp: dict_has_def dict_get_def split: option.splits dest: map_of_SomeD intro: rev_image_eqI)
  moreover have "dict_get curated_table (team_name d) (JList []) = JList []"
    using nc by (simp add: curated_table_def dict_get_def map_of_map)
  ultimately show ?thesis using t r by (simp add: patch_team_def Let_def)
qed


lemma apply_curated_slots:
  assumes "apply_curated k rps xs = Inr ys"
  shows "length ys = length xs \<and>
         (\<forall>i. k \<le> i \<longrightarrow> i < k + length rps \<longrightarrow> i < length xs \<longrightarrow> update_player (xs ! i) (rps ! (i - k)) = Inr (ys ! i)) \<and>
         (\<forall>i. (i < k \<or> k + length rps \<le> i) \<longrightarrow> i < length xs \<longrightarrow> ys ! i = xs ! i)"
  using assms
proof (induction k rps xs rule: apply_curated.induct)
  case (1 i roster)
  then show ?case by simp
next
  case (2 i rp rps roster)
  show ?case
  proof (cases "i < length roster")
    case True
    with "2.prems" obtain u where u: "update_player (roster ! i) rp = Inr u"
      and rest: "apply_curated (Suc i) rps (roster[i := u]) = Inr ys"
      by (auto simp: py_bind_eq_Inr)
    from "2.IH"(1) [OF True rest] have ih:
      "length ys = length roster \<and>
       (\<forall>j. Suc i \<le> j \<longrightarrow> j < Suc i + length rps \<longrightarrow> j < length roster \<longrightarrow>
            update_player (roster[i := u] ! j) (rps ! (j - Suc i)) = Inr (ys ! j)) \<and>
       (\<forall>j. (j < Suc i \<or> Suc i + length rps \<le> j) \<longrightarrow> j < length roster \<longrightarrow> ys ! j = roster[i := u] ! j)"
      using "2.prems" True by (auto simp: py_bind_eq_Inr)
    show ?thesis
    proof (intro conjI allI impI)
      show "length ys = length roster" using ih by simp
    next
      fix j assume j: "i \<le> j" "j < i + length (rp # rps)" "j < length roster"
      show "update_player (roster ! j) ((rp # rps) ! (j - i)) = Inr (ys ! j)"
      proof (cases "j = i")
        case True
        with ih u j show ?thesis by simp
      next
        case False
        with j have "Suc i \<le> j" by simp
        with ih j False show ?thesis by (simp add: nth_Cons')
      qed
    next
      fix j assume j: "j < i \<or> i + length (rp # rps) \<le> j" "j < length roster"
      with ih show "ys ! j = roster ! j" by auto
    qed
  next
    case False
    with "2.prems" have rest: "apply_curated (Suc i) rps roster = Inr ys" by simp
    from "2.IH"(2) [OF False rest] False show ?thesis by auto
  qed
qed


lemma py_round_lower: "of_int k \<le> x * 10 ^ n \<Longrightarrow> of_int k / 10 ^ n \<le> py_round x n"
proof -
  assume k: "of_int k \<le> x * 10 ^ n"
  have "\<lfloor>x * 10 ^ n\<rfloor> \<le> round_half_even (x * 10 ^ n)"
    by (simp add: round_half_even_def Let_def)
  moreover have "k \<le> \<lfloor>x * 10 ^ n\<rfloor>" using k by (simp add: le_floor_iff)
  ultimately have "(of_int k :: real) \<le> of_int (round_half_even (x * 10 ^ n))" by simp
  then show ?thesis by (simp add: py_round_def divide_right_mono)
qed

text \<open>A generated centre has \<open>fg_pct \<ge> 0.50\<close> and \<open>rpg \<ge> 7 \<cdot> 0.95 \<cdot> 0.85\<close>.\<close>

lemma centre_record:
  assumes "generate_realistic_player 4 jersey q g = Some (Inr rp, g')"
  shows "\<exists>fname lname h w age r a1 a2 a3 a4 a5 a6 a7 a8.
           rp = player_record fname lname 4 jersey h w age r a1 a2 a3 a4 a5 a6 a7 a8 \<and>
           56 / 10 \<le> py_round a2 1 \<and> 500 / 1000 \<le> py_round a4 3"
proof -
  from generate_trace [OF assms] obtain qm var xs g2 g3 g4 where
    qv: "map_of quality_mults q = Some qm" "uniform 0.85 1.15 g2 = Some (var, g3)"
    and u: "uniforms (stat_ranges 4) g3 = Some (xs, g4)"
    and rp: "\<exists>fname lname h w age r a1 a3 a5 a6 a7 a8.
       rp = player_record fname lname 4 jersey h w age r a1 (xs ! 2 * qm * var) a3 (xs ! 3) a5 a6 a7 a8"
    by blast
  have r: "\<forall>(a, b) \<in> set (stat_ranges 4). a \<le> b" by (simp add: stat_ranges_def)
  from uniforms_range [OF u r] have "7 \<le> xs ! 2" "0.50 \<le> xs ! 3"
    by (auto simp: stat_ranges_def list_all2_Cons1)
  moreover have "0.95 \<le> qm" using quality_mult_range [OF qv(1)] by simp
  moreover have "0.85 \<le> var" using uniform_range [OF qv(2)] by simp
  ultimately have x: "7 \<le> xs ! 2" "0.50 \<le> xs ! 3" "0.95 \<le> qm" "0.85 \<le> var" by simp_all
  then have "7 * 0.95 \<le> xs ! 2 * qm" by (intro mult_mono) simp_all
  then have "(7 * 0.95) * 0.85 \<le> (xs ! 2 * qm) * var"
    using x by (intro mult_mono [of "7 * 0.95" "xs ! 2 * qm" "0.85" var]) simp_all
  with x have b: "(7 * 0.95) * 0.85 \<le> xs ! 2 * qm * var" "0.50 \<le> xs ! 3" by simp_all
  define y where "y = xs ! 2 * qm * var"
  have "5.6525 \<le> y" using b(1) by (simp add: y_def)
  then have "of_int 56 / 10 ^ 1 \<le> py_round y 1" by (intro py_round_lower) simp
  then have "of_int 56 / 10 ^ 1 \<le> py_round (xs ! 2 * qm * var) 1" by (simp only: y_def)
  moreover have "of_int 500 / 10 ^ 3 \<le> py_round (xs ! 3) 3"
    using b(2) by (intro py_round_lower) simp
  ultimately show ?thesis using rp by fastforce
qed

lemma ins_saturates:
  "56 / 10 \<le> r \<Longrightarrow> 500 / 1000 \<le> fg \<Longrightarrow> attr_values p r a fg t x y z ! 2 = 20"
  by (simp add: attr_values_def Let_def attr_clamp_sat)

lemma update_player_gains_maxed:
  assumes has: "dict_has rr ''stats''" and sa: "stats_attributes (dict_get rr ''stats'' JNull) = Inr A"
    and okA: "dict_ok A" and mx: "map_of A k = Some (attr_pair 20)"
    and at: "dict_get d ''attributes'' (JDict []) = JDict a"
    and free: "has_maxed_attrs d = Inr False" "\<not> is_career_player d"
  shows "\<exists>e. update_player (JDict d) (JDict rr) = Inr (JDict e) \<and> has_maxed_attrs e = Inr True"
proof -
  let ?p1 = "foldl (copy_step rr) d field_map"
  have old: "dict_get ?p1 ''attributes'' (JDict []) = JDict a"
    by (simp add: dict_get_foldl_copy attributes_not_target at)
  define e where "e = merge_stats (dict_set ?p1 ''attributes'' (JDict (dict_update a A)))
                        (dict_get rr ''stats'' JNull)"
  have run: "update_player (JDict d) (JDict rr) = Inr (JDict e)"
    using update_stats_present [OF has sa old] free
    by (simp add: update_player_def copy_fields_dict e_def)
  have hk: "dict_has A k" using map_of_SomeD [OF mx] by (force simp: dict_has_def)
  have "map_of (dict_update a A) k = Some (attr_pair 20)"
    using map_of_dict_update_at [OF okA, of a k] hk mx by simp
  then have mem: "(k, attr_pair 20) \<in> set (dict_update a A)" by (rule map_of_SomeD)
  have "dict_get e ''attributes'' (JDict []) = JDict (dict_update a A)"
    by (simp add: e_def)
  moreover have "list_ex (\<lambda>(k, v). is_maxed_pair v) (dict_update a A)"
    unfolding list_ex_iff by (rule bexI [OF _ mem]) (simp add: attr_pair_def)
  moreover have "dict_update a A \<noteq> []" using mem by auto
  ultimately have "has_maxed_attrs e = Inr True"
    by (simp add: has_maxed_attrs_def)
  with run show ?thesis by blast
qed

lemma update_centre_maxed:
  assumes rb: "56 / 10 \<le> py_round a2 1" and fb: "500 / 1000 \<le> py_round a4 3"
    and at: "dict_get d ''attributes'' (JDict []) = JDict a"
    and free: "has_maxed_attrs d = Inr False" "\<not> is_career_player d"
  shows "\<exists>e. update_player (JDict d) (player_record fname lname pos j h w age r a1 a2 a3 a4 a5 a6 a7 a8) =
               Inr (JDict e) \<and> has_maxed_attrs e = Inr True"
proof -
  obtain rr where rr: "player_record fname lname pos j h w age r a1 a2 a3 a4 a5 a6 a7 a8 = JDict rr"
    by (simp add: player_record_def)
  let ?vs = "attr_values (py_round a1 1) (py_round a2 1) (py_round a3 1) (py_round a4 3) (py_round a5 3)
               (py_int (py_round a6 3 * 20)) (py_int (py_round a7 1 * 10)) (py_int (py_round a8 1 * 10))"
  have has: "dict_has rr ''stats''" using rr by (auto simp: player_record_def dict_has_def)
  have sa: "stats_attributes (dict_get rr ''stats'' JNull) = Inr (attr_dict ?vs)"
    using rr by (auto simp: player_record_def dict_get_def stats_attributes_def calculate_attributes_numeric)
  have len: "length ?vs = 12" by (rule length_attr_values)
  have "map_of (attr_dict ?vs) (attr_keys ! 2) = Some (map attr_pair ?vs ! 2)"
    unfolding attr_dict_def using len by (intro map_of_zip_nth) (simp_all add: attr_keys_def)
  then have ins: "map_of (attr_dict ?vs) ''INS'' = Some (attr_pair 20)"
    using ins_saturates [OF rb fb] len by (simp add: attr_keys_def)
  from update_player_gains_maxed [OF has sa dict_ok_attr_dict [OF len] ins at free] rr
  show ?thesis by simp
qed

subsection \<open>Positions and the wrapping probe\<close>

lemma shuffle_mset: "shuffle xs g = Some (ys, g') \<Longrightarrow> mset ys = mset xs"
  unfolding shuffle_def by (cases xs) (auto dest: shuffle_from_mset)

lemma gen_positions_split:
  "gen_positions n = concat (replicate (n div 10) [0, 0, 1, 1, 2, 2, 3, 3, 4, 4]) @
                     take (n mod 10) [0, 0, 1, 1, 2, 2, 3, 3, 4, 4]"
proof -
  let ?b = "[0, 0, 1, 1, 2, 2, 3, 3, 4, 4 :: int]"
  have len: "length (concat (replicate (n div 10) ?b)) = 10 * (n div 10)"
    by (simp add: length_concat sum_list_replicate)
  have "concat (replicate (n div 10 + 1) ?b) = concat (replicate (n div 10) ?b) @ ?b"
    by (simp add: replicate_append_same [symmetric])
  moreover have "n - 10 * (n div 10) = n mod 10" by (simp add: minus_div_mult_eq_mod [symmetric])
  ultimately show ?thesis
    unfolding gen_positions_def using len by (simp add: take_append)
qed

lemma count_concat_replicate: "count (mset (concat (replicate k xs))) p = k * count (mset xs) p"
  by (induction k) simp_all

lemma count_take_positions:
  assumes "r < 10" "p \<in> {0..4}"
  shows "count (mset (take r [0, 0, 1, 1, 2, 2, 3, 3, 4, 4 :: int])) p = min 2 (r - 2 * nat p)"
proof -
  have "r \<in> set [0..<10]" using assms(1) by simp
  moreover have "p \<in> {0, 1, 2, 3, 4}" using assms(2) by auto
  ultimately show ?thesis by (auto simp: numeral_eq_Suc)
qed

lemma count_gen_positions:
  "p \<in> {0..4} \<Longrightarrow> count (mset (gen_positions n)) p = 2 * (n div 10) + min 2 (n mod 10 - 2 * nat p)"
proof -
  assume p: "p \<in> {0..4}"
  then have "count (mset [0, 0, 1, 1, 2, 2, 3, 3, 4, 4 :: int]) p = 2" by auto
  then show ?thesis
    using count_take_positions [OF _ p, of "n mod 10"]
    by (simp add: gen_positions_split count_concat_replicate)
qed

lemma length_gen_positions: "length (gen_positions n) = n"
proof -
  have "n mod 10 < 10" by simp
  then show ?thesis
    by (simp add: gen_positions_split length_concat sum_list_replicate) presburger
qed

subsection \<open>Curated fill\<close>

lemma positions10_range: "0 \<le> positions10 ! (i mod length positions10) \<and> positions10 ! (i mod length positions10) \<le> 4"
proof -
  have "positions10 ! (i mod length positions10) \<in> set positions10"
    by (rule nth_mem) (simp add: positions10_def)
  then show ?thesis by (auto simp: positions10_def)
qed

lemma fill_slots_returns:
  assumes "msb_clear g" and q: "map_of quality_mults q \<noteq> None" and "distinct is"
    and "\<forall>i \<in> set is. n + i < length roster \<and>
           (\<exists>e a. roster ! (n + i) = JDict e \<and> dict_get e ''attributes'' (JDict []) = JDict a)"
  shows "\<exists>ys g'. fill_slots q n used is roster g = Some (Inr ys, g') \<and> length ys = length roster"
  using assms(1,3,4)
proof (induction "is" arbitrary: used roster g)
  case Nil
  then show ?case by (simp add: pure_def)
next
  case (Cons i "is")
  from Cons.prems(3) obtain e a where
    lt: "n + i < length roster" and slot: "roster ! (n + i) = JDict e"
    and at: "dict_get e ''attributes'' (JDict []) = JDict a" by auto
  show ?case
  proof (cases "py_eq_int (dict_get e ''pid'' JNull) 706")
    case True
    have "\<exists>ys g'. fill_slots q n used is roster g = Some (Inr ys, g') \<and> length ys = length roster"
      using Cons.prems(2,3) by (intro Cons.IH [OF Cons.prems(1)]) auto
    then obtain ys g' where
      "fill_slots q n used is roster g = Some (Inr ys, g')" "length ys = length roster" by blast
    with lt slot True show ?thesis by (simp add: pbind_def pure_def)
  next
    case False
    from first_free_result [of used] obtain j where j: "first_free used = Some j" by blast
    from generated_slot_ok [OF Cons.prems(1) q _ _ at, of "positions10 ! (i mod length positions10)" "int j"]
      positions10_range [of i]
    obtain rp g1 u where
      gen: "generate_realistic_player (positions10 ! (i mod length positions10)) (int j) q g = Some (Inr rp, g1)"
      and g1: "msb_clear g1" and u: "update_player (JDict e) rp = Inr u" by blast
    have rest: "\<forall>i' \<in> set is. n + i' < length (roster[n + i := u]) \<and>
        (\<exists>e a. roster[n + i := u] ! (n + i') = JDict e \<and> dict_get e ''attributes'' (JDict []) = JDict a)"
    proof
      fix i' assume i': "i' \<in> set is"
      then have "n + i' \<noteq> n + i" using Cons.prems(2) by auto
      with i' Cons.prems(3) show "n + i' < length (roster[n + i := u]) \<and>
        (\<exists>e a. roster[n + i := u] ! (n + i') = JDict e \<and> dict_get e ''attributes'' (JDict []) = JDict a)"
        by simp
    qed
    have "\<exists>ys g'. fill_slots q n (used @ [JInt (int j)]) is (roster[n + i := u]) g1 = Some (Inr ys, g') \<and>
        length ys = length (roster[n + i := u])"
      using Cons.prems(2) by (intro Cons.IH [OF g1 _ rest]) auto
    then obtain ys g' where
      "fill_slots q n (used @ [JInt (int j)]) is (roster[n + i := u]) g1 = Some (Inr ys, g')"
      "length ys = length roster" by auto
    with lt slot False j gen u show ?thesis by (simp add: pbind_def pure_def)
  qed
qed

subsection \<open>The shape of the document\<close>

lemma fill_slots_length:
  "fill_slots q n used is roster g = Some (Inr ys, g') \<Longrightarrow> length ys = length roster"
proof (induction "is" arbitrary: used roster g)
  case Nil
  then show ?case by (simp add: pure_def)
next
  case (Cons i "is")
  from pbind_InrD [OF Cons.prems [simplified]] obtain skip g1 where
    s1: "pure (if n + i < length roster
               then py_bind (py_get (roster ! (n + i)) ''pid'' JNull) (\<lambda>pid. Inr (py_eq_int pid 706))
               else Inr False) g = Some (Inr skip, g1)"
    and s2: "(if skip then fill_slots q n used is roster
              else case first_free used of None \<Rightarrow> diverge
                | Some j \<Rightarrow> pbind (generate_realistic_player (positions10 ! (i mod length positions10)) (int j) q)
                    (\<lambda>rp. pbind (if n + i < length roster
                                  then pbind (pure (update_player (roster ! (n + i)) rp)) (\<lambda>u. pure (Inr (roster[n + i := u])))
                                  else pure (Inr roster))
                          (\<lambda>roster'. fill_slots q n (used @ [JInt (int j)]) is roster'))) g1 = Some (Inr ys, g')"
    by blast
  show ?case
  proof (cases skip)
    case True
    with s2 show ?thesis by (auto intro: Cons.IH)
  next
    case False
    with s2 obtain j where j: "first_free used = Some j" by (auto simp: diverge_def split: option.splits)
    with s2 False obtain rp g2 roster' g3 where
      "(if n + i < length roster
        then pbind (pure (update_player (roster ! (n + i)) rp)) (\<lambda>u. pure (Inr (roster[n + i := u])))
        else pure (Inr roster)) g2 = Some (Inr roster', g3)"
      and rec: "fill_slots q n (used @ [JInt (int j)]) is roster' g3 = Some (Inr ys, g')"
      by (auto dest!: pbind_InrD)
    then have "length roster' = length roster"
      by (auto simp: pure_def pbind_def split: if_splits sum.splits)
    with Cons.IH [OF rec] show ?thesis by simp
  qed
qed

lemma gen_roster_length:
  "gen_roster q pos used i ps g = Some (Inr us, g') \<Longrightarrow> length us = length ps"
proof (induction ps arbitrary: used i us g)
  case Nil
  then show ?case by (simp add: pure_def)
next
  case (Cons p ps)
  from Cons.prems obtain j where "probe30 used i = Some j"
    by (auto simp: pbind_def pure_def diverge_def split: option.splits sum.splits)
  with Cons.prems obtain us' g2 where
    rec: "gen_roster q pos (used @ [j]) (Suc i) ps g2 = Some (Inr us', g')" and us: "length us = Suc (length us')"
    by (auto simp: pbind_def pure_def split: option.splits sum.splits)
  from Cons.IH [OF rec] us show ?case by simp
qed

lemma patch_curated_length:
  "patch_curated q reals xs g = Some (Inr ys, g') \<Longrightarrow> length ys = length xs"
  by (auto simp: patch_curated_def pbind_def pure_def split: option.splits sum.splits if_splits
      dest!: apply_curated_slots fill_slots_length)

lemma patch_generated_length:
  "patch_generated q xs g = Some (Inr ys, g') \<Longrightarrow> length ys = length xs"
  by (auto simp: patch_generated_def pbind_def lift_def split: option.splits sum.splits
      dest!: gen_roster_length)

lemma roster_size_set: "roster_size (JDict (dict_set d ''roster'' (JList ys))) = Some (length ys)"
  by (simp add: dict_get_def)

lemma patch_team_size:
  "patch_team table t g = Some (Inr t', g') \<Longrightarrow> roster_size t' = roster_size t"
  by (auto simp: patch_team_def Let_def pbind_def pure_def lift_def roster_size_set dict_get_def
      split: json.splits option.splits sum.splits if_splits
      dest!: patch_curated_length patch_generated_length)

lemma patch_teams_sizes:
  "patch_teams table ts g = Some (Inr ts', g') \<Longrightarrow> map roster_size ts' = map roster_size ts"
proof (induction ts arbitrary: ts' g g')
  case Nil
  then show ?case by (simp add: pure_def)
next
  case (Cons t ts)
  from pbind_InrD [OF Cons.prems [simplified]] obtain t1 g1 where
    h: "patch_team table t g = Some (Inr t1, g1)"
    and r: "pbind (patch_teams table ts) (\<lambda>ts'. pure (Inr (t1 # ts'))) g1 = Some (Inr ts', g')" by blast
  from pbind_InrD [OF r] obtain ts1 g2 where
    r2: "patch_teams table ts g1 = Some (Inr ts1, g2)" and eq: "ts' = t1 # ts1" by (auto simp: pure_def)
  from Cons.IH [OF r2] eq patch_team_size [OF h] show ?case by simp
qed

lemma league_sizes_patched:
  assumes "l = JDict d" "pbind (pure (py_iter (dict_get d ''teams'' JNull))) (\<lambda>ts.
             pbind (patch_teams table ts) (\<lambda>ts'.
             pure (Inr (JDict (dict_set d ''teams'' (write_back (dict_get d ''teams'' JNull) ts')))))) g =
           Some (Inr l', g')"
  shows "league_sizes l' = league_sizes l"
  using assms
  by (auto simp: pbind_def pure_def write_back_def dict_get_def
      split: option.splits sum.splits json.splits dest!: patch_teams_sizes)

lemma patch_leagues_sizes:
  "patch_leagues table ls g = Some (Inr ls', g') \<Longrightarrow> map league_sizes ls' = map league_sizes ls"
proof (induction ls arbitrary: ls' g g')
  case Nil
  then show ?case by (simp add: pure_def)
next
  case (Cons l ls)
  from pbind_InrD [OF Cons.prems [simplified]] obtain l1 g1 where
    h: "(case l of
         JDict d \<Rightarrow>
           if is_college d \<and> dict_has d ''teams'' then
             pbind (pure (py_iter (dict_get d ''teams'' JNull))) (\<lambda>ts.
             pbind (patch_teams table ts) (\<lambda>ts'.
             pure (Inr (JDict (dict_set d ''teams'' (write_back (dict_get d ''teams'' JNull) ts'))))))
           else pure (Inr l)
       | _ \<Rightarrow> pure (Inl AttributeError)) g = Some (Inr l1, g1)"
    and r: "pbind (patch_leagues table ls) (\<lambda>ls'. pure (Inr (l1 # ls'))) g1 = Some (Inr ls', g')" by blast
  have "league_sizes l1 = league_sizes l"
  proof (cases l)
    case (JDict d)
    show ?thesis
    proof (cases "is_college d \<and> dict_has d ''teams''")
      case True
      with h JDict show ?thesis by (intro league_sizes_patched [OF JDict]) simp
    next
      case False
      with h JDict show ?thesis by (simp add: pure_def)
    qed
  qed (insert h, simp_all add: pure_def)
  moreover from pbind_InrD [OF r] obtain ls1 g2 where
    r2: "patch_leagues table ls g1 = Some (Inr ls1, g2)" and "ls' = l1 # ls1" by (auto simp: pure_def)
  ultimately show ?case using Cons.IH [OF r2] by simp
qed

section \<open>Claims\<close>

text \<open>
  C21. Table consistency: every tier the pass hands to the generator (a value of
  \<open>TEAM_QUALITY\<close>, or the default \<open>"average"\<close>) is a key of the generator's
  multiplier table, so the lookup of line 60 never raises \<open>KeyError\<close> in the pass.
\<close>

theorem team_quality_known: "map_of quality_mults (quality_of name) \<noteq> None"
  by (rule quality_tiers)

text \<open>
  C22. Termination of a generated team: for a team without curated data whose roster is
  a non-empty list of at most 30 player dicts (with dict or absent \<open>attributes\<close>), the
  pass over the team returns, on a source with top-bit-clear words, with a roster of the
  same length.
\<close>

theorem patch_team_generated_terminates:
  assumes g: "msb_clear g" and t: "t = JDict d"
    and r: "dict_get d ''roster'' JNull = JList xs" "xs \<noteq> []" "length xs \<le> 30"
    and nc: "map_of REAL_ROSTERS (team_name d) = None"
    and ps: "\<forall>p \<in> set xs. \<exists>e a. p = JDict e \<and> dict_get e ''attributes'' (JDict []) = JDict a"
  shows "\<exists>ys g'. patch_team curated_table t g = Some (Inr (JDict (dict_set d ''roster'' (JList ys))), g') \<and>
           length ys = length xs"
proof -
  let ?q = "quality_of (team_name d)"
  from shuffle_positions [OF g, of "length xs"] r(3) obtain pos g1 where
    sh: "shuffle (gen_positions (length xs)) g = Some (pos, g1)" "msb_clear g1" "set pos \<subseteq> {0..4}"
    by auto
  from gen_roster_returns [OF sh(2) quality_tiers [of "team_name d"] sh(3) ps, where used = "[]" and i = 0] r(3) obtain us g' where
    gr: "gen_roster ?q pos [] 0 xs g1 = Some (Inr us, g')" "length us = length xs"
    by auto
  show ?thesis
    unfolding patch_team_generated [OF t r(1,2) nc] patch_generated_def
    using sh(1) gr by (auto simp: pbind_def lift_def pure_def)
qed

theorem patch_team_generated_terminates_witness:
  "\<exists>ys g'. patch_team curated_table
      (JDict [(''city'', JStr ''Kansas''), (''name'', JStr ''Jayhawks''),
              (''roster'', JList [JDict [(''pid'', JInt 1)], JDict [(''pid'', JInt 2)]])]) mid_source =
    Some (Inr (JDict (dict_set [(''city'', JStr ''Kansas''), (''name'', JStr ''Jayhawks''),
              (''roster'', JList [JDict [(''pid'', JInt 1)], JDict [(''pid'', JInt 2)]])] ''roster'' (JList ys))), g') \<and>
    length ys = 2"
proof -
  have nc: "map_of REAL_ROSTERS (team_name [(''city'', JStr ''Kansas''), (''name'', JStr ''Jayhawks''),
              (''roster'', JList [JDict [(''pid'', JInt 1)], JDict [(''pid'', JInt 2)]])]) = None"
    by code_simp
  show ?thesis
    using patch_team_generated_terminates [OF mid_source_msb refl _ _ _ nc]
    by (simp add: dict_get_def numeral_2_eq_2)
qed

text \<open>
  C23. Non-termination of a generated team (lines 641--644): the probe cycles through
  jerseys 1--30 only, so once thirty are taken it never ends. A team without curated data
  whose roster has more than 30 player dicts makes the pass run forever, even on a source
  on which every random draw returns.
\<close>

theorem patch_team_generated_diverges:
  assumes g: "msb_clear g" and t: "t = JDict d"
    and r: "dict_get d ''roster'' JNull = JList xs" "30 < length xs" "length xs < 2 ^ 32"
    and nc: "map_of REAL_ROSTERS (team_name d) = None"
    and ps: "\<forall>p \<in> set xs. \<exists>e a. p = JDict e \<and> dict_get e ''attributes'' (JDict []) = JDict a"
  shows "patch_team curated_table t g = None"
proof -
  let ?q = "quality_of (team_name d)"
  have ne: "xs \<noteq> []" using r(2) by auto
  from shuffle_positions [OF g r(3)] obtain pos g1 where
    sh: "shuffle (gen_positions (length xs)) g = Some (pos, g1)" "msb_clear g1" "set pos \<subseteq> {0..4}"
    by auto
  have "gen_roster ?q pos [] 0 xs g1 = None"
    using r(2) by (intro gen_roster_diverges [OF sh(2) quality_tiers [of "team_name d"] sh(3) ps]) simp_all
  then show ?thesis
    unfolding patch_team_generated [OF t r(1) ne nc] patch_generated_def
    using sh(1) by (simp add: pbind_def lift_def)
qed

theorem patch_team_generated_diverges_witness:
  "patch_team curated_table
      (JDict [(''city'', JStr ''Kansas''), (''name'', JStr ''Jayhawks''),
              (''roster'', JList (replicate 31 (JDict [(''pid'', JInt 1)])))]) mid_source = None"
proof -
  have nc: "map_of REAL_ROSTERS (team_name [(''city'', JStr ''Kansas''), (''name'', JStr ''Jayhawks''),
              (''roster'', JList (replicate 31 (JDict [(''pid'', JInt 1)])))]) = None"
    by code_simp
  show ?thesis
    using patch_team_generated_diverges [OF mid_source_msb refl _ _ _ nc]
    by (simp add: dict_get_def)
qed

text \<open>
  C24. Curated slots (lines 586--600): when the curated pass returns, slot \<open>i\<close> holds what
  \<open>update_player\<close> made of the old slot \<open>i\<close> and curated record \<open>i\<close>, for every index
  below both lengths, and every later slot is unchanged; the roster keeps its length.
\<close>

theorem apply_curated_assigns:
  assumes "apply_curated 0 rps xs = Inr ys"
  shows "length ys = length xs \<and>
         (\<forall>i. i < length rps \<longrightarrow> i < length xs \<longrightarrow> update_player (xs ! i) (rps ! i) = Inr (ys ! i)) \<and>
         (\<forall>i. length rps \<le> i \<longrightarrow> i < length xs \<longrightarrow> ys ! i = xs ! i)"
  using apply_curated_slots [OF assms] by simp

theorem apply_curated_assigns_witness:
  "apply_curated 0 [JDict [(''first_name'', JStr ''Cooper'')]] [JDict [(''pid'', JInt 3)], JDict [(''pid'', JInt 4)]]
     = Inr [JDict [(''pid'', JInt 3), (''fn'', JStr ''Cooper'')], JDict [(''pid'', JInt 4)]] \<and>
   update_player (JDict [(''pid'', JInt 3)]) (JDict [(''first_name'', JStr ''Cooper'')]) =
     Inr (JDict [(''pid'', JInt 3), (''fn'', JStr ''Cooper'')])"
proof -
  have run: "apply_curated 0 [JDict [(''first_name'', JStr ''Cooper'')]] [JDict [(''pid'', JInt 3)], JDict [(''pid'', JInt 4)]]
     = Inr [JDict [(''pid'', JInt 3), (''fn'', JStr ''Cooper'')], JDict [(''pid'', JInt 4)]]"
    by code_simp
  from apply_curated_assigns [OF run] run show ?thesis by auto
qed

text \<open>
  C26. Generated centres become protected: a generated centre has \<open>fg_pct \<ge> 0.50\<close> and
  \<open>rpg \<ge> 5.6\<close> after rounding, so \<open>INS = int(fg_pct * 35 + rpg * 0.8) \<ge> 21\<close> clamps to
  20. Any unprotected placeholder the record is applied to leaves \<open>update_player\<close> with
  an attribute \<open>[20, 20]\<close>, and every later run of the script treats it as the career
  player and never updates it again, although the spec allows exactly one protected
  record.
\<close>

theorem generated_centre_protected:
  assumes gen: "generate_realistic_player 4 jersey q g = Some (Inr rp, g')"
    and at: "dict_get d ''attributes'' (JDict []) = JDict a"
    and free: "has_maxed_attrs d = Inr False" "\<not> is_career_player d"
  shows "\<exists>e. update_player (JDict d) rp = Inr (JDict e) \<and> has_maxed_attrs e = Inr True"
  using centre_record [OF gen] update_centre_maxed [OF _ _ at free] by blast

theorem generated_centre_protected_witness:
  "\<exists>rp g' e. generate_realistic_player 4 7 ''average'' mid_source = Some (Inr rp, g') \<and>
     update_player (JDict [(''pid'', JInt 9)]) rp = Inr (JDict e) \<and> has_maxed_attrs e = Inr True"
proof -
  have ok: "prog_ok (generate_realistic_player 4 7 ''average'')"
    by (rule generate_ok) (simp_all add: quality_mults_def)
  obtain rp g' where run: "generate_realistic_player 4 7 ''average'' mid_source = Some (Inr rp, g')"
    using prog_okD [OF ok mid_source_msb] by blast
  have "\<not> is_career_player [(''pid'', JInt 9)]" by code_simp
  then obtain e where "update_player (JDict [(''pid'', JInt 9)]) rp = Inr (JDict e)" "has_maxed_attrs e = Inr True"
    using generated_centre_protected [OF run, of "[(''pid'', JInt 9)]" "[]"]
    by (auto simp: dict_get_def has_maxed_attrs_def)
  with run show ?thesis by blast
qed

text \<open>
  C33. Balanced positions (lines 631--636): the shuffled positions of a generated team of
  \<open>n\<close> players are \<open>n\<close> positions in 0--4, each occurring \<open>2 * (n // 10)\<close> times plus
  its share of the first \<open>n % 10\<close> entries of \<open>[0, 0, 1, 1, 2, 2, 3, 3, 4, 4]\<close>, as
  the spec's "balanced position distribution" requires.
\<close>

theorem generated_positions_balanced:
  assumes "shuffle (gen_positions n) g = Some (pos, g')"
  shows "length pos = n \<and> set pos \<subseteq> {0..4} \<and>
         (\<forall>p \<in> {0..4}. count (mset pos) p = 2 * (n div 10) + min 2 (n mod 10 - 2 * nat p))"
proof -
  have m: "mset pos = mset (gen_positions n)" by (rule shuffle_mset [OF assms])
  then have "length pos = n" by (metis size_mset length_gen_positions)
  moreover have "set pos \<subseteq> {0..4}" using m set_gen_positions by (metis set_mset_mset)
  ultimately show ?thesis using m count_gen_positions by simp
qed

theorem generated_positions_balanced_witness:
  "\<exists>pos g'. shuffle (gen_positions 13) mid_source = Some (pos, g') \<and>
     count (mset pos) 0 = 4 \<and> count (mset pos) 1 = 3 \<and> count (mset pos) 4 = 2"
proof -
  obtain pos g' where sh: "shuffle (gen_positions 13) mid_source = Some (pos, g')"
    using shuffle_positions [OF mid_source_msb, of 13] by auto
  from generated_positions_balanced [OF sh] sh show ?thesis by auto
qed

text \<open>
  C35. Termination of a curated team (lines 583--626): once the curated records are
  applied and the curated jerseys collected, the fill of the remaining slots returns on a
  source with top-bit-clear words, with a roster of the same length, however long the
  roster: the linear probe of lines 617--620 has no cap, unlike the generated branch (C23).
\<close>

theorem patch_curated_terminates:
  assumes g: "msb_clear g" and q: "map_of quality_mults q \<noteq> None"
    and cur: "apply_curated 0 reals xs = Inr r1" and nums: "num_set (take (length reals) r1) = Inr used"
    and ps: "\<forall>p \<in> set xs. \<exists>e a. p = JDict e \<and> dict_get e ''attributes'' (JDict []) = JDict a"
  shows "\<exists>ys g'. patch_curated q reals xs g = Some (Inr ys, g') \<and> length ys = length xs"
proof -
  from apply_curated_slots [OF cur] have len: "length r1 = length xs"
    and keep: "\<forall>i. length reals \<le> i \<longrightarrow> i < length xs \<longrightarrow> r1 ! i = xs ! i" by auto
  show ?thesis
  proof (cases "length reals < length xs")
    case True
    have slots: "\<forall>i \<in> set [0..<length xs - length reals]. length reals + i < length r1 \<and>
        (\<exists>e a. r1 ! (length reals + i) = JDict e \<and> dict_get e ''attributes'' (JDict []) = JDict a)"
      using len keep ps by (auto dest!: nth_mem [of _ xs])
    from fill_slots_returns [OF g q _ slots, of used] obtain ys g' where
      "fill_slots q (length reals) used [0..<length xs - length reals] r1 g = Some (Inr ys, g')"
      "length ys = length r1" by auto
    with True cur nums len show ?thesis by (simp add: patch_curated_def pbind_def pure_def)
  next
    case False
    with cur len show ?thesis by (simp add: patch_curated_def pbind_def pure_def)
  qed
qed

theorem patch_curated_terminates_witness:
  "\<exists>ys g'. patch_curated ''average'' [JDict [(''first_name'', JStr ''Kyan''), (''jersey'', JInt 2)]]
     [JDict [(''pid'', JInt 1)], JDict [(''pid'', JInt 2)], JDict [(''pid'', JInt 3)]] mid_source =
     Some (Inr ys, g') \<and> length ys = 3"
proof -
  have cur: "apply_curated 0 [JDict [(''first_name'', JStr ''Kyan''), (''jersey'', JInt 2)]]
     [JDict [(''pid'', JInt 1)], JDict [(''pid'', JInt 2)], JDict [(''pid'', JInt 3)]] =
     Inr [JDict [(''pid'', JInt 1), (''fn'', JStr ''Kyan''), (''num'', JInt 2)], JDict [(''pid'', JInt 2)],
          JDict [(''pid'', JInt 3)]]"
    by code_simp
  have nums: "num_set (take (length [JDict [(''first_name'', JStr ''Kyan''), (''jersey'', JInt 2)]])
     [JDict [(''pid'', JInt 1), (''fn'', JStr ''Kyan''), (''num'', JInt 2)], JDict [(''pid'', JInt 2)],
      JDict [(''pid'', JInt 3)]]) = Inr [JInt 2]"
    by code_simp
  have q: "map_of quality_mults ''average'' \<noteq> None" by (simp add: quality_mults_def)
  show ?thesis
    using patch_curated_terminates [OF mid_source_msb q cur nums] by (simp add: dict_get_def numeral_3_eq_3)
qed

text \<open>
  C36. Shape invariant of the pass (lines 569--664): when the patch pass returns, the
  document has the same leagues, each league the same teams, and each team a roster of
  the same length: both branches replace players slot by slot and never add or drop one
  (\<open>doc_sizes\<close>).
\<close>

theorem patch_pass_keeps_shape:
  assumes "patch_pass table data g = Some (Inr data', g')"
  shows "doc_sizes data' = doc_sizes data"
  using assms
  by (auto simp: patch_pass_def pbind_def pure_def write_back_def dict_get_def dict_index_def
      split: option.splits sum.splits json.splits dest!: patch_leagues_sizes)

theorem patch_pass_keeps_shape_witness:
  "\<exists>d' g'. patch_pass wt_table (ex_doc [ex_team ''North Carolina'' ''Tar Heels'' [ex_isaac, ex_kyan]]) mid_source
      = Some (Inr d', g') \<and>
    doc_sizes d' = [[Some 2]] \<and> d' \<noteq> ex_doc [ex_team ''North Carolina'' ''Tar Heels'' [ex_isaac, ex_kyan]]"
proof -
  let ?doc = "ex_doc [ex_team ''North Carolina'' ''Tar Heels'' [ex_isaac, ex_kyan]]"
  let ?d' = "ex_doc [ex_team ''North Carolina'' ''Tar Heels''
    [ex_isaac, JDict [(''pid'', JInt 11), (''fn'', JStr ''Seth''), (''ln'', JStr ''Evans''), (''num'', JInt 5)]]]"
  have "map_option fst (patch_pass wt_table ?doc mid_source) = Some (Inr ?d')"
    by code_simp
  then obtain g' where run: "patch_pass wt_table ?doc mid_source = Some (Inr ?d', g')"
    by (cases "patch_pass wt_table ?doc mid_source") auto
  from patch_pass_keeps_shape [OF run] run show ?thesis by (auto simp: dict_get_def)
qed

end
