(* ===== verification/Loader.thy ===== *)
theory Loader
  imports Patch
begin

text \<open>
  The roster loader that runs when the script is imported
  (src/scripts/update_all_rosters.py, lines 302--353): up to three JSON files, read in
  the order SportsDataIO, API-Football, TheSportsDB, add their rosters to
  \<open>REAL_ROSTERS\<close> in place. The whole block is one \<open>try\<close> whose handler is
  \<open>pass\<close>: an exception anywhere keeps the entries added so far and skips the rest of
  the loading. A loop that may raise therefore returns either the final table or the
  exception together with the table as it stood when the exception was raised.
\<close>

section \<open>Files and exceptions that keep the state\<close>

text \<open>
  A file as the loader sees it: absent (\<open>os.path.exists\<close> is false), present but
  failing in \<open>open\<close> or \<open>json.load\<close> (a decode error, an \<open>OSError\<close>: the handler
  swallows any of them alike), or parsed to a JSON value.
\<close>

datatype source_file = Absent | Unreadable | Parsed json

type_synonym load_result = "(py_error \<times> roster_table) + roster_table"

text \<open>Continue with the table when no exception was raised.\<close>

definition load_then :: "load_result \<Rightarrow> (roster_table \<Rightarrow> load_result) \<Rightarrow> load_result" where
  "load_then r k = (case r of Inl et \<Rightarrow> Inl et | Inr t \<Rightarrow> k t)"

text \<open>Lines 351--353: \<open>except Exception: pass\<close>.\<close>

fun swallow :: "load_result \<Rightarrow> roster_table" where
  "swallow (Inl (e, t)) = t"
| "swallow (Inr t) = t"

section \<open>The three loops\<close>

text \<open>
  Lines 314--317 (SportsDataIO): \<open>if roster and len(roster) > 0\<close>, then the roster
  replaces any entry. \<open>len\<close> of a truthy number or bool raises \<open>TypeError\<close>.
\<close>

fun load_primary :: "roster_table \<Rightarrow> dict \<Rightarrow> load_result" where
  "load_primary t [] = Inr t"
| "load_primary t ((k, r) # items) =
     (if \<not> py_truthy r then load_primary t items
      else case py_len r of
        Inl e \<Rightarrow> Inl (e, t)
      | Inr n \<Rightarrow> if 0 < n then load_primary (dict_set t k r) items else load_primary t items)"

text \<open>
  Lines 327--331 (API-Football): as above, but only for a team not already in the table;
  the membership test comes first.
\<close>

fun load_secondary :: "roster_table \<Rightarrow> dict \<Rightarrow> load_result" where
  "load_secondary t [] = Inr t"
| "load_secondary t ((k, r) # items) =
     (if dict_has t k \<or> \<not> py_truthy r then load_secondary t items
      else case py_len r of
        Inl e \<Rightarrow> Inl (e, t)
      | Inr n \<Rightarrow> if 0 < n then load_secondary (dict_set t k r) items else load_secondary t items)"

text \<open>
  Line 345: \<open>[p for p in roster if p.get('age', 0) < 40 and p.get('first_name') != 'Jay']\<close>.
  An element without \<open>get\<close> raises \<open>AttributeError\<close>, an age that is not a number
  raises \<open>TypeError\<close> at \<open><\<close>; a string compares unequal to anything but a string.
\<close>

fun valid_players :: "json list \<Rightarrow> json list py_result" where
  "valid_players [] = Inr []"
| "valid_players (p # ps) =
     py_bind (py_get p ''age'' (JInt 0)) (\<lambda>age.
     py_bind (py_num age) (\<lambda>a.
     py_bind (if a < 40 then py_bind (py_get p ''first_name'' JNull) (\<lambda>fn. Inr (fn \<noteq> JStr ''Jay''))
              else Inr False) (\<lambda>keep.
     py_bind (valid_players ps) (\<lambda>vs. Inr (if keep then p # vs else vs)))))"

text \<open>
  Lines 341--348 (TheSportsDB): a new team with a truthy roster gets the filtered roster
  when that is not empty.
\<close>

fun load_tertiary :: "roster_table \<Rightarrow> dict \<Rightarrow> load_result" where
  "load_tertiary t [] = Inr t"
| "load_tertiary t ((k, r) # items) =
     (if dict_has t k \<or> \<not> py_truthy r then load_tertiary t items
      else case py_bind (py_len r) (\<lambda>n. if 0 < n then py_bind (py_iter r) valid_players else Inr [])
      of
        Inl e \<Rightarrow> Inl (e, t)
      | Inr vs \<Rightarrow> if vs \<noteq> [] then load_tertiary (dict_set t k (JList vs)) items else load_tertiary t items)"

section \<open>The loader\<close>

text \<open>
  One file (lines 310--312, 323--325, 337--339): skipped when absent; \<open>.items()\<close> of a
  parsed value that is not an object raises \<open>AttributeError\<close>.
\<close>

definition load_file :: "(roster_table \<Rightarrow> dict \<Rightarrow> load_result) \<Rightarrow> source_file \<Rightarrow> roster_table \<Rightarrow> load_result" where
  "load_file loop f t = (case f of
       Absent \<Rightarrow> Inr t
     | Unreadable \<Rightarrow> Inl (ValueError, t)
     | Parsed (JDict items) \<Rightarrow> loop t items
     | Parsed _ \<Rightarrow> Inl (AttributeError, t))"

definition load_rosters_from :: "roster_table \<Rightarrow> source_file \<Rightarrow> source_file \<Rightarrow> source_file \<Rightarrow> roster_table" where
  "load_rosters_from t0 sdio apif tsdb =
     swallow (load_then (load_file load_primary sdio t0) (\<lambda>t1.
              load_then (load_file load_secondary apif t1) (\<lambda>t2.
              load_file load_tertiary tsdb t2)))"

text \<open>\<open>REAL_ROSTERS\<close> as the patch pass reads it.\<close>

definition load_rosters :: "source_file \<Rightarrow> source_file \<Rightarrow> source_file \<Rightarrow> roster_table" where
  "load_rosters sdio apif tsdb = load_rosters_from curated_table sdio apif tsdb"

section \<open>What the loader promises\<close>

text \<open>
  The abstract contract of a run without exceptions: a table that maps each team to the
  roster of the source with the highest priority that has one. \<open>truthy_items\<close> are the
  entries the first two loops accept; \<open>tsdb_accepted\<close> the TheSportsDB entries with
  their filtered, non-empty rosters. The later of two equal keys wins in SportsDataIO
  (assignment overwrites), the earlier one in the other files (the key is then present).
\<close>

definition truthy_items :: "dict \<Rightarrow> dict" where
  "truthy_items d = filter (\<lambda>(k, r). py_truthy r) d"

definition tsdb_accepted :: "dict \<Rightarrow> dict" where
  "tsdb_accepted d = List.map_filter (\<lambda>(k, r).
     if \<not> py_truthy r then None
     else case py_bind (py_iter r) valid_players of
       Inr vs \<Rightarrow> if vs \<noteq> [] then Some (k, JList vs) else None
     | Inl _ \<Rightarrow> None) d"

definition roster_priority :: "roster_table \<Rightarrow> dict \<Rightarrow> dict \<Rightarrow> dict \<Rightarrow> string \<rightharpoonup> json" where
  "roster_priority manual sdio apif tsdb =
     map_of (tsdb_accepted tsdb) ++ map_of (truthy_items apif) ++ map_of manual ++
     map_of (rev (truthy_items sdio))"

text \<open>
  The table the patch pass reads: keys unique, and every roster truthy, so that every
  team with an entry takes the curated branch of line 583.
\<close>

definition table_ok :: "roster_table \<Rightarrow> bool" where
  "table_ok t \<longleftrightarrow> dict_ok t \<and> list_all (\<lambda>(k, r). py_truthy r) t"

section \<open>Lemmas\<close>

lemma py_len_truthy: "py_truthy r \<Longrightarrow> py_len r = Inr n \<Longrightarrow> 0 < n"
  by (cases r) auto

lemma dict_has_map_of: "dict_has t k \<longleftrightarrow> map_of t k \<noteq> None"
  by (simp add: dict_has_def map_of_eq_None_iff)

lemma load_primary_Inr:
  "load_primary t d = Inr t' \<Longrightarrow> map_of t' = map_of t ++ map_of (rev (truthy_items d))"
proof (induction t d rule: load_primary.induct)
  case (1 t)
  then show ?case by (simp add: truthy_items_def)
next
  case (2 t k r items)
  show ?case
  proof (cases "py_truthy r")
    case False
    then show ?thesis using 2 by (simp add: truthy_items_def)
  next
    case True
    with "2.prems" obtain n where n: "py_len r = Inr n"
      by (cases "py_len r") auto
    with True have "0 < n" by (rule py_len_truthy)
    with True n "2.prems" have "load_primary (dict_set t k r) items = Inr t'" by simp
    with "2.IH"(2) [OF _ n] True \<open>0 < n\<close>
    have "map_of t' = map_of (dict_set t k r) ++ map_of (rev (truthy_items items))" by (simp del: map_of_dict_set)
    with True show ?thesis by (simp add: truthy_items_def map_add_assoc)
  qed
qed

lemma load_secondary_Inr:
  "load_secondary t d = Inr t' \<Longrightarrow> map_of t' = map_of (truthy_items d) ++ map_of t"
proof (induction t d rule: load_secondary.induct)
  case (1 t)
  then show ?case by (simp add: truthy_items_def)
next
  case (2 t k r items)
  show ?case
  proof (cases "dict_has t k \<or> \<not> py_truthy r")
    case True
    with "2.prems" have "load_secondary t items = Inr t'" by auto
    with "2.IH"(1) True have IH: "map_of t' = map_of (truthy_items items) ++ map_of t" by simp
    show ?thesis
    proof (cases "py_truthy r")
      case False
      with IH show ?thesis by (simp add: truthy_items_def)
    next
      case tr: True
      with True have "map_of t k \<noteq> None" by (simp add: dict_has_map_of)
      with IH tr show ?thesis
        by (auto simp: truthy_items_def fun_eq_iff map_add_def split: option.splits)
    qed
  next
    case False
    with "2.prems" obtain n where n: "py_len r = Inr n"
      by (cases "py_len r") auto
    with False have "0 < n" using py_len_truthy by blast
    with False n "2.prems" have "load_secondary (dict_set t k r) items = Inr t'" by simp
    with "2.IH"(2) [OF False n] \<open>0 < n\<close>
    have "map_of t' = map_of (truthy_items items) ++ map_of (dict_set t k r)" by (simp del: map_of_dict_set)
    moreover have "map_of t k = None" using False by (simp add: dict_has_map_of)
    ultimately show ?thesis using False
      by (auto simp: truthy_items_def fun_eq_iff map_add_def split: option.splits)
  qed
qed

lemma load_tertiary_Inr:
  "load_tertiary t d = Inr t' \<Longrightarrow> map_of t' = map_of (tsdb_accepted d) ++ map_of t"
proof (induction t d rule: load_tertiary.induct)
  case (1 t)
  then show ?case by (simp add: tsdb_accepted_def)
next
  case (2 t k r items)
  show ?case
  proof (cases "dict_has t k \<or> \<not> py_truthy r")
    case True
    with "2.prems" have "load_tertiary t items = Inr t'" by auto
    with "2.IH"(1) True have IH: "map_of t' = map_of (tsdb_accepted items) ++ map_of t" by simp
    show ?thesis
    proof (cases "py_truthy r")
      case False
      with IH show ?thesis by (simp add: tsdb_accepted_def)
    next
      case tr: True
      with True have "map_of t k \<noteq> None" by (simp add: dict_has_map_of)
      with IH tr show ?thesis
        by (auto simp: tsdb_accepted_def fun_eq_iff map_add_def split: option.splits sum.splits)
    qed
  next
    case False
    with "2.prems" obtain n where n: "py_len r = Inr n"
      by (cases "py_len r") auto
    with False have "0 < n" using py_len_truthy by blast
    with False n "2.prems" obtain vs where vs: "py_bind (py_iter r) valid_players = Inr vs"
      by (cases "py_bind (py_iter r) valid_players") auto
    have fresh: "map_of t k = None" using False by (simp add: dict_has_map_of)
    have comb: "py_bind (py_len r) (\<lambda>n. if 0 < n then py_bind (py_iter r) valid_players else Inr []) = Inr vs"
      using n \<open>0 < n\<close> vs by simp
    show ?thesis
    proof (cases "vs = []")
      case True
      with False n vs \<open>0 < n\<close> "2.prems" have "load_tertiary t items = Inr t'" by simp
      with "2.IH"(3) [OF False comb] True
      have "map_of t' = map_of (tsdb_accepted items) ++ map_of t" by simp
      with False vs True show ?thesis by (simp add: tsdb_accepted_def)
    next
      case ne: False
      with False n vs \<open>0 < n\<close> "2.prems" have "load_tertiary (dict_set t k (JList vs)) items = Inr t'" by simp
      with "2.IH"(2) [OF False comb] ne
      have "map_of t' = map_of (tsdb_accepted items) ++ map_of (dict_set t k (JList vs))"
        by (simp del: map_of_dict_set)
      with False vs ne fresh show ?thesis
        by (auto simp: tsdb_accepted_def fun_eq_iff map_add_def split: option.splits)
    qed
  qed
qed

lemma load_primary_append:
  "load_primary t (xs @ ys) = load_then (load_primary t xs) (\<lambda>t'. load_primary t' ys)"
  by (induction t xs rule: load_primary.induct) (simp_all add: load_then_def split: sum.splits)

lemma set_dict_set: "set (dict_set t k v) \<subseteq> insert (k, v) (set t)"
  by (auto simp: dict_set_def upd_key_def)

lemma table_ok_set: "table_ok t \<Longrightarrow> py_truthy v \<Longrightarrow> table_ok (dict_set t k v)"
  using set_dict_set [of t k v] by (auto simp: table_ok_def dict_ok_set list_all_iff)

lemma load_primary_ok: "table_ok t \<Longrightarrow> table_ok (swallow (load_primary t d))"
  by (induction t d rule: load_primary.induct) (auto simp: table_ok_set split: sum.splits)

lemma load_secondary_ok: "table_ok t \<Longrightarrow> table_ok (swallow (load_secondary t d))"
  by (induction t d rule: load_secondary.induct) (auto simp: table_ok_set split: sum.splits)

lemma load_tertiary_ok: "table_ok t \<Longrightarrow> table_ok (swallow (load_tertiary t d))"
  by (induction t d rule: load_tertiary.induct) (auto simp: table_ok_set split: sum.splits)

lemma load_file_ok:
  assumes "\<And>t d. table_ok t \<Longrightarrow> table_ok (swallow (loop t d))" and "table_ok t"
  shows "table_ok (swallow (load_file loop f t))"
  using assms by (auto simp: load_file_def split: source_file.splits json.splits)

lemma load_then_ok:
  assumes "table_ok (swallow r)" and "\<And>t. table_ok t \<Longrightarrow> table_ok (swallow (k t))"
  shows "table_ok (swallow (load_then r k))"
  using assms by (cases r) (auto simp: load_then_def)

lemma load_rosters_from_ok: "table_ok t0 \<Longrightarrow> table_ok (load_rosters_from t0 sdio apif tsdb)"
  unfolding load_rosters_from_def
  by (intro load_then_ok load_file_ok load_primary_ok load_secondary_ok load_tertiary_ok)

lemma curated_table_ok: "table_ok curated_table"
  by code_simp

section \<open>Claims\<close>

text \<open>
  C27. Priority of the sources: when no file raises, the loaded table maps each team to
  its SportsDataIO roster, else to its roster in the script's own \<open>REAL_ROSTERS\<close>, else
  to its API-Football roster, else to its filtered TheSportsDB roster
  (\<open>roster_priority\<close>). The manual table therefore outranks API-Football and
  TheSportsDB, although the comment of line 303 puts it last.
\<close>

theorem load_rosters_priority:
  assumes "load_primary t0 d1 = Inr t1" "load_secondary t1 d2 = Inr t2" "load_tertiary t2 d3 = Inr t3"
  shows "load_rosters_from t0 (Parsed (JDict d1)) (Parsed (JDict d2)) (Parsed (JDict d3)) = t3 \<and>
         map_of t3 = roster_priority t0 d1 d2 d3"
proof
  show "load_rosters_from t0 (Parsed (JDict d1)) (Parsed (JDict d2)) (Parsed (JDict d3)) = t3"
    using assms by (simp add: load_rosters_from_def load_file_def load_then_def)
  show "map_of t3 = roster_priority t0 d1 d2 d3"
    using load_primary_Inr [OF assms(1)] load_secondary_Inr [OF assms(2)] load_tertiary_Inr [OF assms(3)]
    by (simp add: roster_priority_def map_add_assoc)
qed

theorem load_rosters_priority_witness:
  "load_rosters_from [(''Duke Blue Devils'', JList [JInt 1])]
     (Parsed (JDict [(''Kansas Jayhawks'', JList [JInt 2])]))
     (Parsed (JDict [(''Duke Blue Devils'', JList [JInt 3]), (''Kentucky Wildcats'', JList [JInt 4])]))
     (Parsed (JDict [(''Kentucky Wildcats'', JList [JDict []]), (''UCLA Bruins'', JList [JDict [(''age'', JInt 45)], JDict [(''age'', JInt 21)]])]))
   = [(''Duke Blue Devils'', JList [JInt 1]), (''Kansas Jayhawks'', JList [JInt 2]),
      (''Kentucky Wildcats'', JList [JInt 4]), (''UCLA Bruins'', JList [JDict [(''age'', JInt 21)]])] \<and>
   roster_priority [(''Duke Blue Devils'', JList [JInt 1])]
     [(''Kansas Jayhawks'', JList [JInt 2])]
     [(''Duke Blue Devils'', JList [JInt 3]), (''Kentucky Wildcats'', JList [JInt 4])]
     [(''Kentucky Wildcats'', JList [JDict []]), (''UCLA Bruins'', JList [JDict [(''age'', JInt 45)], JDict [(''age'', JInt 21)]])]
     ''Duke Blue Devils'' = Some (JList [JInt 1])"
proof -
  have h1: "load_primary [(''Duke Blue Devils'', JList [JInt 1])] [(''Kansas Jayhawks'', JList [JInt 2])]
      = Inr [(''Duke Blue Devils'', JList [JInt 1]), (''Kansas Jayhawks'', JList [JInt 2])]"
    by code_simp
  have h2: "load_secondary [(''Duke Blue Devils'', JList [JInt 1]), (''Kansas Jayhawks'', JList [JInt 2])]
      [(''Duke Blue Devils'', JList [JInt 3]), (''Kentucky Wildcats'', JList [JInt 4])]
      = Inr [(''Duke Blue Devils'', JList [JInt 1]), (''Kansas Jayhawks'', JList [JInt 2]),
             (''Kentucky Wildcats'', JList [JInt 4])]"
    by code_simp
  have h3: "load_tertiary [(''Duke Blue Devils'', JList [JInt 1]), (''Kansas Jayhawks'', JList [JInt 2]),
             (''Kentucky Wildcats'', JList [JInt 4])]
      [(''Kentucky Wildcats'', JList [JDict []]), (''UCLA Bruins'', JList [JDict [(''age'', JInt 45)], JDict [(''age'', JInt 21)]])]
      = Inr [(''Duke Blue Devils'', JList [JInt 1]), (''Kansas Jayhawks'', JList [JInt 2]),
             (''Kentucky Wildcats'', JList [JInt 4]), (''UCLA Bruins'', JList [JDict [(''age'', JInt 21)]])]"
    by code_simp
  note r = load_rosters_priority [OF h1 h2 h3]
  show ?thesis using conjunct1 [OF r] conjunct2 [OF r, symmetric] by simp
qed

text \<open>
  C28. An exception keeps a partial table: when a truthy SportsDataIO roster has no
  \<open>len\<close> (a number), the loader stops there. The table keeps the SportsDataIO entries
  before it and ignores the entries after it and both other files, whatever they hold.
\<close>

theorem load_rosters_sdio_exception:
  assumes "load_primary t0 pre = Inr t1" "py_truthy r" "py_len r = Inl e"
  shows "load_rosters_from t0 (Parsed (JDict (pre @ (k, r) # post))) apif tsdb = t1"
  using assms by (simp add: load_rosters_from_def load_file_def load_then_def load_primary_append)

theorem load_rosters_sdio_exception_witness:
  "load_rosters_from [] (Parsed (JDict [(''Duke Blue Devils'', JList [JInt 1]), (''Kansas Jayhawks'', JInt 12),
       (''UCLA Bruins'', JList [JInt 2])])) (Parsed (JDict [(''Kentucky Wildcats'', JList [JInt 3])])) Absent
   = [(''Duke Blue Devils'', JList [JInt 1])]"
proof -
  have "load_primary [] [(''Duke Blue Devils'', JList [JInt 1])] = Inr [(''Duke Blue Devils'', JList [JInt 1])]"
    by code_simp
  from load_rosters_sdio_exception [OF this, where r = "JInt 12" and e = TypeError and k = "''Kansas Jayhawks''"
      and post = "[(''UCLA Bruins'', JList [JInt 2])]"]
  show ?thesis by simp
qed

text \<open>
  C29. Invariant of the table: whatever the three files hold (absent, unreadable, any
  JSON value), the table the patch pass reads has unique team names and only truthy
  rosters, so every team with an entry takes the curated branch of line 583.
\<close>

theorem load_rosters_table_ok: "table_ok (load_rosters sdio apif tsdb)"
  unfolding load_rosters_def by (rule load_rosters_from_ok [OF curated_table_ok])

end
