(* ===== verification/Script.thy ===== *)
theory Script
  imports Loader Relocate
begin

text \<open>
  The script as a whole (src/scripts/update_all_rosters.py): the loader runs when the
  module is imported, then \<open>main\<close> (lines 499--781) checks its arguments and the save
  document, scans for the career player, runs the roster patch pass and the relocation
  pass, and writes the document back. The document is the parsed contents of the file
  named by \<open>sys.argv[1]\<close>; reading and writing the file and printing are not modelled.
  The result is the document \<open>json.dump\<close> writes, or the exception that ends the run.
\<close>

section \<open>\<open>main\<close>\<close>

text \<open>
  Lines 500--512: \<open>sys.exit(1)\<close> without a file argument and for a document without
  \<open>seasonLeagues\<close>. Lines 514--565: the scan only prints, but it raises where the
  document is malformed. Lines 566--664: the patch pass; lines 666--765: the relocation;
  lines 767--781: the save and the summary.
\<close>

definition main_run :: "roster_table \<Rightarrow> string list \<Rightarrow> json \<Rightarrow> json prog" where
  "main_run table argv data =
     (if length argv < 2 then pure (Inl (SysExit 1))
      else pbind (pure (py_contains data ''seasonLeagues'')) (\<lambda>has.
        if \<not> has then pure (Inl (SysExit 1))
        else pbind (pure (find_career_player data)) (\<lambda>_.
             pbind (patch_pass table data) (\<lambda>d1.
             pure (relocate_career_player d1)))))"

text \<open>\<open>python update_all_rosters.py save.json\<close> with the three optional roster files.\<close>

definition run_script ::
  "source_file \<Rightarrow> source_file \<Rightarrow> source_file \<Rightarrow> string list \<Rightarrow> json \<Rightarrow> json prog" where
  "run_script sdio apif tsdb argv data = main_run (load_rosters sdio apif tsdb) argv data"

section \<open>An example save\<close>

text \<open>
  The scenario of the spec: one college league with the team North Carolina Tar Heels,
  three placeholder players, no career player.
\<close>

definition placeholder :: "int \<Rightarrow> json" where
  "placeholder i = JDict [(''pid'', JInt i), (''fn'', JStr ''Player''), (''ln'', JStr ''Placeholder''),
     (''num'', JInt i), (''rating'', JInt 60), (''attributes'', JDict [(''LAY'', JList [JInt 8, JInt 8])])]"

definition nc_save :: json where
  "nc_save = JDict [(''seasonLeagues'', JList [JDict [(''leagueType'', JInt 1),
     (''teams'', JList [JDict [(''city'', JStr ''North Carolina''), (''name'', JStr ''Tar Heels''),
        (''roster'', JList [placeholder 1, placeholder 2, placeholder 3])]])]])]"

section \<open>Lemmas\<close>

lemma calculate_attributes_floats:
  "calculate_attributes_from_stats (JFloat p) (JFloat r) (JFloat a) (JFloat f) (JFloat u) (JFloat v) (JFloat s) (JFloat b) =
   Inr (attr_dict (attr_values p r a f u (py_int (v * 20)) (py_int (s * 10)) (py_int (b * 10))))"
  by (rule calculate_attributes_numeric) simp_all

lemmas stats_eval = dict_has_def dict_get_def stats_attributes_def calculate_attributes_floats
  attr_values_def Let_def attr_clamp_def clamp_def py_int_def

lemma home_records_maxed:
  assumes "i < 3"
  shows "\<exists>vs rr. the (map_of REAL_ROSTERS ''North Carolina Tar Heels'') ! i = JDict rr \<and> dict_has rr ''stats'' \<and>
           stats_attributes (dict_get rr ''stats'' JNull) = Inr (attr_dict vs) \<and> length vs = 12 \<and> vs ! 0 = 20"
proof -
  consider "i = 0" | "i = 1" | "i = 2" using assms by linarith
  then show ?thesis
  proof cases
    case 1
    then show ?thesis
      by (intro exI [of _ "[20, 7, 17, 20, 18, 16, 10, 5, 1, 2, 13, 2]"]) (simp add: REAL_ROSTERS_def stats_eval)
  next
    case 2
    then show ?thesis
      by (intro exI [of _ "[20, 9, 20, 19, 15, 15, 4, 1, 4, 5, 8, 12]"]) (simp add: REAL_ROSTERS_def stats_eval)
  next
    case 3
    then show ?thesis
      by (intro exI [of _ "[20, 9, 20, 19, 2, 14, 4, 1, 3, 4, 6, 10]"]) (simp add: REAL_ROSTERS_def stats_eval)
  qed
qed

lemma attr_dict_first_maxed:
  "length vs = 12 \<Longrightarrow> vs ! 0 = 20 \<Longrightarrow> map_of (attr_dict vs) ''LAY'' = Some (attr_pair 20)"
  by (cases vs) (simp_all add: attr_dict_def attr_keys_def)

lemma upd_key_fresh: "k \<notin> fst ` set d \<Longrightarrow> map (upd_key k v) d = d"
  by (induction d) (auto simp: upd_key_def)

lemma dict_set_same: "dict_ok d \<Longrightarrow> map_of d k = Some v \<Longrightarrow> dict_set d k v = d"
proof (induction d)
  case Nil
  then show ?case by simp
next
  case (Cons kv d)
  obtain k' v' where kv: "kv = (k', v')" by fastforce
  show ?case
  proof (cases "k' = k")
    case True
    with Cons.prems kv have "v' = v" "k \<notin> fst ` set d" by (auto simp: dict_ok_def)
    with True kv show ?thesis by (simp add: dict_set_def dict_has_def upd_key_def upd_key_fresh)
  next
    case False
    with Cons.prems kv have "dict_set d k v = d" by (intro Cons.IH) (simp_all add: dict_ok_def)
    with False kv Cons.prems show ?thesis
      by (auto simp: dict_set_def dict_has_def upd_key_def split: if_splits)
  qed
qed

lemma scan_leagues_no_college:
  "\<forall>l \<in> set ls. \<exists>d. l = JDict d \<and> \<not> is_college d \<Longrightarrow> scan_leagues ls = Inr False"
  by (induction ls) (auto simp: is_college_def)

lemma patch_leagues_no_college:
  "\<forall>l \<in> set ls. \<exists>d. l = JDict d \<and> \<not> is_college d \<Longrightarrow> patch_leagues table ls g = Some (Inr ls, g)"
  by (induction ls) (auto simp: pbind_def pure_def)

lemma reloc_leagues_no_college:
  "\<forall>l \<in> set ls. \<exists>d. l = JDict d \<and> \<not> is_college d \<Longrightarrow> reloc_leagues i home ls = Inr (Not_Found home)"
  by (induction ls arbitrary: i) auto

section \<open>Claims\<close>

text \<open>
  C30. Exits: without a file argument, or for a document without \<open>seasonLeagues\<close>,
  \<open>main\<close> ends with \<open>sys.exit(1)\<close> before any draw from the random source.
\<close>

theorem main_exits:
  assumes "length argv < 2 \<or> (data = JDict d \<and> \<not> dict_has d ''seasonLeagues'')"
  shows "main_run table argv data g = Some (Inl (SysExit 1), g)"
  using assms by (auto simp: main_run_def pbind_def pure_def)

theorem main_exits_witness:
  "main_run curated_table [''update_all_rosters.py''] nc_save mid_source = Some (Inl (SysExit 1), mid_source) \<and>
   main_run curated_table [''update_all_rosters.py'', ''save.json''] (JDict [(''leagues'', JList [])]) mid_source =
     Some (Inl (SysExit 1), mid_source)"
  using main_exits [of "[''update_all_rosters.py'']" nc_save "[]" curated_table mid_source]
    main_exits [of "[''update_all_rosters.py'', ''save.json'']" "JDict [(''leagues'', JList [])]"
      "[(''leagues'', JList [])]" curated_table mid_source]
  by (simp_all add: dict_has_def)

text \<open>
  C31. Curated records make players protected: each of the first three curated
  North Carolina records, applied to any unprotected player whose attributes are a dict,
  gives a record with a \<open>[20, 20]\<close> attribute, which \<open>update_player\<close> treats as the
  career player on every later run. In the spec's scenario (a three-slot North Carolina
  roster) the full pass therefore leaves four protected records, not one.
\<close>

theorem curated_home_records_protect:
  assumes "i < 3" and at: "dict_get d ''attributes'' (JDict []) = JDict a"
    and free: "has_maxed_attrs d = Inr False" "\<not> is_career_player d"
  shows "\<exists>e. update_player (JDict d) (the (map_of REAL_ROSTERS ''North Carolina Tar Heels'') ! i) = Inr (JDict e) \<and>
             has_maxed_attrs e = Inr True"
proof -
  from home_records_maxed [OF assms(1)] obtain vs rr where
    r: "the (map_of REAL_ROSTERS ''North Carolina Tar Heels'') ! i = JDict rr" "dict_has rr ''stats''"
       "stats_attributes (dict_get rr ''stats'' JNull) = Inr (attr_dict vs)" "length vs = 12" "vs ! 0 = 20"
    by blast
  from update_player_gains_maxed [OF r(2,3) dict_ok_attr_dict [OF r(4)] attr_dict_first_maxed [OF r(4,5)] at free]
  show ?thesis unfolding r(1) .
qed

theorem curated_home_records_protect_witness:
  "\<exists>e. update_player (JDict [(''pid'', JInt 9)]) (the (map_of REAL_ROSTERS ''North Carolina Tar Heels'') ! 0) =
     Inr (JDict e) \<and> has_maxed_attrs e = Inr True"
proof -
  have "\<not> is_career_player [(''pid'', JInt 9)]" by code_simp
  then show ?thesis
    using curated_home_records_protect [of 0 "[(''pid'', JInt 9)]" "[]"]
    by (simp add: dict_get_def has_maxed_attrs_def)
qed

text \<open>
  C32. No college league, no career player: whatever the roster files hold, for a
  document whose leagues are all non-college dicts the script returns the document
  unchanged, so the saved file holds no protected record, although the spec says the
  relocation pass guarantees exactly one.
\<close>

theorem main_without_college_league:
  assumes "2 \<le> length argv" "dict_ok dd" "map_of dd ''seasonLeagues'' = Some (JList ls)"
    and ls: "\<forall>l \<in> set ls. \<exists>d. l = JDict d \<and> \<not> is_college d"
  shows "run_script sdio apif tsdb argv (JDict dd) g = Some (Inr (JDict dd), g)"
proof -
  have idx: "py_index (JDict dd) ''seasonLeagues'' = Inr (JList ls)"
    using assms(3) by (simp add: dict_index_def)
  have has: "dict_has dd ''seasonLeagues''" using map_of_SomeD [OF assms(3)] by (force simp: dict_has_def)
  have same: "dict_set dd ''seasonLeagues'' (JList ls) = dd" by (rule dict_set_same [OF assms(2,3)])
  have "relocate_career_player (JDict dd) = Inr (JDict dd)"
    using idx reloc_leagues_no_college [OF ls] by (simp add: relocate_career_player_def relocate_action_def)
  then show ?thesis
    using assms(1) idx has same scan_leagues_no_college [OF ls] patch_leagues_no_college [OF ls]
    by (simp add: run_script_def main_run_def find_career_player_def patch_pass_def write_back_def
        pbind_def pure_def)
qed

theorem main_without_college_league_witness:
  "run_script Absent Unreadable (Parsed JNull) [''update_all_rosters.py'', ''save.json'']
     (JDict [(''seasonLeagues'', JList [JDict [(''leagueType'', JInt 2)]])]) mid_source =
   Some (Inr (JDict [(''seasonLeagues'', JList [JDict [(''leagueType'', JInt 2)]])]), mid_source)"
  by (rule main_without_college_league) (auto simp: dict_ok_def is_college_def dict_get_def)

end
