(* ===== verification/Protect.thy ===== *)
theory Protect
  imports Patch
begin

text \<open>
  The protection contract of the roster-patch pass (\<open>update_rosters_with_real_data\<close>,
  lines 569--664): every record that \<open>update_player\<close> treats as the career player
  (line 450: \<open>if is_career_player or has_maxed_attrs\<close>) is, when the pass returns,
  still in the same slot of the same team, unchanged. The curated loop, the
  fill-up loop and the generated loop each preserve it slot by slot.
\<close>

section \<open>Protected records (line 450)\<close>

text \<open>
  The preservation test of \<open>update_player\<close>: a dict that is the career player or has a
  maxed attribute pair. Anything else is not protected (and \<open>update_player\<close> fails on a
  non-dict).
\<close>

fun protected_player :: "json \<Rightarrow> bool" where
  "protected_player (JDict p) = (is_career_player p \<or> has_maxed_attrs p = Inr True)"
| "protected_player _ = False"

section \<open>Reading the document\<close>

text \<open>The league list and a league's team list, empty where they are not lists.\<close>

definition leagues_of :: "json \<Rightarrow> json list" where
  "leagues_of data = (case data of
     JDict d \<Rightarrow> (case map_of d ''seasonLeagues'' of Some (JList ls) \<Rightarrow> ls | _ \<Rightarrow> [])
   | _ \<Rightarrow> [])"

definition teams_of :: "json \<Rightarrow> json list" where
  "teams_of l = (case l of
     JDict d \<Rightarrow> (case map_of d ''teams'' of Some (JList ts) \<Rightarrow> ts | _ \<Rightarrow> [])
   | _ \<Rightarrow> [])"

text \<open>A roster \<open>ys\<close> keeps the protected records of \<open>xs\<close>: same length, same entry
  wherever \<open>xs\<close> holds a protected one.\<close>

definition keeps_protected :: "json list \<Rightarrow> json list \<Rightarrow> bool" where
  "keeps_protected xs ys \<longleftrightarrow>
     length ys = length xs \<and> (\<forall>k < length xs. protected_player (xs ! k) \<longrightarrow> ys ! k = xs ! k)"

section \<open>Lemmas\<close>

lemma team_at_of:
  "team_at i j data =
     (if i < length (leagues_of data) \<and> j < length (teams_of (leagues_of data ! i))
      then Some (teams_of (leagues_of data ! i) ! j) else None)"
  by (auto simp: team_at_def leagues_of_def teams_of_def split: json.splits option.splits)

lemma keeps_protected_refl [simp]: "keeps_protected xs xs"
  by (simp add: keeps_protected_def)

lemma keeps_protected_trans:
  "keeps_protected xs ys \<Longrightarrow> keeps_protected ys zs \<Longrightarrow> keeps_protected xs zs"
  unfolding keeps_protected_def by metis

lemma keeps_protected_Cons:
  "keeps_protected (x # xs) (y # ys) \<longleftrightarrow> (protected_player x \<longrightarrow> y = x) \<and> keeps_protected xs ys"
  by (auto simp: keeps_protected_def nth_Cons' less_Suc_eq_0_disj)

lemma keeps_protected_update:
  "(protected_player (xs ! i) \<Longrightarrow> u = xs ! i) \<Longrightarrow> keeps_protected xs (xs[i := u])"
  unfolding keeps_protected_def by (metis length_list_update nth_list_update_eq nth_list_update_neq)

lemma update_player_keeps_protected:
  "update_player x rp = Inr u \<Longrightarrow> protected_player x \<Longrightarrow> u = x"
  by (cases x) (auto simp: update_player_def py_bind_eq_Inr)

lemma apply_curated_keeps:
  "apply_curated k rps xs = Inr ys \<Longrightarrow> keeps_protected xs ys"
  unfolding keeps_protected_def
proof (intro conjI allI impI)
  assume a: "apply_curated k rps xs = Inr ys"
  note s = apply_curated_slots [OF a]
  then show "length ys = length xs" by simp
  fix i assume i: "i < length xs" "protected_player (xs ! i)"
  show "ys ! i = xs ! i"
  proof (cases "k \<le> i \<and> i < k + length rps")
    case True
    with s i have "update_player (xs ! i) (rps ! (i - k)) = Inr (ys ! i)" by simp
    from update_player_keeps_protected [OF this i(2)] show ?thesis .
  next
    case False
    with s i show ?thesis by auto
  qed
qed

lemma fill_slots_keeps:
  "fill_slots q n used is roster g = Some (Inr ys, g') \<Longrightarrow> keeps_protected roster ys"
proof (induction "is" arbitrary: used roster g)
  case Nil
  then show ?case by (simp add: pure_def)
next
  case (Cons i "is")
  from pbind_InrD [OF Cons.prems [simplified]] obtain skip g1 where
    s2: "(if skip then fill_slots q n used is roster
          else case first_free used of None \<Rightarrow> diverge
            | Some j \<Rightarrow> pbind (generate_realistic_player (positions10 ! (i mod length positions10)) (int j) q)
                (\<lambda>rp. pbind (if n + i < length roster
                              then pbind (pure (update_player (roster ! (n + i)) rp)) (\<lambda>u. pure (Inr (roster[n + i := u])))
                              else pure (Inr roster))
                      (\<lambda>roster'. fill_slots q n (used @ [JInt (int j)]) is roster'))) g1 = Some (Inr ys, g')"
    by blast
  show ?case
  proof (cases skip)
    case True
    with s2 show ?thesis by (auto intro: Cons.IH)
  next
    case False
    with s2 obtain j where j: "first_free used = Some j" by (auto simp: diverge_def split: option.splits)
    with s2 False obtain rp g2 roster' g3 where
      step: "(if n + i < length roster
        then pbind (pure (update_player (roster ! (n + i)) rp)) (\<lambda>u. pure (Inr (roster[n + i := u])))
        else pure (Inr roster)) g2 = Some (Inr roster', g3)"
      and rec: "fill_slots q n (used @ [JInt (int j)]) is roster' g3 = Some (Inr ys, g')"
      by (auto dest!: pbind_InrD)
    from step have "keeps_protected roster roster'"
      by (auto simp: pure_def pbind_def split: if_splits sum.splits
          intro!: keeps_protected_update dest: update_player_keeps_protected)
    with Cons.IH [OF rec] show ?thesis by (blast intro: keeps_protected_trans)
  qed
qed

lemma gen_roster_keeps:
  "gen_roster q pos used i ps g = Some (Inr us, g') \<Longrightarrow> keeps_protected ps us"
proof (induction ps arbitrary: used i us g)
  case Nil
  then show ?case by (simp add: pure_def)
next
  case (Cons p ps)
  from Cons.prems obtain j where "probe30 used i = Some j"
    by (auto simp: pbind_def pure_def diverge_def split: option.splits sum.splits)
  with Cons.prems obtain rp u us' g2 where
    u: "update_player p rp = Inr u" and
    rec: "gen_roster q pos (used @ [j]) (Suc i) ps g2 = Some (Inr us', g')" and us: "us = u # us'"
    by (auto simp: pbind_def pure_def split: option.splits sum.splits)
  from Cons.IH [OF rec] update_player_keeps_protected [OF u] us show ?case by (simp add: keeps_protected_Cons)
qed

lemma patch_curated_keeps:
  "patch_curated q reals xs g = Some (Inr ys, g') \<Longrightarrow> keeps_protected xs ys"
  by (auto simp: patch_curated_def pbind_def pure_def split: option.splits sum.splits if_splits
      dest!: apply_curated_keeps fill_slots_keeps intro: keeps_protected_trans)

lemma patch_generated_keeps:
  "patch_generated q xs g = Some (Inr ys, g') \<Longrightarrow> keeps_protected xs ys"
  by (auto simp: patch_generated_def pbind_def lift_def split: option.splits sum.splits
      dest!: gen_roster_keeps)

lemma patch_team_keeps:
  "patch_team table t g = Some (Inr t', g') \<Longrightarrow> keeps_protected (roster_of t) (roster_of t')"
  by (auto simp: patch_team_def Let_def pbind_def pure_def lift_def roster_of_def dict_get_def
      split: json.splits option.splits sum.splits if_splits
      dest!: patch_curated_keeps patch_generated_keeps)

lemma patch_teams_keeps:
  "patch_teams table ts g = Some (Inr ts', g') \<Longrightarrow>
   list_all2 (\<lambda>t t'. keeps_protected (roster_of t) (roster_of t')) ts ts'"
proof (induction ts arbitrary: ts' g g')
  case Nil
  then show ?case by (simp add: pure_def)
next
  case (Cons t ts)
  from pbind_InrD [OF Cons.prems [simplified]] obtain t1 g1 where
    h: "patch_team table t g = Some (Inr t1, g1)"
    and r: "pbind (patch_teams table ts) (\<lambda>ts'. pure (Inr (t1 # ts'))) g1 = Some (Inr ts', g')" by blast
  from pbind_InrD [OF r] obtain ts1 g2 where
    r2: "patch_teams table ts g1 = Some (Inr ts1, g2)" and eq: "ts' = t1 # ts1" by (auto simp: pure_def)
  from Cons.IH [OF r2] eq patch_team_keeps [OF h] show ?case by simp
qed

lemma league_keeps_patched:
  assumes "l = JDict d" "pbind (pure (py_iter (dict_get d ''teams'' JNull))) (\<lambda>ts.
             pbind (patch_teams table ts) (\<lambda>ts'.
             pure (Inr (JDict (dict_set d ''teams'' (write_back (dict_get d ''teams'' JNull) ts')))))) g =
           Some (Inr l', g')"
  shows "list_all2 (\<lambda>t t'. keeps_protected (roster_of t) (roster_of t')) (teams_of l) (teams_of l')"
  using assms
  by (auto simp: pbind_def pure_def write_back_def dict_get_def teams_of_def
      split: option.splits sum.splits json.splits dest!: patch_teams_keeps)

lemma patch_leagues_keeps:
  "patch_leagues table ls g = Some (Inr ls', g') \<Longrightarrow>
   list_all2 (\<lambda>l l'. list_all2 (\<lambda>t t'. keeps_protected (roster_of t) (roster_of t')) (teams_of l) (teams_of l'))
     ls ls'"
proof (induction ls arbitrary: ls' g g')
  case Nil
  then show ?case by (simp add: pure_def)
next
  case (Cons l ls)
  from pbind_InrD [OF Cons.prems [simplified]] obtain l1 g1 where
    h: "(case l of
         JDict d \<Rightarrow>
           if is_college d \<and> dict_has d ''teams'' then
             pbind (pure (py_iter (dict_get d ''teams'' JNull))) (\<lambda>ts.
             pbind (patch_teams table ts) (\<lambda>ts'.
             pure (Inr (JDict (dict_set d ''teams'' (write_back (dict_get d ''teams'' JNull) ts'))))))
           else pure (Inr l)
       | _ \<Rightarrow> pure (Inl AttributeError)) g = Some (Inr l1, g1)"
    and r: "pbind (patch_leagues table ls) (\<lambda>ls'. pure (Inr (l1 # ls'))) g1 = Some (Inr ls', g')" by blast
  have "list_all2 (\<lambda>t t'. keeps_protected (roster_of t) (roster_of t')) (teams_of l) (teams_of l1)"
  proof (cases l)
    case (JDict d)
    show ?thesis
    proof (cases "is_college d \<and> dict_has d ''teams''")
      case True
      with h JDict show ?thesis by (intro league_keeps_patched [OF JDict]) simp
    next
      case False
      with h JDict show ?thesis by (simp add: pure_def list_all2_refl)
    qed
  qed (insert h, simp_all add: pure_def)
  moreover from pbind_InrD [OF r] obtain ls1 g2 where
    r2: "patch_leagues table ls g1 = Some (Inr ls1, g2)" and "ls' = l1 # ls1" by (auto simp: pure_def)
  ultimately show ?case using Cons.IH [OF r2] by simp
qed

lemma patch_pass_keeps:
  "patch_pass table data g = Some (Inr data', g') \<Longrightarrow>
   list_all2 (\<lambda>l l'. list_all2 (\<lambda>t t'. keeps_protected (roster_of t) (roster_of t')) (teams_of l) (teams_of l'))
     (leagues_of data) (leagues_of data')"
  by (auto simp: patch_pass_def pbind_def pure_def write_back_def dict_index_def leagues_of_def
      split: option.splits sum.splits json.splits dest!: patch_leagues_keeps)

section \<open>Claims\<close>

text \<open>
  C11. Protection (lines 450 and 569--664): when the patch pass returns, every record of
  every roster that \<open>update_player\<close> protects (the career player, or a record with a
  maxed attribute pair) is still in the same slot of the same team of the same league,
  unchanged, whatever the curated table assigned to that slot and whatever the fill-up and
  generated loops drew for it.
\<close>

theorem patch_pass_keeps_protected:
  assumes run: "patch_pass table data g = Some (Inr data', g')"
    and at: "team_at i j data = Some t" and k: "k < length (roster_of t)"
    and prot: "protected_player (roster_of t ! k)"
  shows "\<exists>t'. team_at i j data' = Some t' \<and> k < length (roster_of t') \<and> roster_of t' ! k = roster_of t ! k"
proof -
  from at have i: "i < length (leagues_of data)" "j < length (teams_of (leagues_of data ! i))"
    and t: "t = teams_of (leagues_of data ! i) ! j"
    by (simp_all add: team_at_of split: if_splits)
  from patch_pass_keeps [OF run] i(1) have
    "length (leagues_of data') = length (leagues_of data)"
    "list_all2 (\<lambda>t t'. keeps_protected (roster_of t) (roster_of t'))
       (teams_of (leagues_of data ! i)) (teams_of (leagues_of data' ! i))"
    by (auto simp: list_all2_conv_all_nth)
  with i t have "team_at i j data' = Some (teams_of (leagues_of data' ! i) ! j)"
    "keeps_protected (roster_of t) (roster_of (teams_of (leagues_of data' ! i) ! j))"
    by (auto simp: team_at_of list_all2_conv_all_nth)
  with k prot show ?thesis by (auto simp: keeps_protected_def)
qed

theorem patch_pass_keeps_protected_witness:
  "\<exists>d' g' t'. patch_pass wt_table (ex_doc [ex_team ''North Carolina'' ''Tar Heels'' [ex_isaac, ex_kyan]]) mid_source
      = Some (Inr d', g') \<and>
    team_at 0 0 d' = Some t' \<and> 0 < length (roster_of t') \<and> roster_of t' ! 0 = ex_isaac \<and>
    roster_of t' ! 1 \<noteq> ex_kyan"
proof -
  let ?t = "ex_team ''North Carolina'' ''Tar Heels'' [ex_isaac, ex_kyan]"
  let ?d' = "ex_doc [ex_team ''North Carolina'' ''Tar Heels''
    [ex_isaac, JDict [(''pid'', JInt 11), (''fn'', JStr ''Seth''), (''ln'', JStr ''Evans''), (''num'', JInt 5)]]]"
  have "map_option fst (patch_pass wt_table (ex_doc [?t]) mid_source) = Some (Inr ?d')"
    by code_simp
  then obtain g' where run: "patch_pass wt_table (ex_doc [?t]) mid_source = Some (Inr ?d', g')"
    by (cases "patch_pass wt_table (ex_doc [?t]) mid_source") auto
  have at: "team_at 0 0 (ex_doc [?t]) = Some ?t" by (simp add: team_at_def)
  have p: "protected_player (roster_of ?t ! 0)" by code_simp
  from patch_pass_keeps_protected [OF run at _ p] run show ?thesis
    by (auto simp: team_at_def roster_of_def)
qed
end
