(* ===== verification/Spec2Isabelle.thy ===== *)
theory Spec2Isabelle
  imports Script Protect
begin

text \<open>
  \<^bold>\<open>A verification model of src/scripts/update_all_rosters.py\<close>
  (Hoopland save editor, "Update All College Basketball Rosters").

  \<^medskip>\<^bold>\<open>The program.\<close> One Python script rewrites a Hoopland mobile save file (JSON)
  in memory and writes it back. Its parts, in source order:
  \<^item> \<open>calculate_attributes_from_stats\<close> (lines 11--40): eight per-game statistics
    to twelve attribute pairs \<open>[v, v]\<close>, \<open>v\<close> clamped to \<open>[0, 20]\<close>;
  \<^item> \<open>generate_realistic_player\<close> (42--140): a random player for a position, a jersey
    and a team quality tier, drawing from Python's process-wide \<open>random\<close> source;
  \<^item> the tables \<open>REAL_ROSTERS\<close> (160--300), \<open>TEAM_QUALITY\<close> (356--422), and the
    merge of three optional external roster files into \<open>REAL_ROSTERS\<close> (302--353);
  \<^item> \<open>update_player\<close> (424--497): copy present fields of a replacement record onto a
    save-file player unless the player is the protected "career player" (pid 706, the
    name Isaac Condrey, or any attribute at \<open>[20, 20]\<close>);
  \<^item> \<open>main\<close> (499--781): argument and format checks, a scan for the career player,
    the roster patch pass over every college league (curated data where
    \<open>REAL_ROSTERS\<close> has the team, generated players otherwise), the relocation of
    the career player to North Carolina (or its creation), and the save.
  The components interact only through the in-memory document and the random source:
  the passes call \<open>update_player\<close>, which calls the mapper; the patch pass calls the
  generator and reads the table the loader built at import time.

  \<^medskip>\<^bold>\<open>The library.\<close>
  \<^item> \<open>Py_Prelude\<close>: Python exceptions as \<open>py_error\<close> and results as
    \<open>py_error + 'a\<close>; the built-ins the script relies on (\<open>int()\<close> of a float and
    of a string, clamping, \<open>str.lower\<close>, \<open>str.strip\<close>, substring tests).
  \<^item> \<open>Json\<close>: JSON values as Python sees them after \<open>json.load\<close>, dicts as
    association lists in insertion order with Python's \<open>get\<close>, \<open>in\<close>,
    \<open>[]\<close>, assignment, \<open>update\<close>, iteration, truthiness and \<open>str()\<close>;
    insert/lookup and merge lemmas (\<open>dict_get_set\<close>, \<open>dict_get_update\<close>,
    \<open>dict_set_keys_prefix\<close>).
  \<^item> \<open>Attributes\<close>: the mapper \<open>calculate_attributes_from_stats\<close>; claims
    C1--C5 (range, all-zero input, saturation, the \<open>TypeError\<close> path, and a string
    free-throw percentage that is silently accepted).
  \<^item> \<open>Updater\<close>: \<open>update_player\<close> as a function on the player's dict, with the
    career tests \<open>is_career_player\<close> and \<open>has_maxed_attrs\<close>, the field copies
    \<open>copy_fields\<close> over \<open>field_map\<close> in source order, and the attribute and stats
    merge \<open>update_stats\<close>; claims C6--C10 (protection; the scan that raises before
    the protection decision; field copy with frame; attribute merge; the maxed-attribute
    test on every branch, true when any pair is \<open>[20, 20]\<close>).
  \<^item> \<open>Rosters\<close>: the literal tables \<open>REAL_ROSTERS\<close> and \<open>TEAM_QUALITY\<close>,
    transcribed entry by entry as association lists in source order.
  \<^item> \<open>Document\<close>: the save document as a JSON value, with teams addressed by the
    path (league index, team index). Python mutates the team dicts it iterates over in
    place; the model writes through the same path (\<open>with_team\<close>), which is exact
    because the script keeps no other reference to a team across writes.
  \<^item> \<open>Relocate\<close>: the scan before the update (\<open>find_career_player\<close>, lines
    514--565) and the relocation pass (\<open>relocate_career_player\<close>, lines 666--765):
    the scan with its running home team (\<open>reloc_leagues\<close>, \<open>reloc_teams\<close>,
    \<open>reloc_players\<close>), the move and the creation (\<open>relocate_action\<close>,
    \<open>make_career_player\<close>); claims C12--C16 (move; creation of a protected
    record; the team-order bug: a player on a team before the home team is never moved;
    a later career record survives the move; a maxed-only record is ignored and a
    second protected record is created in front of it). The lemmas
    \<open>reloc_players_none\<close>, \<open>reloc_players_first\<close> and \<open>reloc_teams_append\<close>
    evaluate the scan on documents of a given shape, and \<open>relocate_move\<close>,
    \<open>relocate_create\<close> give the two actions with everything they leave alone.
  \<^item> \<open>Py_Random\<close>: the process-wide random source as a stream of 32-bit words
    (\<open>rng\<close>: \<open>rng_words\<close> and the position \<open>rng_pos\<close>), with CPython 3.11's
    algorithms over it: \<open>random()\<close> from two words (\<open>random_float\<close>),
    \<open>uniform\<close>, \<open>_randbelow\<close> as a rejection loop written with
    \<open>partial_function (option)\<close> (\<open>randbelow_loop\<close>), \<open>randint\<close>,
    \<open>choice\<close> (\<open>IndexError\<close> on an empty list) and the Fisher--Yates
    \<open>shuffle\<close>. A draw is a \<open>'a rand\<close> (\<open>None\<close>: the loop never ends) and a
    computation that may raise is a \<open>'a prog\<close>. Lemmas: the rejection loop ends exactly
    when some later word is accepted (\<open>randbelow_loop_terminates\<close>), ranges of every
    draw, \<open>shuffle\<close> keeps the multiset, and on a source whose words have the top bit
    clear (\<open>msb_clear\<close>) every draw returns (\<open>rand_total\<close>, \<open>prog_ok\<close>).
  \<^item> \<open>Generator\<close>: \<open>generate_realistic_player\<close> as a \<open>prog\<close> that draws in
    the source's order (names, position ranges scaled by the tier and a variation,
    height, weight, age), with the \<open>KeyError\<close> lookups and \<open>round()\<close>
    half-to-even; claims C17--C20 (the rating is always 68; the generator returns for
    every valid position and tier; \<open>KeyError\<close> otherwise; the shape of the record).
  \<^item> \<open>Patch\<close>: the roster patch pass of \<open>main\<close> (lines 566--664) as
    \<open>patch_pass\<close> over the leagues, teams (\<open>patch_team\<close>) and slots: the curated
    branch (\<open>apply_curated\<close>, then \<open>fill_slots\<close> with the linear jersey probe
    \<open>first_free\<close>) and the generated branch (\<open>patch_generated\<close>: shuffled
    \<open>gen_positions\<close>, \<open>gen_roster\<close> with the wrapping probe \<open>probe30\<close>).
    The probes live in \<open>Probes\<close> as \<open>while_option\<close> loops; a probe that never ends
    makes the pass \<open>None\<close>. Claims C21--C24, C26, C33, C35, C36 (every tier is known
    to the generator; a generated team of at most 30 players is patched; one of more than
    30 makes the pass run forever; the curated slots; every generated centre becomes a
    protected record; the shuffled positions are balanced; a curated team is always
    patched; the pass keeps the number of leagues, teams and players, \<open>doc_sizes\<close>).
  \<^item> \<open>Protect\<close>: the protection contract of the patch pass. \<open>protected_player\<close>
    is the test of line 450; \<open>keeps_protected\<close> relates a roster to its patched
    form (same length, same entry at every protected slot), and each loop
    (\<open>apply_curated\<close>, \<open>fill_slots\<close>, \<open>gen_roster\<close>), each team, each league
    and the whole pass is shown to keep it. Claim C11: a protected record is, after the
    pass, in the same slot of the same team (\<open>team_at\<close>, \<open>roster_of\<close>), unchanged.
  \<^item> \<open>Probes\<close>: the linear probe \<open>first_free\<close> (lines 617--620) and the wrapping probe
    \<open>probe30\<close> (lines 642--644). Claims C25 (the linear probe ends with the least free
    jersey) and C34 (the wrapping probe is equivalent to the bounded cyclic search
    \<open>probe30_ref\<close>, and is \<open>None\<close> exactly when thirty jerseys are taken).
  \<^item> \<open>Loader\<close>: the module-level loader (lines 302--353) as
    \<open>load_rosters\<close> over three \<open>source_file\<close>s (absent, unreadable, parsed), with
    the loops \<open>load_primary\<close>, \<open>load_secondary\<close>, \<open>load_tertiary\<close> (and the
    filter \<open>valid_players\<close>) returning either the table or the exception with the table
    as it stood; \<open>swallow\<close> is the \<open>except Exception: pass\<close>. Each loop refines an
    abstract map (\<open>load_primary_Inr\<close> and its siblings), and together they refine the
    priority merge \<open>roster_priority\<close>. Claims C27--C29 (the priority, in which the
    manual table outranks two of the files; an exception that keeps a partial table and
    skips the later files; the invariant \<open>table_ok\<close> of the table the pass reads).
  \<^item> \<open>Script\<close>: \<open>main\<close> as \<open>main_run\<close> (argument and format exits, the scan, the
    patch pass, the relocation) and the whole run \<open>run_script\<close> with the loader's
    table. Claims C30--C32 (the exits; every one of the first three curated North
    Carolina records makes the player it is applied to a protected record; a document
    without a college league gets no career player).

  \<^medskip>\<^bold>\<open>Modelling decisions.\<close>
  \<^item> Python floats are exact reals. Results agree with IEEE doubles except where an
    exact value lies within rounding error of an integer that \<open>int()\<close> truncates at.
  \<^item> Python ints are \<open>int\<close>; \<open>int(x)\<close> truncates towards zero (\<open>py_int\<close>).
  \<^item> Strings are lists of 8-bit characters, read as code points below 256: case mapping
    and whitespace beyond that range, and Unicode digits in \<open>int(str)\<close>, are not
    modelled. \<open>repr\<close> of strings ignores escaping; \<open>repr\<close> of a float prints
    its exact decimal expansion up to 17 digits rather than Python's shortest
    round-tripping form. Both are used only in the script's name tests, which look for
    letters that neither difference can produce.
  \<^item> The random source. CPython's Mersenne Twister is not modelled: any sequence of
    32-bit outputs is allowed, so every lemma holds for every seed and every state of
    the generator. \<open>getrandbits(k)\<close> is modelled for \<open>k \<le> 32\<close> (one word,
    shifted right), which covers every list the script shuffles or chooses from while
    it has fewer than \<open>2^32\<close> elements; the lemmas that \<open>shuffle\<close> returns carry that
    bound (\<open>shuffle_positions\<close>), while \<open>shuffle_from_mset\<close> needs none. The sources on which everything returns (\<open>msb_clear\<close>: every word below
    \<open>2^31\<close>) make each rejection loop accept its first word; they are a witness that
    the pass returns, not a claim about the twister's output.
  \<^item> The jersey probes are \<open>while_option\<close> loops, so a loop that never ends is
    \<open>None\<close>, and whether a probe returns is proved (\<open>first_free_least\<close>,
    \<open>patch_team_generated_terminates\<close>) or refuted
    (\<open>patch_team_generated_diverges\<close>) as such.
  \<^item> The preservation tests of lines 592--600 and 651--659 compare an updated player
    with a \<open>.copy()\<close> of itself and only decide what is printed: on both branches the
    slot ends as what \<open>update_player\<close> returned, which is what the model stores. The
    counters \<open>total_updated\<close> and \<open>teams_updated\<close> only feed the printing.
  \<^item> A roster file is given by what the loader sees of it (\<open>source_file\<close>); a
    failing \<open>open\<close> or \<open>json.load\<close> is one value, since the handler treats every
    exception alike. The save file is given by its parsed contents.
  \<^item> File I/O, printing and the command line are not modelled beyond the exits they
    cause.

  \<^medskip>\<^bold>\<open>Not modelled.\<close> Printing (every \<open>print\<close> of the script, with the
  counters and the summary of lines 767--781 that only feed it), the reading and writing
  of the save file (\<open>open\<close>, \<open>json.load\<close> of \<open>sys.argv[1]\<close> and \<open>json.dump\<close>
  back to it: the model starts from the parsed document and ends with the one that is
  written), \<open>os.path\<close> tests on the roster files (abstracted to \<open>source_file\<close>), and
  the Mersenne Twister itself (see above). These are I/O with no effect on the document
  beyond what the model's inputs and outputs already represent.
\<close>

end
